theory Spec2Isabelle
  imports Main "HOL-Library.Sublist" "HOL-Library.AList"
begin

section \<open>JavaScript values used by the enrichment pipeline\<close>

text \<open>
  A JavaScript string is a sequence of UTF-16 code units; \<open>length\<close>, \<open>slice\<close>, indexing
  and \<open>includes\<close> all count code units. A string is therefore a list of code units
  (natural numbers); \<open>js ''abc''\<close> writes an ASCII literal.
\<close>

type_synonym jsstring = "nat list"

abbreviation js :: "string \<Rightarrow> jsstring" where
  "js s \<equiv> map of_char s"

text \<open>
  Numbers: the pipeline computes with integers (digit sums, page counts, epoch
  milliseconds) and with \<open>NaN\<close>, which \<open>parseInt\<close> and \<open>Number\<close> return for text that
  denotes no number. A number is a double: it holds 53 significant bits, so every integer
  below \<open>2^53\<close> in magnitude is a number, and a larger integer read from text is rounded
  to the nearest one that is (a tie goes to the even significand). \<open>Num i\<close> is the number
  whose value is the integer \<open>i\<close>. The numbers added, subtracted and multiplied in the
  pipeline are digit sums and epoch milliseconds, which are far below \<open>2^53\<close>.
\<close>

datatype jsnum = NaN | Num int

text \<open>The number of low bits a non-negative integer loses when it is kept in 53 bits.\<close>

function droppedBits :: "int \<Rightarrow> nat" where
  "droppedBits n = (if n < 2 ^ 53 then 0 else Suc (droppedBits (n div 2)))"
  by pat_completeness auto
termination
  by (relation "measure nat") auto

declare droppedBits.simps [simp del]

definition nearestDouble :: "int \<Rightarrow> int" where
  "nearestDouble i =
     (let n = \<bar>i\<bar>;
          s = droppedBits n;
          q = n div 2 ^ s;
          r = n mod 2 ^ s;
          up = (2 * r > 2 ^ s \<or> (2 * r = 2 ^ s \<and> odd q))
      in sgn i * ((if up then q + 1 else q) * 2 ^ s))"

fun jsAdd :: "jsnum \<Rightarrow> jsnum \<Rightarrow> jsnum" where
  "jsAdd (Num a) (Num b) = Num (a + b)"
| "jsAdd _ _ = NaN"

fun jsSub :: "jsnum \<Rightarrow> jsnum \<Rightarrow> jsnum" where
  "jsSub (Num a) (Num b) = Num (a - b)"
| "jsSub _ _ = NaN"

fun jsMul :: "jsnum \<Rightarrow> jsnum \<Rightarrow> jsnum" where
  "jsMul (Num a) (Num b) = Num (a * b)"
| "jsMul _ _ = NaN"

text \<open>The operator \<open>%\<close>: the remainder takes the sign of the dividend; a zero divisor gives \<open>NaN\<close>.\<close>

fun jsRem :: "jsnum \<Rightarrow> jsnum \<Rightarrow> jsnum" where
  "jsRem (Num a) (Num b) = (if b = 0 then NaN else Num (sgn a * (\<bar>a\<bar> mod \<bar>b\<bar>)))"
| "jsRem _ _ = NaN"

text \<open>The comparison \<open><\<close>: false as soon as one side is \<open>NaN\<close>.\<close>

fun jsLess :: "jsnum \<Rightarrow> jsnum \<Rightarrow> bool" where
  "jsLess (Num a) (Num b) = (a < b)"
| "jsLess _ _ = False"

text \<open>The comparison \<open>>=\<close>: false as soon as one side is \<open>NaN\<close>.\<close>

fun jsGeq :: "jsnum \<Rightarrow> jsnum \<Rightarrow> bool" where
  "jsGeq (Num a) (Num b) = (a \<ge> b)"
| "jsGeq _ _ = False"

text \<open>\<open>String(n)\<close> for an integer (decimal digits, below \<open>10^21\<close> in magnitude) and for \<open>NaN\<close>.\<close>

fun natToString :: "nat \<Rightarrow> jsstring" where
  "natToString n = (if n < 10 then [48 + n] else natToString (n div 10) @ [48 + n mod 10])"

declare natToString.simps [simp del]

fun numberToString :: "jsnum \<Rightarrow> jsstring" where
  "numberToString NaN = js ''NaN''"
| "numberToString (Num i) = (if i < 0 then 45 # natToString (nat (- i)) else natToString (nat i))"

text \<open>\<open>a ?? b\<close>: the default replaces \<open>null\<close> and \<open>undefined\<close> only.\<close>

fun orElse :: "'a option \<Rightarrow> 'a \<Rightarrow> 'a" where
  "orElse None d = d"
| "orElse (Some x) d = x"

definition isWhiteSpace :: "nat \<Rightarrow> bool" where
  "isWhiteSpace c \<longleftrightarrow>
     c \<in> set [9, 10, 11, 12, 13, 32, 160, 5760, 8232, 8233, 8239, 8287, 12288, 65279]
     \<or> (8192 \<le> c \<and> c \<le> 8202)"

definition isDigit :: "nat \<Rightarrow> bool" where
  "isDigit c \<longleftrightarrow> 48 \<le> c \<and> c \<le> 57"

definition isAsciiLetter :: "nat \<Rightarrow> bool" where
  "isAsciiLetter c \<longleftrightarrow> (65 \<le> c \<and> c \<le> 90) \<or> (97 \<le> c \<and> c \<le> 122)"

text \<open>The value of a code unit as a digit of the given radix (10 or 16), if it is one.\<close>

definition radixDigit :: "nat \<Rightarrow> nat \<Rightarrow> nat option" where
  "radixDigit r c =
     (if isDigit c then Some (c - 48)
      else if r = 16 \<and> 97 \<le> c \<and> c \<le> 102 then Some (c - 87)
      else if r = 16 \<and> 65 \<le> c \<and> c \<le> 70 then Some (c - 55)
      else None)"

text \<open>
  \<open>parseInt(text)\<close> without a radix: leading white space is skipped, one sign is read, a
  prefix \<open>0x\<close> or \<open>0X\<close> selects radix 16, and the longest run of digits is read as
  an integer, which is rounded to the nearest double; no digit at all gives \<open>NaN\<close>.
  (A run of digits that denotes \<open>2^1024\<close> or more, that is more than 308 decimal digits,
  is \<open>Infinity\<close> on the platform: such a page count is not told apart here from a very
  large one.)
\<close>

definition parseInt :: "jsstring \<Rightarrow> jsnum" where
  "parseInt input =
     (let s = dropWhile isWhiteSpace input;
          neg = (case s of c # _ \<Rightarrow> c = 45 | [] \<Rightarrow> False);
          s1 = (case s of c # rest \<Rightarrow> if c = 43 \<or> c = 45 then rest else s | [] \<Rightarrow> s);
          hex = (case s1 of a # b # _ \<Rightarrow> a = 48 \<and> (b = 120 \<or> b = 88) | _ \<Rightarrow> False);
          r = (if hex then 16 else 10);
          s2 = (if hex then drop 2 s1 else s1);
          z = takeWhile (\<lambda>c. radixDigit r c \<noteq> None) s2;
          v = foldl (\<lambda>a c. a * int r + int (orElse (radixDigit r c) 0)) 0 z
      in if z = [] then NaN else Num (nearestDouble ((if neg then - 1 else 1) * v)))"

text \<open>\<open>text[i]\<close> passed to a function that expects a string: out of range it is \<open>undefined\<close>,
  which converts to the text \<open>undefined\<close>.\<close>

definition charAt :: "jsstring \<Rightarrow> nat \<Rightarrow> jsstring" where
  "charAt s i = (if i < length s then [s ! i] else js ''undefined'')"

text \<open>
  A plain object used as a dictionary. A read \<open>obj[key]\<close> finds the object's own entry,
  and for a key with no own entry the member of that name that every plain object
  inherits from \<open>Object.prototype\<close>: one of the functions below or, for \<open>__proto__\<close>,
  the prototype object itself. Every other key reads as \<open>undefined\<close>.
\<close>

definition objectMembers :: "jsstring list" where
  "objectMembers =
     [js ''constructor'', js ''__defineGetter__'', js ''__defineSetter__'', js ''hasOwnProperty'',
      js ''__lookupGetter__'', js ''__lookupSetter__'', js ''isPrototypeOf'',
      js ''propertyIsEnumerable'', js ''toString'', js ''valueOf'', js ''__proto__'',
      js ''toLocaleString'']"

text \<open>
  The value such a read gives on a table of texts: a text, or the inherited member of the
  given name (\<open>None\<close> is \<open>undefined\<close>). An inherited member is an object, hence truthy.
\<close>

datatype jsvalue = Str jsstring | Member jsstring

definition getProperty :: "(jsstring \<times> jsstring) list \<Rightarrow> jsstring \<Rightarrow> jsvalue option" where
  "getProperty entries key =
     (case map_of entries key of
        Some v \<Rightarrow> Some (Str v)
      | None \<Rightarrow> if key \<in> set objectMembers then Some (Member key) else None)"

fun truthyValue :: "jsvalue option \<Rightarrow> bool" where
  "truthyValue None = False"
| "truthyValue (Some (Str s)) = (s \<noteq> [])"
| "truthyValue (Some (Member k)) = True"

section \<open>ISBN-10 to ISBN-13 conversion\<close>

text \<open>
  \<^verbatim>\<open>
  function isbn10to13(isbn10: string): string {
    const base = "978" + isbn10.slice(0, 9);
    let sum = 0;
    for (let i = 0; i < 12; i++) {
      sum += parseInt(base[i]) * (i % 2 === 0 ? 1 : 3);
    }
    const check = (10 - (sum % 10)) % 10;
    return base + check;
  }
  \<close>
\<close>

definition isbnStep :: "jsstring \<Rightarrow> nat \<Rightarrow> jsnum \<Rightarrow> jsnum" where
  "isbnStep base i acc = jsAdd acc (jsMul (parseInt (charAt base i)) (Num (if i mod 2 = 0 then 1 else 3)))"

definition isbn10to13 :: "jsstring \<Rightarrow> jsstring" where
  "isbn10to13 isbn10 =
     (let base = js ''978'' @ take 9 isbn10;
          total = fold (isbnStep base) [0..<12] (Num 0);
          check = jsRem (jsSub (Num 10) (jsRem total (Num 10))) (Num 10)
      in base @ numberToString check)"

text \<open>The value a digit character stands for.\<close>

definition digitOf :: "nat \<Rightarrow> int" where
  "digitOf c = int c - 48"

section \<open>Genre classification\<close>

text \<open>The genre labels of \<open>GENRE_OPTIONS\<close> (Japanese text), as UTF-16 code units.\<close>

abbreviation literature_criticism :: jsstring where
  "literature_criticism \<equiv> [25991, 23398, 12539, 35413, 35542]"

abbreviation humanities_thought :: jsstring where
  "humanities_thought \<equiv> [20154, 25991, 12539, 24605, 24819]"

abbreviation society_politics_law :: jsstring where
  "society_politics_law \<equiv> [31038, 20250, 12539, 25919, 27835, 12539, 27861, 24459]"

abbreviation nonfiction :: jsstring where
  "nonfiction \<equiv> [12494, 12531, 12501, 12451, 12463, 12471, 12519, 12531]"

abbreviation history_geography :: jsstring where
  "history_geography \<equiv> [27508, 21490, 12539, 22320, 29702]"

abbreviation business_economics :: jsstring where
  "business_economics \<equiv> [12499, 12472, 12493, 12473, 12539, 32076, 28168]"

abbreviation investment_finance_management :: jsstring where
  "investment_finance_management \<equiv> [25237, 36039, 12539, 37329, 34701, 12539, 20250, 31038, 32076, 21942]"

abbreviation science_technology :: jsstring where
  "science_technology \<equiv> [31185, 23398, 12539, 12486, 12463, 12494, 12525, 12472, 12540]"

abbreviation medicine_pharmacy_nursing_dentistry :: jsstring where
  "medicine_pharmacy_nursing_dentistry \<equiv> [21307, 23398, 12539, 34220, 23398, 12539, 30475, 35703, 23398, 12539, 27503, 31185, 23398]"

abbreviation computers_it :: jsstring where
  "computers_it \<equiv> [12467, 12531, 12500, 12517, 12540, 12479, 12539, 73, 84]"

abbreviation art_architecture_design :: jsstring where
  "art_architecture_design \<equiv> [12450, 12540, 12488, 12539, 24314, 31689, 12539, 12487, 12470, 12452, 12531]"

abbreviation hobbies_practical :: jsstring where
  "hobbies_practical \<equiv> [36259, 21619, 12539, 23455, 29992]"

abbreviation sports_outdoor :: jsstring where
  "sports_outdoor \<equiv> [12473, 12509, 12540, 12484, 12539, 12450, 12454, 12488, 12489, 12450]"

abbreviation qualifications_exams_jobs :: jsstring where
  "qualifications_exams_jobs \<equiv> [36039, 26684, 12539, 26908, 23450, 12539, 23601, 32887]"

abbreviation living_health_parenting :: jsstring where
  "living_health_parenting \<equiv> [26286, 12425, 12375, 12539, 20581, 24247, 12539, 23376, 32946, 12390]"

abbreviation travel_guides_maps :: jsstring where
  "travel_guides_maps \<equiv> [26053, 34892, 12460, 12452, 12489, 12539, 12510, 12483, 12503]"

abbreviation languages_dictionaries_yearbooks :: jsstring where
  "languages_dictionaries_yearbooks \<equiv> [35486, 23398, 12539, 36766, 20107, 20856, 12539, 24180, 37969]"

abbreviation english_study :: jsstring where
  "english_study \<equiv> [33521, 35486, 23398, 32722]"

abbreviation education_study_exams :: jsstring where
  "education_study_exams \<equiv> [25945, 32946, 12539, 23398, 21442, 12539, 21463, 39443]"

abbreviation picture_children_books :: jsstring where
  "picture_children_books \<equiv> [32117, 26412, 12539, 20816, 31461, 26360]"

abbreviation comics :: jsstring where
  "comics \<equiv> [12467, 12511, 12483, 12463]"

abbreviation light_novels :: jsstring where
  "light_novels \<equiv> [12521, 12452, 12488, 12494, 12505, 12523]"

abbreviation boys_love :: jsstring where
  "boys_love \<equiv> [12508, 12540, 12452, 12474, 12521, 12502]"

abbreviation talent_photobooks :: jsstring where
  "talent_photobooks \<equiv> [12479, 12524, 12531, 12488, 20889, 30495, 38598]"

abbreviation game_guides :: jsstring where
  "game_guides \<equiv> [12466, 12540, 12512, 25915, 30053, 26412]"

abbreviation entertainment :: jsstring where
  "entertainment \<equiv> [12456, 12531, 12479, 12540, 12486, 12452, 12513, 12531, 12488]"

abbreviation shinsho_bunko_novels :: jsstring where
  "shinsho_bunko_novels \<equiv> [26032, 26360, 12539, 25991, 24235, 12539, 12494, 12505, 12523, 12473]"

abbreviation magazines :: jsstring where
  "magazines \<equiv> [38609, 35468]"

abbreviation scores_music_books :: jsstring where
  "scores_music_books \<equiv> [27005, 35676, 12539, 12473, 12467, 12450, 12539, 38899, 27005, 26360]"

abbreviation calendars_planners :: jsstring where
  "calendars_planners \<equiv> [12459, 12524, 12531, 12480, 12540, 12539, 25163, 24115]"

abbreviation posters :: jsstring where
  "posters \<equiv> [12509, 12473, 12479, 12540]"

abbreviation used_books :: jsstring where
  "used_books \<equiv> [21476, 26412]"

abbreviation antiquarian_rare_books :: jsstring where
  "antiquarian_rare_books \<equiv> [21476, 26360, 12539, 24076, 23569, 26412]"

definition GENRE_OPTIONS :: "jsstring list" where
  "GENRE_OPTIONS =
     [literature_criticism,
      humanities_thought,
      society_politics_law,
      nonfiction,
      history_geography,
      business_economics,
      investment_finance_management,
      science_technology,
      medicine_pharmacy_nursing_dentistry,
      computers_it,
      art_architecture_design,
      hobbies_practical,
      sports_outdoor,
      qualifications_exams_jobs,
      living_health_parenting,
      travel_guides_maps,
      languages_dictionaries_yearbooks,
      english_study,
      education_study_exams,
      picture_children_books,
      comics,
      light_novels,
      boys_love,
      talent_photobooks,
      game_guides,
      entertainment,
      shinsho_bunko_novels,
      magazines,
      scores_music_books,
      calendars_planners,
      posters,
      used_books,
      antiquarian_rare_books]"

definition CATEGORY_MAP :: "(jsstring \<times> jsstring) list" where
  "CATEGORY_MAP =
     [(js ''Fiction'', literature_criticism),
      (js ''Literary Fiction'', literature_criticism),
      (js ''Literature'', literature_criticism),
      (js ''Literary Criticism'', literature_criticism),
      (js ''Poetry'', literature_criticism),
      (js ''Drama'', literature_criticism),
      (js ''Philosophy'', humanities_thought),
      (js ''Psychology'', humanities_thought),
      (js ''Religion'', humanities_thought),
      (js ''Self-Help'', humanities_thought),
      (js ''Body, Mind & Spirit'', humanities_thought),
      (js ''Social Science'', society_politics_law),
      (js ''Political Science'', society_politics_law),
      (js ''Law'', society_politics_law),
      (js ''True Crime'', society_politics_law),
      (js ''Nonfiction'', nonfiction),
      (js ''Biography & Autobiography'', nonfiction),
      (js ''History'', history_geography),
      (js ''Travel'', travel_guides_maps),
      (js ''Business & Economics'', business_economics),
      (js ''Business'', business_economics),
      (js ''Economics'', business_economics),
      (js ''Science'', science_technology),
      (js ''Technology & Engineering'', science_technology),
      (js ''Mathematics'', science_technology),
      (js ''Nature'', science_technology),
      (js ''Medical'', medicine_pharmacy_nursing_dentistry),
      (js ''Health & Fitness'', living_health_parenting),
      (js ''Computers'', computers_it),
      (js ''Art'', art_architecture_design),
      (js ''Architecture'', art_architecture_design),
      (js ''Design'', art_architecture_design),
      (js ''Photography'', art_architecture_design),
      (js ''Music'', scores_music_books),
      (js ''Performing Arts'', entertainment),
      (js ''Crafts & Hobbies'', hobbies_practical),
      (js ''Cooking'', hobbies_practical),
      (js ''Gardening'', hobbies_practical),
      (js ''Games & Activities'', hobbies_practical),
      (js ''Humor'', hobbies_practical),
      (js ''Pets'', hobbies_practical),
      (js ''Sports & Recreation'', sports_outdoor),
      (js ''Education'', education_study_exams),
      (js ''Study Aids'', qualifications_exams_jobs),
      (js ''Language Arts & Disciplines'', languages_dictionaries_yearbooks),
      (js ''Foreign Language Study'', english_study),
      (js ''Juvenile Fiction'', picture_children_books),
      (js ''Juvenile Nonfiction'', picture_children_books),
      (js ''Comics & Graphic Novels'', comics),
      (js ''Young Adult Fiction'', light_novels),
      (js ''Young Adult Nonfiction'', light_novels),
      (js ''Family & Relationships'', living_health_parenting),
      (js ''House & Home'', living_health_parenting),
      (js ''Reference'', languages_dictionaries_yearbooks),
      (js ''Antiques & Collectibles'', antiquarian_rare_books)]"


text \<open>
  The table is an object literal read as a dictionary (\<open>Record<string, string>\<close>):
  \<open>CATEGORY_MAP[cat]\<close> is a property read, and \<open>Object.entries\<close> lists the own entries in
  declaration order. \<open>toLowerCase\<close> is a built-in whose Unicode tables are not part of
  the program; the classifier takes it as a parameter.
\<close>

text \<open>\<open>text.includes(key)\<close>: the key occurs in the text as a contiguous run of code units.\<close>

definition includes_js :: "jsstring \<Rightarrow> jsstring \<Rightarrow> bool" where
  "includes_js s k \<longleftrightarrow> sublist k s"

text \<open>
  \<^verbatim>\<open>
  export function mapCategoryToGenre(categories: string[]): string {
    for (const cat of categories) {
      // Try exact match first
      if (CATEGORY_MAP[cat]) return CATEGORY_MAP[cat];
      // Try partial match
      for (const [key, value] of Object.entries(CATEGORY_MAP)) {
        if (cat.toLowerCase().includes(key.toLowerCase())) return value;
      }
    }
    return categories[0] ?? "";
  }
  \<close>
  The inner loop, the outer loop (\<open>Some\<close> is a \<open>return\<close> from inside the loop), and the
  function.
\<close>

fun partialMatch :: "(jsstring \<Rightarrow> jsstring) \<Rightarrow> jsstring \<Rightarrow> (jsstring \<times> jsstring) list \<Rightarrow> jsstring option" where
  "partialMatch toLowerCase cat [] = None"
| "partialMatch toLowerCase cat ((key, v) # entries) =
     (if includes_js (toLowerCase cat) (toLowerCase key) then Some v
      else partialMatch toLowerCase cat entries)"

fun categoryLoop :: "(jsstring \<Rightarrow> jsstring) \<Rightarrow> jsstring list \<Rightarrow> jsvalue option" where
  "categoryLoop toLowerCase [] = None"
| "categoryLoop toLowerCase (cat # cats) =
     (if truthyValue (getProperty CATEGORY_MAP cat)
      then getProperty CATEGORY_MAP cat
      else (case partialMatch toLowerCase cat CATEGORY_MAP of
              Some v \<Rightarrow> Some (Str v)
            | None \<Rightarrow> categoryLoop toLowerCase cats))"

definition mapCategoryToGenre :: "(jsstring \<Rightarrow> jsstring) \<Rightarrow> jsstring list \<Rightarrow> jsvalue" where
  "mapCategoryToGenre toLowerCase categories =
     (case categoryLoop toLowerCase categories of
        Some v \<Rightarrow> v
      | None \<Rightarrow> (case categories of [] \<Rightarrow> Str [] | c # _ \<Rightarrow> Str c))"

text \<open>
  The classification as the specification words it: the label of one category is its
  exact table entry, else the value of the first table key (in declaration order) that
  occurs in it case-insensitively; the first category that has a label decides.
\<close>

definition exactLabel :: "jsstring \<Rightarrow> jsstring option" where
  "exactLabel cat = map_of CATEGORY_MAP cat"

definition substringLabel :: "(jsstring \<Rightarrow> jsstring) \<Rightarrow> jsstring \<Rightarrow> jsstring option" where
  "substringLabel toLowerCase cat =
     map_option snd (find (\<lambda>(key, v). sublist (toLowerCase key) (toLowerCase cat)) CATEGORY_MAP)"

definition categoryLabel :: "(jsstring \<Rightarrow> jsstring) \<Rightarrow> jsstring \<Rightarrow> jsstring option" where
  "categoryLabel toLowerCase cat =
     (case exactLabel cat of Some v \<Rightarrow> Some v | None \<Rightarrow> substringLabel toLowerCase cat)"

text \<open>\<open>toLowerCase\<close> on ASCII text, for evaluating examples.\<close>

definition asciiLower :: "jsstring \<Rightarrow> jsstring" where
  "asciiLower s = map (\<lambda>c. if 65 \<le> c \<and> c \<le> 90 then c + 32 else c) s"

section \<open>The common result shape\<close>

text \<open>
  \<open>GoogleBookResult\<close> (fields prefixed \<open>r_\<close>). A page count is a number (0: unknown);
  thumbnail and description are a string or \<open>null\<close>.
\<close>

record GoogleBookResult =
  r_id :: jsstring
  r_title :: jsstring
  r_authors :: "jsstring list"
  r_categories :: "jsstring list"
  r_publishedDate :: jsstring
  r_pageCount :: int
  r_thumbnail :: "jsstring option"
  r_description :: "jsstring option"

text \<open>Truthiness of a \<open>string | null | undefined\<close> value: present and not empty.\<close>

fun truthy :: "jsstring option \<Rightarrow> bool" where
  "truthy None = False"
| "truthy (Some s) = (s \<noteq> [])"

text \<open>
  The errors the code can raise: the rate-limit condition, and the failures of the
  platform (a property read on \<open>undefined\<close>, a body that is not JSON, a rejected fetch,
  a text that \<open>encodeURIComponent\<close> cannot encode).
\<close>

datatype error = RateLimitError | TypeError | SyntaxError | FetchError | URIError

text \<open>
  What a \<open>fetch\<close> gives: a rejection (network failure), or a response with a status
  and a body; \<open>res.json()\<close> rejects on a body that is not JSON, and yields \<open>null\<close> or a
  value otherwise. \<open>res.ok\<close> is a status from 200 to 299.
\<close>

datatype 'a jsonBody = NotJson | JsonNull | JsonValue 'a

datatype 'a fetched = NetworkError | Response nat "'a jsonBody"

definition httpOk :: "nat \<Rightarrow> bool" where
  "httpOk status \<longleftrightarrow> 200 \<le> status \<and> status \<le> 299"

section \<open>The ISBN-registry adapter (OpenBD)\<close>

text \<open>
  The response types of the registry. A field of a JSON element can be absent or
  \<open>null\<close>; where the code tests or guards a field (\<open>!summary.title\<close>, \<open>book.onix?.\<close>,
  \<open>descText?.Text?.\<close>) it is an \<open>option\<close>. The declared type makes \<open>summary\<close>
  mandatory; a partial element without it is \<open>summary = None\<close>. The field \<open>hanmoto\<close> is
  never read and is left out.
\<close>

record OpenBDSummary =
  s_isbn :: "jsstring option"
  s_title :: "jsstring option"
  s_author :: "jsstring option"
  s_publisher :: "jsstring option"
  s_pubdate :: "jsstring option"
  s_cover :: "jsstring option"
  s_volume :: "jsstring option"
  s_series :: "jsstring option"

record OpenBDExtent =
  ExtentType :: jsstring
  ExtentValue :: jsstring
  ExtentUnit :: jsstring

record OpenBDTextContent =
  TextType :: jsstring
  Text :: "jsstring option"

record OpenBDSubject =
  SubjectSchemeIdentifier :: jsstring
  SubjectCode :: jsstring
  SubjectHeadingText :: "jsstring option"

record OnixDescriptiveDetail =
  Extent :: "OpenBDExtent list option"
  Subject :: "OpenBDSubject list option"

record OnixCollateralDetail =
  TextContent :: "OpenBDTextContent list option"

record Onix =
  DescriptiveDetail :: "OnixDescriptiveDetail option"
  CollateralDetail :: "OnixCollateralDetail option"

record OpenBDResponse =
  summary :: "OpenBDSummary option"
  onix :: "Onix option"

type_synonym openbd_fetched = "OpenBDResponse option list fetched"

definition CCODE_GENRE_MAP :: "(jsstring \<times> jsstring) list" where
  "CCODE_GENRE_MAP =
     [(js ''10'', humanities_thought),
      (js ''11'', humanities_thought),
      (js ''12'', humanities_thought),
      (js ''14'', humanities_thought),
      (js ''15'', humanities_thought),
      (js ''16'', humanities_thought),
      (js ''20'', history_geography),
      (js ''21'', history_geography),
      (js ''22'', history_geography),
      (js ''23'', history_geography),
      (js ''26'', travel_guides_maps),
      (js ''30'', society_politics_law),
      (js ''31'', society_politics_law),
      (js ''32'', society_politics_law),
      (js ''36'', society_politics_law),
      (js ''33'', business_economics),
      (js ''34'', business_economics),
      (js ''37'', education_study_exams),
      (js ''40'', science_technology),
      (js ''41'', science_technology),
      (js ''42'', science_technology),
      (js ''43'', science_technology),
      (js ''44'', science_technology),
      (js ''45'', science_technology),
      (js ''47'', medicine_pharmacy_nursing_dentistry),
      (js ''49'', medicine_pharmacy_nursing_dentistry),
      (js ''50'', science_technology),
      (js ''51'', science_technology),
      (js ''52'', science_technology),
      (js ''53'', science_technology),
      (js ''54'', science_technology),
      (js ''55'', computers_it),
      (js ''58'', living_health_parenting),
      (js ''59'', living_health_parenting),
      (js ''60'', business_economics),
      (js ''61'', business_economics),
      (js ''63'', business_economics),
      (js ''70'', art_architecture_design),
      (js ''71'', art_architecture_design),
      (js ''72'', art_architecture_design),
      (js ''73'', art_architecture_design),
      (js ''74'', art_architecture_design),
      (js ''75'', art_architecture_design),
      (js ''76'', scores_music_books),
      (js ''77'', entertainment),
      (js ''78'', sports_outdoor),
      (js ''79'', comics),
      (js ''80'', languages_dictionaries_yearbooks),
      (js ''81'', languages_dictionaries_yearbooks),
      (js ''82'', english_study),
      (js ''83'', english_study),
      (js ''84'', english_study),
      (js ''85'', english_study),
      (js ''86'', english_study),
      (js ''87'', english_study),
      (js ''88'', english_study),
      (js ''89'', english_study),
      (js ''90'', literature_criticism),
      (js ''91'', literature_criticism),
      (js ''92'', literature_criticism),
      (js ''93'', literature_criticism),
      (js ''95'', literature_criticism),
      (js ''97'', literature_criticism),
      (js ''98'', picture_children_books)]"

text \<open>
  \<^verbatim>\<open>
  function genreFromCCode(subjects: OpenBDSubject[]): string {
    for (const sub of subjects) {
      if (sub.SubjectSchemeIdentifier === "78" && sub.SubjectCode) {
        const code = sub.SubjectCode;
        if (code.length >= 4) {
          const content = code.slice(-2);
          if (CCODE_GENRE_MAP[content]) return CCODE_GENRE_MAP[content];
        }
      }
    }
    return "";
  }
  \<close>
  The key \<open>content\<close> has two code units and so names no inherited member: the read is a
  lookup among the own entries of the table.
\<close>

fun genreFromCCode :: "OpenBDSubject list \<Rightarrow> jsstring" where
  "genreFromCCode [] = []"
| "genreFromCCode (sub # subjects) =
     (let code = SubjectCode sub;
          hit = (if SubjectSchemeIdentifier sub = js ''78'' \<and> code \<noteq> [] \<and> length code \<ge> 4
                 then map_of CCODE_GENRE_MAP (drop (length code - 2) code) else None)
      in case hit of
           Some genre \<Rightarrow> if genre \<noteq> [] then genre else genreFromCCode subjects
         | None \<Rightarrow> genreFromCCode subjects)"

text \<open>
  \<open>text.replace(/<[^>]*>/g, "")\<close>: every \<open><\<close> that has a \<open>>\<close> after it is removed
  together with the text up to the first such \<open>>\<close>.
\<close>

function stripTags :: "jsstring \<Rightarrow> jsstring" where
  "stripTags [] = []"
| "stripTags (c # s) =
     (if c = 60 \<and> 62 \<in> set s then stripTags (tl (dropWhile (\<lambda>d. d \<noteq> 62) s))
      else c # stripTags s)"
  by pat_completeness auto
termination
proof (relation "measure length")
  show "wf (measure length)" by simp
next
  fix c :: nat and s :: jsstring
  have "length (tl (dropWhile (\<lambda>d. d \<noteq> 62) s)) \<le> length s"
    using length_dropWhile_le [of "\<lambda>d. d \<noteq> 62" s] by simp
  then show "(tl (dropWhile (\<lambda>d. d \<noteq> 62) s), c # s) \<in> measure length" by simp
next
  fix c :: nat and s :: jsstring
  show "(s, c # s) \<in> measure length" by simp
qed

text \<open>The published date: \<open>YYYYMMDD\<close> and \<open>YYYYMM\<close> are hyphenated, anything else passes.\<close>

definition formatPubdate :: "jsstring option \<Rightarrow> jsstring" where
  "formatPubdate pubdate =
     (case pubdate of
        None \<Rightarrow> []
      | Some pd \<Rightarrow>
          if pd = [] then []
          else if length pd = 8 then take 4 pd @ js ''-'' @ take 2 (drop 4 pd) @ js ''-'' @ take 2 (drop 6 pd)
          else if length pd = 6 then take 4 pd @ js ''-'' @ take 2 (drop 4 pd)
          else pd)"

text \<open>\<open>isbn.replace(/[-\s]/g, "")\<close>, then the normalisation to 13 digits.\<close>

definition normalizeIsbn :: "jsstring \<Rightarrow> jsstring" where
  "normalizeIsbn isbn =
     (let cleanIsbn = filter (\<lambda>c. c \<noteq> 45 \<and> \<not> isWhiteSpace c) isbn
      in if length cleanIsbn = 10 then isbn10to13 cleanIsbn else cleanIsbn)"

text \<open>
  The body of \<open>searchByIsbnOpenBD\<close> after the title check: the result built from one
  element of the response, whose title is \<open>title\<close>.
\<close>

definition openBDResult :: "jsstring \<Rightarrow> jsstring \<Rightarrow> OpenBDSummary \<Rightarrow> Onix option \<Rightarrow> GoogleBookResult" where
  "openBDResult isbn13 title sm ox =
     (let dd = (case ox of None \<Rightarrow> None | Some x \<Rightarrow> DescriptiveDetail x);
          cd = (case ox of None \<Rightarrow> None | Some x \<Rightarrow> CollateralDetail x);
          extents = (case dd of None \<Rightarrow> [] | Some d \<Rightarrow> (case Extent d of None \<Rightarrow> [] | Some es \<Rightarrow> es));
          pageCount = (case find (\<lambda>e. ExtentType e = js ''11'') extents of
                         None \<Rightarrow> 0
                       | Some e \<Rightarrow> (case parseInt (ExtentValue e) of NaN \<Rightarrow> 0 | Num n \<Rightarrow> n));
          texts = (case cd of None \<Rightarrow> [] | Some c \<Rightarrow> (case TextContent c of None \<Rightarrow> [] | Some ts \<Rightarrow> ts));
          descText = (case find (\<lambda>t. TextType t = js ''03'') texts of
                        Some t \<Rightarrow> Some t
                      | None \<Rightarrow> find (\<lambda>t. TextType t = js ''02'') texts);
          description = (case descText of
                           None \<Rightarrow> None
                         | Some t \<Rightarrow> map_option stripTags (Text t));
          subjects = (case dd of None \<Rightarrow> [] | Some d \<Rightarrow> (case Subject d of None \<Rightarrow> [] | Some ss \<Rightarrow> ss));
          genre = genreFromCCode subjects
      in \<lparr> r_id = js ''openbd-'' @ isbn13,
           r_title = title,
           r_authors = (case s_author sm of None \<Rightarrow> [] | Some a \<Rightarrow> if a \<noteq> [] then [a] else []),
           r_categories = (if genre \<noteq> [] then [genre] else []),
           r_publishedDate = formatPubdate (s_pubdate sm),
           r_pageCount = pageCount,
           r_thumbnail = (if truthy (s_cover sm) then s_cover sm else None),
           r_description = description \<rparr>)"

text \<open>
  \<open>searchByIsbnOpenBD\<close>, given what the fetch of the registry URL gives. \<open>Inl\<close> is a
  raised error (a rejected promise), \<open>Inr None\<close> is \<open>null\<close>.
  \<^verbatim>\<open>
    const res = await fetch(`https://api.openbd.jp/v1/get?isbn=${isbn13}`);
    if (!res.ok) return null;
    const data: (OpenBDResponse | null)[] = await res.json();
    if (!data || !data[0]) return null;
    const book = data[0];
    const summary = book.summary;
    if (!summary.title) return null;
  \<close>
\<close>

definition searchByIsbnOpenBD :: "jsstring \<Rightarrow> openbd_fetched \<Rightarrow> error + GoogleBookResult option" where
  "searchByIsbnOpenBD isbn reply =
     (case reply of
        NetworkError \<Rightarrow> Inl FetchError
      | Response status body \<Rightarrow>
          if \<not> httpOk status then Inr None
          else (case body of
                  NotJson \<Rightarrow> Inl SyntaxError
                | JsonNull \<Rightarrow> Inr None
                | JsonValue data \<Rightarrow>
                   (case data of
                      [] \<Rightarrow> Inr None
                    | None # _ \<Rightarrow> Inr None
                    | Some book # _ \<Rightarrow>
                       (case summary book of
                          None \<Rightarrow> Inl TypeError
                        | Some sm \<Rightarrow>
                           (case s_title sm of
                              None \<Rightarrow> Inr None
                            | Some title \<Rightarrow>
                                if title = [] then Inr None
                                else Inr (Some (openBDResult (normalizeIsbn isbn) title sm (onix book))))))))"

section \<open>The general-search adapter (Google Books) and the ISBN merge engine\<close>

record ImageLinks =
  smallThumbnail :: "jsstring option"
  thumbnail :: "jsstring option"

record VolumeInfo =
  v_title :: "jsstring option"
  v_authors :: "jsstring list option"
  v_categories :: "jsstring list option"
  v_publishedDate :: "jsstring option"
  v_pageCount :: "int option"
  v_description :: "jsstring option"
  v_imageLinks :: "ImageLinks option"

record VolumeItem =
  v_id :: jsstring
  volumeInfo :: VolumeInfo

text \<open>The response body of the volumes endpoint: an object whose \<open>items\<close> may be absent.\<close>

record Volumes =
  items :: "VolumeItem list option"

type_synonym google_fetched = "Volumes fetched"

definition mapVolumeToResult :: "VolumeItem \<Rightarrow> GoogleBookResult" where
  "mapVolumeToResult item =
     (let info = volumeInfo item
      in \<lparr> r_id = v_id item,
           r_title = orElse (v_title info) [],
           r_authors = orElse (v_authors info) [],
           r_categories = orElse (v_categories info) [],
           r_publishedDate = orElse (v_publishedDate info) [],
           r_pageCount = orElse (v_pageCount info) 0,
           r_thumbnail =
             (case v_imageLinks info of
                None \<Rightarrow> None
              | Some l \<Rightarrow> (case thumbnail l of Some t \<Rightarrow> Some t | None \<Rightarrow> smallThumbnail l)),
           r_description = v_description info \<rparr>)"

text \<open>
  \<open>searchBooks\<close>, given what the fetch gives; the caller has checked that the query is
  not blank (\<open>searchBooks\<close> below).
  \<^verbatim>\<open>
    const res = await fetch(url);
    if (res.status === 429) throw new RateLimitError();
    if (!res.ok) return [];
    const data = await res.json();
    if (!data.items) return [];
    return data.items.map((item: VolumeItem) => mapVolumeToResult(item));
  \<close>
\<close>

definition searchBooksFetched :: "google_fetched \<Rightarrow> error + GoogleBookResult list" where
  "searchBooksFetched reply =
     (case reply of
        NetworkError \<Rightarrow> Inl FetchError
      | Response status body \<Rightarrow>
          if status = 429 then Inl RateLimitError
          else if \<not> httpOk status then Inr []
          else (case body of
                  NotJson \<Rightarrow> Inl SyntaxError
                | JsonNull \<Rightarrow> Inl TypeError
                | JsonValue data \<Rightarrow>
                   (case items data of None \<Rightarrow> Inr [] | Some its \<Rightarrow> Inr (map mapVolumeToResult its))))"

text \<open>
  The Google side of \<open>searchByIsbn\<close>: the \<open>then\<close> callback, and the \<open>catch\<close> that keeps
  the rate limit as the marker \<open>RATE_LIMITED\<close> and turns every other failure into \<open>null\<close>.
  \<^verbatim>\<open>
    .then(async (res) => {
      if (res.status === 429) throw new RateLimitError();
      if (!res.ok) return null;
      const data = await res.json();
      if (!data.items || data.items.length === 0) return null;
      return mapVolumeToResult(data.items[0]);
    })
    .catch((err) => {
      if (err instanceof RateLimitError) return "RATE_LIMITED" as const;
      return null;
    });
  \<close>
\<close>

definition googleIsbnThen :: "google_fetched \<Rightarrow> error + GoogleBookResult option" where
  "googleIsbnThen reply =
     (case reply of
        NetworkError \<Rightarrow> Inl FetchError
      | Response status body \<Rightarrow>
          if status = 429 then Inl RateLimitError
          else if \<not> httpOk status then Inr None
          else (case body of
                  NotJson \<Rightarrow> Inl SyntaxError
                | JsonNull \<Rightarrow> Inl TypeError
                | JsonValue data \<Rightarrow>
                   (case items data of
                      None \<Rightarrow> Inr None
                    | Some [] \<Rightarrow> Inr None
                    | Some (item # _) \<Rightarrow> Inr (Some (mapVolumeToResult item)))))"

datatype googleRaw = RATE_LIMITED | Raw "GoogleBookResult option"

definition googlePromise :: "google_fetched \<Rightarrow> googleRaw" where
  "googlePromise reply =
     (case googleIsbnThen reply of
        Inl err \<Rightarrow> (if err = RateLimitError then RATE_LIMITED else Raw None)
      | Inr r \<Rightarrow> Raw r)"

text \<open>The registry side: \<open>.catch(() => null)\<close> turns every failure into \<open>null\<close>.\<close>

definition openBDPromise :: "jsstring \<Rightarrow> openbd_fetched \<Rightarrow> GoogleBookResult option" where
  "openBDPromise isbn reply =
     (case searchByIsbnOpenBD isbn reply of Inl err \<Rightarrow> None | Inr r \<Rightarrow> r)"

text \<open>
  The merge of a registry result with a search result: five guarded assignments on the
  registry result, in the order of the source.
\<close>

definition mergeGoogle :: "GoogleBookResult \<Rightarrow> GoogleBookResult \<Rightarrow> GoogleBookResult" where
  "mergeGoogle openBD google =
     (let r1 = (if \<not> truthy (r_thumbnail openBD) \<and> truthy (r_thumbnail google)
                then openBD\<lparr>r_thumbnail := r_thumbnail google\<rparr> else openBD);
          r2 = (if \<not> truthy (r_description r1) \<and> truthy (r_description google)
                then r1\<lparr>r_description := r_description google\<rparr> else r1);
          r3 = (if r_pageCount r2 = 0 \<and> r_pageCount google \<noteq> 0
                then r2\<lparr>r_pageCount := r_pageCount google\<rparr> else r2);
          r4 = (if (r_publishedDate r3 = [] \<or> length (r_publishedDate r3) \<le> 4)
                   \<and> r_publishedDate google \<noteq> []
                then r3\<lparr>r_publishedDate := r_publishedDate google\<rparr> else r3);
          r5 = (if length (r_categories r4) = 0 \<and> length (r_categories google) > 0
                then r4\<lparr>r_categories := r_categories google\<rparr> else r4)
      in r5)"

text \<open>
  \<open>searchByIsbn\<close>, given what the two fetches give: the two promises, then the merge
  of what they resolve to.
  \<^verbatim>\<open>
    const googleResult = googleRaw === "RATE_LIMITED" ? null : googleRaw;
    if (openBDResult) {
      if (googleResult) { ... }
      return openBDResult;
    }
    // OpenBD had nothing - if Google was rate-limited, throw
    if (googleRaw === "RATE_LIMITED") throw new RateLimitError();
    return googleResult;
  \<close>
\<close>

definition mergeResults :: "GoogleBookResult option \<Rightarrow> googleRaw \<Rightarrow> error + GoogleBookResult option" where
  "mergeResults openBD googleRaw =
     (let googleResult = (case googleRaw of RATE_LIMITED \<Rightarrow> None | Raw g \<Rightarrow> g)
      in case openBD of
           Some ob \<Rightarrow>
             (case googleResult of
                Some g \<Rightarrow> Inr (Some (mergeGoogle ob g))
              | None \<Rightarrow> Inr (Some ob))
         | None \<Rightarrow>
             if googleRaw = RATE_LIMITED then Inl RateLimitError else Inr googleResult)"

definition searchByIsbn :: "jsstring \<Rightarrow> openbd_fetched \<Rightarrow> google_fetched \<Rightarrow> error + GoogleBookResult option" where
  "searchByIsbn isbn openbdReply googleReply =
     mergeResults (openBDPromise isbn openbdReply) (googlePromise googleReply)"

section \<open>The record store\<close>

text \<open>
  \<open>Book\<close> as the interface declares it (fields prefixed \<open>b_\<close>), with two additions.
  The genre: the scheduler can write a genre that is not a text (see \<open>fieldUpdates\<close>);
  \<open>JSON.stringify\<close> leaves out a key whose value is a function, and writes the prototype
  object as \<open>{}\<close>, so that a genre read back from the store is a text, missing, or an
  empty object. The key \<open>publishedYear\<close>: it is no part of the interface, but a record of
  an older shape can carry it, and \<open>getBooks\<close> leaves it in place when the record has a
  published date as well (\<open>Absent\<close>: the record has no such key; \<open>Present None\<close>: the
  value is \<open>null\<close>).
\<close>

datatype ReadingStatus = tsundoku | reading | finished | wishlist

datatype genreField = GenreText jsstring | GenreMissing | GenreObject

datatype 'a field = Absent | Present 'a

text \<open>Truthiness of a stored genre, and the stored form of a value written as genre.\<close>

fun genreTruthy :: "genreField \<Rightarrow> bool" where
  "genreTruthy (GenreText s) = (s \<noteq> [])"
| "genreTruthy GenreMissing = False"
| "genreTruthy GenreObject = True"

fun storedGenre :: "jsvalue \<Rightarrow> genreField" where
  "storedGenre (Str s) = GenreText s"
| "storedGenre (Member k) = (if k = js ''__proto__'' then GenreObject else GenreMissing)"

record Book =
  b_id :: jsstring
  b_title :: jsstring
  b_author :: jsstring
  b_genre :: genreField
  b_publishedDate :: jsstring
  b_status :: ReadingStatus
  b_pageCount :: int
  b_rating :: int
  b_memo :: jsstring
  b_description :: jsstring
  b_thumbnail :: "jsstring option"
  b_purchaseUrl :: jsstring
  b_finishedDate :: "jsstring option"
  b_createdAt :: jsstring
  b_updatedAt :: jsstring
  b_publishedYear :: "jsstring option field"

text \<open>
  A record as the store holds it (fields prefixed \<open>sb_\<close>). The store is JSON text,
  written by this or by an earlier version of the program, and \<open>getBooks\<close> expects records
  of older shapes: a status \<open>unread\<close>, a key \<open>publishedYear\<close> in place of
  \<open>publishedDate\<close>, and records that lack \<open>publishedDate\<close>, \<open>purchaseUrl\<close>,
  \<open>thumbnail\<close>, \<open>description\<close> or \<open>pageCount\<close>. In a stored record the status can
  therefore be the older \<open>unread\<close>, and each of these keys can be absent.
\<close>

datatype statusField = LegacyUnread | Status ReadingStatus

record StoredBook =
  sb_id :: jsstring
  sb_title :: jsstring
  sb_author :: jsstring
  sb_genre :: genreField
  sb_publishedDate :: "jsstring field"
  sb_status :: statusField
  sb_pageCount :: "int field"
  sb_rating :: int
  sb_memo :: jsstring
  sb_description :: "jsstring field"
  sb_thumbnail :: "jsstring option field"
  sb_purchaseUrl :: "jsstring field"
  sb_finishedDate :: "jsstring option"
  sb_createdAt :: jsstring
  sb_updatedAt :: jsstring
  sb_publishedYear :: "jsstring option field"

text \<open>\<open>JSON.stringify\<close> of a record in memory: what \<open>saveBooks\<close> writes for it.\<close>

definition toStored :: "Book \<Rightarrow> StoredBook" where
  "toStored b =
     \<lparr> sb_id = b_id b, sb_title = b_title b, sb_author = b_author b, sb_genre = b_genre b,
       sb_publishedDate = Present (b_publishedDate b), sb_status = Status (b_status b),
       sb_pageCount = Present (b_pageCount b), sb_rating = b_rating b, sb_memo = b_memo b,
       sb_description = Present (b_description b), sb_thumbnail = Present (b_thumbnail b),
       sb_purchaseUrl = Present (b_purchaseUrl b), sb_finishedDate = b_finishedDate b,
       sb_createdAt = b_createdAt b, sb_updatedAt = b_updatedAt b,
       sb_publishedYear = b_publishedYear b \<rparr>"

text \<open>\<open>Partial<Book>\<close>: every key may be absent (fields prefixed \<open>p_\<close>).\<close>

record BookPatch =
  p_id :: "jsstring option"
  p_title :: "jsstring option"
  p_author :: "jsstring option"
  p_genre :: "jsvalue option"
  p_publishedDate :: "jsstring option"
  p_status :: "ReadingStatus option"
  p_pageCount :: "int option"
  p_rating :: "int option"
  p_memo :: "jsstring option"
  p_description :: "jsstring option"
  p_thumbnail :: "jsstring option option"
  p_purchaseUrl :: "jsstring option"
  p_finishedDate :: "jsstring option option"
  p_createdAt :: "jsstring option"
  p_updatedAt :: "jsstring option"

definition emptyPatch :: BookPatch where
  "emptyPatch =
     \<lparr> p_id = None, p_title = None, p_author = None, p_genre = None, p_publishedDate = None,
       p_status = None, p_pageCount = None, p_rating = None, p_memo = None,
       p_description = None, p_thumbnail = None, p_purchaseUrl = None, p_finishedDate = None,
       p_createdAt = None, p_updatedAt = None \<rparr>"

text \<open>\<open>Object.keys(updates)\<close>: the names of the keys that are present.\<close>

definition patchKeys :: "BookPatch \<Rightarrow> string list" where
  "patchKeys u =
     (if p_id u \<noteq> None then [''id''] else [])
     @ (if p_title u \<noteq> None then [''title''] else [])
     @ (if p_author u \<noteq> None then [''author''] else [])
     @ (if p_genre u \<noteq> None then [''genre''] else [])
     @ (if p_publishedDate u \<noteq> None then [''publishedDate''] else [])
     @ (if p_status u \<noteq> None then [''status''] else [])
     @ (if p_pageCount u \<noteq> None then [''pageCount''] else [])
     @ (if p_rating u \<noteq> None then [''rating''] else [])
     @ (if p_memo u \<noteq> None then [''memo''] else [])
     @ (if p_description u \<noteq> None then [''description''] else [])
     @ (if p_thumbnail u \<noteq> None then [''thumbnail''] else [])
     @ (if p_purchaseUrl u \<noteq> None then [''purchaseUrl''] else [])
     @ (if p_finishedDate u \<noteq> None then [''finishedDate''] else [])
     @ (if p_createdAt u \<noteq> None then [''createdAt''] else [])
     @ (if p_updatedAt u \<noteq> None then [''updatedAt''] else [])"

text \<open>
  \<open>{ ...book, ...updates, updatedAt: now }\<close>, with the genre as \<open>saveBooks\<close> stores
  it. A patch has no key \<open>publishedYear\<close>.
\<close>

definition applyPatch :: "Book \<Rightarrow> BookPatch \<Rightarrow> jsstring \<Rightarrow> Book" where
  "applyPatch b u now =
     \<lparr> b_id = orElse (p_id u) (b_id b),
       b_title = orElse (p_title u) (b_title b),
       b_author = orElse (p_author u) (b_author b),
       b_genre = (case p_genre u of None \<Rightarrow> b_genre b | Some v \<Rightarrow> storedGenre v),
       b_publishedDate = orElse (p_publishedDate u) (b_publishedDate b),
       b_status = orElse (p_status u) (b_status b),
       b_pageCount = orElse (p_pageCount u) (b_pageCount b),
       b_rating = orElse (p_rating u) (b_rating b),
       b_memo = orElse (p_memo u) (b_memo b),
       b_description = orElse (p_description u) (b_description b),
       b_thumbnail = orElse (p_thumbnail u) (b_thumbnail b),
       b_purchaseUrl = orElse (p_purchaseUrl u) (b_purchaseUrl b),
       b_finishedDate = orElse (p_finishedDate u) (b_finishedDate b),
       b_createdAt = orElse (p_createdAt u) (b_createdAt b),
       b_updatedAt = now,
       b_publishedYear = b_publishedYear b \<rparr>"

section \<open>The environment and the state of a scheduler run\<close>

text \<open>
  The environment of a run: the built-ins whose tables are not part of the program
  (\<open>toLowerCase\<close>, \<open>Number\<close>, \<open>toISOString\<close>; \<open>Number\<close> yields an integer, as the
  program writes timestamps, or \<open>NaN\<close>), the clock (\<open>clock n\<close> is what the \<open>n\<close>-th
  reading of the time gives; nothing is assumed about it), and the two providers
  (\<open>openbdNet n\<close> and \<open>googleNet n\<close> are what a fetch gives when \<open>n\<close> requests were issued
  before it).
\<close>

record env =
  toLowerCase :: "jsstring \<Rightarrow> jsstring"
  toNumber :: "jsstring \<Rightarrow> jsnum"
  toISOString :: "int \<Rightarrow> jsstring"
  clock :: "nat \<Rightarrow> int"
  openbdNet :: "nat \<Rightarrow> openbd_fetched"
  googleNet :: "nat \<Rightarrow> google_fetched"

datatype request = GoogleIsbnRequest jsstring | OpenBDRequest jsstring | GoogleSearchRequest jsstring

text \<open>
  The stored negative-result cache: an empty text, a text that is not JSON, or the JSON of
  an object from record ids to timestamps (its entries in key order; the ids are not
  array indices, so that this is the order in which the entries were added).
\<close>

datatype stored_cache = CacheEmptyText | CacheNotJson | CacheJson "(jsstring \<times> int) list"

text \<open>
  The state: the three \<open>localStorage\<close> slots (\<open>None\<close>: the key is absent), the number of
  clock readings so far, and the requests issued so far. During a run nothing else writes
  the three slots.
\<close>

record world =
  books_slot :: "StoredBook list option"
  backfill_ts :: "jsstring option"
  nodata_slot :: "stored_cache option"
  ticks :: nat
  requests :: "request list"

definition ONE_DAY :: int where
  "ONE_DAY = 24 * 60 * 60 * 1000"

definition SEVEN_DAYS :: int where
  "SEVEN_DAYS = 7 * ONE_DAY"

definition MAX_GOOGLE_PER_SESSION :: nat where
  "MAX_GOOGLE_PER_SESSION = 30"

text \<open>\<open>Date.now()\<close>.\<close>

definition dateNow :: "env \<Rightarrow> world \<Rightarrow> int \<times> world" where
  "dateNow E w = (clock E (ticks w), w\<lparr>ticks := Suc (ticks w)\<rparr>)"

text \<open>
  \<open>getBooks\<close> repairs every record of an older shape, in this order:
  \<^verbatim>\<open>
    for (const book of books) {
      if ((book.status as string) === "unread") { book.status = "tsundoku"; migrated = true; }
      const raw = book as any;
      if (raw.publishedYear !== undefined && raw.publishedDate === undefined) {
        book.publishedDate = raw.publishedYear ?? "";
        delete raw.publishedYear;
        migrated = true;
      }
      if (book.publishedDate === undefined) { book.publishedDate = ""; migrated = true; }
      if (book.purchaseUrl === undefined) { book.purchaseUrl = ""; migrated = true; }
      if (book.thumbnail === undefined) { book.thumbnail = null; migrated = true; }
      if (book.description === undefined) { (book as Book).description = ""; migrated = true; }
      if (book.pageCount === undefined) { book.pageCount = 0; migrated = true; }
      ...
    }
  \<close>
  \<open>isLegacy\<close>: one of these repairs applies to the stored record (and sets \<open>migrated\<close>).
  \<open>repairLegacy\<close>: the record in memory after them; it has every key of the interface.
\<close>

definition isLegacy :: "StoredBook \<Rightarrow> bool" where
  "isLegacy s \<longleftrightarrow>
     sb_status s = LegacyUnread
     \<or> (sb_publishedYear s \<noteq> Absent \<and> sb_publishedDate s = Absent)
     \<or> sb_publishedDate s = Absent
     \<or> sb_purchaseUrl s = Absent
     \<or> sb_thumbnail s = Absent
     \<or> sb_description s = Absent
     \<or> sb_pageCount s = Absent"

definition repairLegacy :: "StoredBook \<Rightarrow> Book" where
  "repairLegacy s =
     \<lparr> b_id = sb_id s,
       b_title = sb_title s,
       b_author = sb_author s,
       b_genre = sb_genre s,
       b_publishedDate =
         (case sb_publishedDate s of
            Present d \<Rightarrow> d
          | Absent \<Rightarrow> (case sb_publishedYear s of Present (Some y) \<Rightarrow> y | Present None \<Rightarrow> [] | Absent \<Rightarrow> [])),
       b_status = (case sb_status s of LegacyUnread \<Rightarrow> tsundoku | Status st \<Rightarrow> st),
       b_pageCount = (case sb_pageCount s of Absent \<Rightarrow> 0 | Present n \<Rightarrow> n),
       b_rating = sb_rating s,
       b_memo = sb_memo s,
       b_description = (case sb_description s of Absent \<Rightarrow> [] | Present d \<Rightarrow> d),
       b_thumbnail = (case sb_thumbnail s of Absent \<Rightarrow> None | Present t \<Rightarrow> t),
       b_purchaseUrl = (case sb_purchaseUrl s of Absent \<Rightarrow> [] | Present u \<Rightarrow> u),
       b_finishedDate = sb_finishedDate s,
       b_createdAt = sb_createdAt s,
       b_updatedAt = sb_updatedAt s,
       b_publishedYear = (if sb_publishedDate s = Absent then Absent else sb_publishedYear s) \<rparr>"

text \<open>
  The last repair of the loop body is the genre migration.
  \<^verbatim>\<open>
    if (book.genre && !validGenres.has(book.genre)) {
      const mapped = mapCategoryToGenre([book.genre]);
      if (validGenres.has(mapped)) { book.genre = mapped; migrated = true; }
    }
  \<close>
  A genre that is an empty object is truthy and no valid genre, and \<open>mapCategoryToGenre\<close>
  raises on it (\<open>cat.toLowerCase\<close> is not a function): \<open>getBooks\<close> then raises before it
  writes anything. A mapped value that is no text is no valid genre.
\<close>

definition needsGenreMigration :: "env \<Rightarrow> Book \<Rightarrow> bool" where
  "needsGenreMigration E b \<longleftrightarrow>
     (case b_genre b of
        GenreText g \<Rightarrow>
          g \<noteq> [] \<and> g \<notin> set GENRE_OPTIONS
          \<and> (case mapCategoryToGenre (toLowerCase E) [g] of
                 Str m \<Rightarrow> m \<in> set GENRE_OPTIONS
               | Member k \<Rightarrow> False)
      | GenreMissing \<Rightarrow> False
      | GenreObject \<Rightarrow> False)"

definition migrateGenre :: "env \<Rightarrow> Book \<Rightarrow> Book" where
  "migrateGenre E b =
     (case b_genre b of
        GenreText g \<Rightarrow>
          if needsGenreMigration E b
          then b\<lparr>b_genre := storedGenre (mapCategoryToGenre (toLowerCase E) [g])\<rparr> else b
      | GenreMissing \<Rightarrow> b
      | GenreObject \<Rightarrow> b)"

text \<open>
  The loop body on one stored record: whether it sets \<open>migrated\<close>, and the record in memory
  after it. Then \<open>getBooks\<close>; the store is written only when a record was migrated.
  \<^verbatim>\<open>
    const data = localStorage.getItem(STORAGE_KEY);
    if (!data) return [];
    const books: Book[] = JSON.parse(data);
    let migrated = false;
    for (const book of books) { ... }
    if (migrated) saveBooks(books);
    return books;
  \<close>
\<close>

definition needsMigration :: "env \<Rightarrow> StoredBook \<Rightarrow> bool" where
  "needsMigration E s \<longleftrightarrow> isLegacy s \<or> needsGenreMigration E (repairLegacy s)"

definition migrateBook :: "env \<Rightarrow> StoredBook \<Rightarrow> Book" where
  "migrateBook E s = migrateGenre E (repairLegacy s)"

definition getBooks :: "env \<Rightarrow> world \<Rightarrow> (error + Book list) \<times> world" where
  "getBooks E w =
     (case books_slot w of
        None \<Rightarrow> (Inr [], w)
      | Some stored \<Rightarrow>
          if list_ex (\<lambda>s. sb_genre s = GenreObject) stored then (Inl TypeError, w)
          else (let books = map (migrateBook E) stored
                in if list_ex (needsMigration E) stored
                   then (Inr books, w\<lparr>books_slot := Some (map toStored books)\<rparr>)
                   else (Inr books, w)))"

text \<open>\<open>books.findIndex(pred)\<close>: \<open>None\<close> is \<open>-1\<close>.\<close>

fun findIndex :: "('a \<Rightarrow> bool) \<Rightarrow> 'a list \<Rightarrow> nat option" where
  "findIndex P [] = None"
| "findIndex P (x # xs) = (if P x then Some 0 else map_option Suc (findIndex P xs))"

text \<open>
  \<^verbatim>\<open>
  export function updateBook(id: string, updates: Partial<Book>): Book | null {
    const books = getBooks();
    const index = books.findIndex((b) => b.id === id);
    if (index === -1) return null;
    books[index] = { ...books[index], ...updates, updatedAt: new Date().toISOString() };
    saveBooks(books);
    return books[index];
  }
  \<close>
  The scheduler ignores the returned record; the model returns the error that
  \<open>getBooks\<close> raised, if any, and the state.
\<close>

definition updateBook :: "env \<Rightarrow> jsstring \<Rightarrow> BookPatch \<Rightarrow> world \<Rightarrow> error option \<times> world" where
  "updateBook E bookId updates w =
     (case getBooks E w of
        (Inl err, w1) \<Rightarrow> (Some err, w1)
      | (Inr books, w1) \<Rightarrow>
          (case findIndex (\<lambda>b. b_id b = bookId) books of
             None \<Rightarrow> (None, w1)
           | Some i \<Rightarrow>
               (case dateNow E w1 of
                  (now, w2) \<Rightarrow>
                    (None,
                     w2\<lparr>books_slot :=
                          Some (map toStored
                                  (books[i := applyPatch (books ! i) updates (toISOString E now)]))\<rparr>))))"

section \<open>Retailer links\<close>

text \<open>
  \<open>extractAsin\<close>: the first match of
  \<open>/(?:\/dp\/|\/gp\/product\/|\/product\/|\/ASIN\/)([A-Z0-9]{10})/i\<close> in the URL, tried at
  every position from the left; the result is the group of 10 characters. Ignoring case
  concerns ASCII letters only.
\<close>

definition asciiUpper :: "nat \<Rightarrow> nat" where
  "asciiUpper c = (if 97 \<le> c \<and> c \<le> 122 then c - 32 else c)"

definition isAlnum :: "nat \<Rightarrow> bool" where
  "isAlnum c \<longleftrightarrow> isDigit c \<or> isAsciiLetter c"

definition asinAfter :: "jsstring \<Rightarrow> jsstring \<Rightarrow> bool" where
  "asinAfter p s \<longleftrightarrow>
     length p \<le> length s \<and> map asciiUpper (take (length p) s) = map asciiUpper p
     \<and> length (drop (length p) s) \<ge> 10 \<and> list_all isAlnum (take 10 (drop (length p) s))"

definition asinAt :: "jsstring \<Rightarrow> jsstring option" where
  "asinAt s =
     (case find (\<lambda>p. asinAfter p s) [js ''/dp/'', js ''/gp/product/'', js ''/product/'', js ''/ASIN/''] of
        None \<Rightarrow> None
      | Some p \<Rightarrow> Some (take 10 (drop (length p) s)))"

fun extractAsin :: "jsstring \<Rightarrow> jsstring option" where
  "extractAsin [] = None"
| "extractAsin (c # s) =
     (case asinAt (c # s) of Some asin \<Rightarrow> Some asin | None \<Rightarrow> extractAsin s)"

text \<open>\<open>isLikelyIsbn\<close>: \<open>/^\d/.test(asin)\<close>.\<close>

definition isLikelyIsbn :: "jsstring \<Rightarrow> bool" where
  "isLikelyIsbn asin = (case asin of [] \<Rightarrow> False | c # _ \<Rightarrow> isDigit c)"

section \<open>Candidate selection\<close>

text \<open>
  \<^verbatim>\<open>
    const getNoDataSet = (): Record<string, number> => {
      try { return JSON.parse(localStorage.getItem(NODATA_KEY) || "{}"); }
      catch { return {}; }
    };
    const shouldSkip = (noData: Record<string, number>, bookId: string) => {
      const ts = noData[bookId];
      return ts != null && Date.now() - ts < SEVEN_DAYS;
    };
    const isMissingData = (b: Book) =>
      !b.pageCount || !b.publishedDate || (b.publishedDate && b.publishedDate.length <= 4) ||
      !b.thumbnail || !b.description;
  \<close>
  The cache in memory is a plain object from record ids to timestamps, kept as the list
  of its own entries. For an id with no own entry that names an inherited member, the
  read gives that member: it is not \<open>null\<close>, so the clock is read, and the difference
  is \<open>NaN\<close>, so the comparison is false. The assignment in \<open>markNoData\<close> creates or
  updates an own entry, except for the id \<open>__proto__\<close> with no own entry, where it calls
  the inherited setter, which ignores a number.
\<close>

type_synonym noData = "(jsstring \<times> int) list"

definition getNoDataSet :: "world \<Rightarrow> noData" where
  "getNoDataSet w =
     (case nodata_slot w of
        None \<Rightarrow> []
      | Some CacheEmptyText \<Rightarrow> []
      | Some CacheNotJson \<Rightarrow> []
      | Some (CacheJson entries) \<Rightarrow> entries)"

definition markNoData :: "env \<Rightarrow> noData \<Rightarrow> jsstring \<Rightarrow> world \<Rightarrow> noData \<times> world" where
  "markNoData E noData bookId w =
     (case dateNow E w of
        (now, w1) \<Rightarrow>
          (if bookId = js ''__proto__'' \<and> map_of noData bookId = None then noData
           else AList.update bookId now noData, w1))"

definition shouldSkip :: "env \<Rightarrow> noData \<Rightarrow> jsstring \<Rightarrow> world \<Rightarrow> bool \<times> world" where
  "shouldSkip E noData bookId w =
     (case map_of noData bookId of
        None \<Rightarrow>
          if bookId \<in> set objectMembers then (case dateNow E w of (now, w1) \<Rightarrow> (False, w1))
          else (False, w)
      | Some ts \<Rightarrow> (case dateNow E w of (now, w1) \<Rightarrow> (now - ts < SEVEN_DAYS, w1)))"

definition isMissingData :: "Book \<Rightarrow> bool" where
  "isMissingData b \<longleftrightarrow>
     b_pageCount b = 0 \<or> b_publishedDate b = []
     \<or> (b_publishedDate b \<noteq> [] \<and> length (b_publishedDate b) \<le> 4)
     \<or> \<not> truthy (b_thumbnail b) \<or> b_description b = []"

text \<open>
  The purge at the start of a run.
  \<^verbatim>\<open>
    for (const id of Object.keys(noData)) {
      if (Date.now() - noData[id] >= SEVEN_DAYS) delete noData[id];
    }
  \<close>
\<close>

fun purgeExpired :: "env \<Rightarrow> jsstring list \<Rightarrow> noData \<Rightarrow> world \<Rightarrow> noData \<times> world" where
  "purgeExpired E [] noData w = (noData, w)"
| "purgeExpired E (bookId # ids) noData w =
     (case dateNow E w of
        (now, w1) \<Rightarrow>
          (case map_of noData bookId of
             None \<Rightarrow> purgeExpired E ids noData w1
           | Some ts \<Rightarrow>
               if now - ts \<ge> SEVEN_DAYS then purgeExpired E ids (AList.delete bookId noData) w1
               else purgeExpired E ids noData w1))"

text \<open>
  The Phase-1 filter.
  \<^verbatim>\<open>
    const needsIsbnLookup = current.filter((b) => {
      if (shouldSkip(noData, b.id)) return false;
      if (!b.purchaseUrl) return false;
      const asin = extractAsin(b.purchaseUrl);
      if (!asin || !isLikelyIsbn(asin)) return false;
      return isMissingData(b);
    });
  \<close>
\<close>

definition hasIsbnLink :: "Book \<Rightarrow> bool" where
  "hasIsbnLink b \<longleftrightarrow>
     b_purchaseUrl b \<noteq> []
     \<and> (case extractAsin (b_purchaseUrl b) of None \<Rightarrow> False | Some asin \<Rightarrow> asin \<noteq> [] \<and> isLikelyIsbn asin)"

fun needsIsbnLookup :: "env \<Rightarrow> noData \<Rightarrow> Book list \<Rightarrow> world \<Rightarrow> Book list \<times> world" where
  "needsIsbnLookup E noData [] w = ([], w)"
| "needsIsbnLookup E noData (b # bs) w =
     (case shouldSkip E noData (b_id b) w of
        (skip, w1) \<Rightarrow>
          (case needsIsbnLookup E noData bs w1 of
             (rest, w2) \<Rightarrow>
               (if \<not> skip \<and> hasIsbnLink b \<and> isMissingData b then b # rest else rest, w2)))"

text \<open>
  The Phase-2 filter, before the cut to 30 records; \<open>shouldSkip\<close> is the last operand of
  the conjunction and is evaluated only when the others hold.
  \<^verbatim>\<open>
    const needsGoogle = afterPhase1
      .filter((b) => b.title && isMissingData(b) && !shouldSkip(noData, b.id))
      .slice(0, MAX_GOOGLE_PER_SESSION);
  \<close>
\<close>

fun needsGoogleFilter :: "env \<Rightarrow> noData \<Rightarrow> Book list \<Rightarrow> world \<Rightarrow> Book list \<times> world" where
  "needsGoogleFilter E noData [] w = ([], w)"
| "needsGoogleFilter E noData (b # bs) w =
     (if b_title b \<noteq> [] \<and> isMissingData b
      then (case shouldSkip E noData (b_id b) w of
              (skip, w1) \<Rightarrow>
                (case needsGoogleFilter E noData bs w1 of
                   (rest, w2) \<Rightarrow> (if \<not> skip then b # rest else rest, w2)))
      else needsGoogleFilter E noData bs w)"

definition needsGoogle :: "env \<Rightarrow> noData \<Rightarrow> Book list \<Rightarrow> world \<Rightarrow> Book list \<times> world" where
  "needsGoogle E noData books w =
     (case needsGoogleFilter E noData books w of
        (selected, w1) \<Rightarrow> (take MAX_GOOGLE_PER_SESSION selected, w1))"

section \<open>The backfill scheduler\<close>

text \<open>
  The patch computed from a record and a result. Both phases compute it by the same five
  guarded assignments (Phase 2 in another order, which does not change the patch).
  \<^verbatim>\<open>
    const updates: Partial<Book> = {};
    if (!book.pageCount && result.pageCount) updates.pageCount = result.pageCount;
    if ((!book.publishedDate || book.publishedDate.length <= 4) && result.publishedDate)
      updates.publishedDate = result.publishedDate;
    if (!book.thumbnail && result.thumbnail) updates.thumbnail = result.thumbnail;
    if (!book.description && result.description) updates.description = result.description;
    if (!book.genre && result.categories.length > 0)
      updates.genre = mapCategoryToGenre(result.categories);
  \<close>
\<close>

definition fieldUpdates :: "env \<Rightarrow> Book \<Rightarrow> GoogleBookResult \<Rightarrow> BookPatch" where
  "fieldUpdates E book result =
     emptyPatch
       \<lparr> p_pageCount :=
           (if b_pageCount book = 0 \<and> r_pageCount result \<noteq> 0 then Some (r_pageCount result)
            else None),
         p_publishedDate :=
           (if (b_publishedDate book = [] \<or> length (b_publishedDate book) \<le> 4)
               \<and> r_publishedDate result \<noteq> []
            then Some (r_publishedDate result) else None),
         p_thumbnail :=
           (if \<not> truthy (b_thumbnail book) \<and> truthy (r_thumbnail result)
            then Some (r_thumbnail result) else None),
         p_description :=
           (case r_description result of
              None \<Rightarrow> None
            | Some d \<Rightarrow> if b_description book = [] \<and> d \<noteq> [] then Some d else None),
         p_genre :=
           (if \<not> genreTruthy (b_genre book) \<and> length (r_categories result) > 0
            then Some (mapCategoryToGenre (toLowerCase E) (r_categories result)) else None) \<rparr>"

text \<open>
  The state of the two loops: the cache in memory, the flag \<open>updated\<close>, and the world.
  The end of a loop body that has a result: apply a patch that has keys, else mark the
  record in the cache. An error raised by \<open>updateBook\<close> leaves the flag as it was and
  reaches the \<open>catch\<close> of the loop.
\<close>

type_synonym loopState = "noData \<times> bool \<times> world"

definition applyResult :: "env \<Rightarrow> Book \<Rightarrow> GoogleBookResult \<Rightarrow> loopState \<Rightarrow> error option \<times> loopState" where
  "applyResult E book result st =
     (case st of
        (noData, updated, w) \<Rightarrow>
          (let updates = fieldUpdates E book result
           in if length (patchKeys updates) > 0
              then (case updateBook E (b_id book) updates w of
                      (Some err, w1) \<Rightarrow> (Some err, (noData, updated, w1))
                    | (None, w1) \<Rightarrow> (None, (noData, True, w1)))
              else (case markNoData E noData (b_id book) w of
                      (noData1, w1) \<Rightarrow> (None, (noData1, updated, w1)))))"

text \<open>
  One ISBN lookup of Phase 1: the two requests are logged and answered by the providers.
  The non-null assertion on \<open>extractAsin\<close> holds for every record the filter kept; for
  completeness a \<open>null\<close> identifier makes the registry side fail before its fetch and the
  search side ask for \<open>isbn:null\<close>.
\<close>

definition isbnLookup :: "env \<Rightarrow> Book \<Rightarrow> world \<Rightarrow> (error + GoogleBookResult option) \<times> world" where
  "isbnLookup E book w =
     (let n = length (requests w)
      in case extractAsin (b_purchaseUrl book) of
           Some asin \<Rightarrow>
             (searchByIsbn asin (openbdNet E n) (googleNet E n),
              w\<lparr>requests := requests w @ [GoogleIsbnRequest asin, OpenBDRequest (normalizeIsbn asin)]\<rparr>)
         | None \<Rightarrow>
             (mergeResults None (googlePromise (googleNet E n)),
              w\<lparr>requests := requests w @ [GoogleIsbnRequest (js ''null'')]\<rparr>))"

text \<open>
  Phase 1.
  \<^verbatim>\<open>
    for (const book of needsIsbnLookup) {
      try {
        const asin = extractAsin(book.purchaseUrl)!;
        const result = await searchByIsbn(asin);
        if (!result) { markNoData(noData, book.id); continue; }
        ...
        if (Object.keys(updates).length > 0) { updateBook(book.id, updates); updated = true; }
        else { markNoData(noData, book.id); }
      } catch (err) {
        if (err instanceof RateLimitError) break;
      }
    }
  \<close>
\<close>

fun phase1 :: "env \<Rightarrow> Book list \<Rightarrow> loopState \<Rightarrow> loopState" where
  "phase1 E [] st = st"
| "phase1 E (book # books) (noData, updated, w) =
     (case isbnLookup E book w of
        (Inl err, w1) \<Rightarrow>
          if err = RateLimitError then (noData, updated, w1)
          else phase1 E books (noData, updated, w1)
      | (Inr None, w1) \<Rightarrow>
          (case markNoData E noData (b_id book) w1 of
             (noData1, w2) \<Rightarrow> phase1 E books (noData1, updated, w2))
      | (Inr (Some result), w1) \<Rightarrow>
          (case applyResult E book result (noData, updated, w1) of
             (Some err, st) \<Rightarrow> if err = RateLimitError then st else phase1 E books st
           | (None, st) \<Rightarrow> phase1 E books st))"

text \<open>
  \<open>searchBooks(query)\<close> with \<open>query = [book.title, book.author].filter(Boolean).join(" ")\<close>.
  \<^verbatim>\<open>
    if (!query.trim()) return [];
    const url = `https://www.googleapis.com/books/v1/volumes?q=${encodeURIComponent(query)}&...`;
    const res = await fetch(url);
  \<close>
  A blank query gives the empty list without a request. \<open>encodeURIComponent\<close> raises
  \<open>URIError\<close> on a text that is not well-formed UTF-16, that is, one with a surrogate code
  unit that is not part of a pair; this happens before the fetch, so no request is issued.
\<close>

definition isHighSurrogate :: "nat \<Rightarrow> bool" where
  "isHighSurrogate c \<longleftrightarrow> 55296 \<le> c \<and> c \<le> 56319"

definition isLowSurrogate :: "nat \<Rightarrow> bool" where
  "isLowSurrogate c \<longleftrightarrow> 56320 \<le> c \<and> c \<le> 57343"

fun wellFormed :: "jsstring \<Rightarrow> bool" where
  "wellFormed [] = True"
| "wellFormed [c] = (\<not> isHighSurrogate c \<and> \<not> isLowSurrogate c)"
| "wellFormed (c # d # s) =
     (if isHighSurrogate c then isLowSurrogate d \<and> wellFormed s
      else \<not> isLowSurrogate c \<and> wellFormed (d # s))"

fun joinSpace :: "jsstring list \<Rightarrow> jsstring" where
  "joinSpace [] = []"
| "joinSpace [x] = x"
| "joinSpace (x # y # ys) = x @ [32] @ joinSpace (y # ys)"

definition searchQuery :: "Book \<Rightarrow> jsstring" where
  "searchQuery book = joinSpace (filter (\<lambda>s. s \<noteq> []) [b_title book, b_author book])"

definition searchBooks :: "env \<Rightarrow> jsstring \<Rightarrow> world \<Rightarrow> (error + GoogleBookResult list) \<times> world" where
  "searchBooks E query w =
     (if list_all isWhiteSpace query then (Inr [], w)
      else if \<not> wellFormed query then (Inl URIError, w)
      else (searchBooksFetched (googleNet E (length (requests w))),
            w\<lparr>requests := requests w @ [GoogleSearchRequest query]\<rparr>))"

text \<open>
  Phase 2.
  \<^verbatim>\<open>
    for (const book of needsGoogle) {
      try {
        const query = [book.title, book.author].filter(Boolean).join(" ");
        const results = await searchBooks(query);
        if (results.length > 0) {
          const r = results[0];
          ...
          if (Object.keys(updates).length > 0) { updateBook(book.id, updates); updated = true; }
          else { markNoData(noData, book.id); }
        } else {
          markNoData(noData, book.id);
        }
        await new Promise((r) => setTimeout(r, 500));
      } catch (err) {
        if (err instanceof RateLimitError) break;
      }
    }
  \<close>
\<close>

fun phase2 :: "env \<Rightarrow> Book list \<Rightarrow> loopState \<Rightarrow> loopState" where
  "phase2 E [] st = st"
| "phase2 E (book # books) (noData, updated, w) =
     (case searchBooks E (searchQuery book) w of
        (Inl err, w1) \<Rightarrow>
          if err = RateLimitError then (noData, updated, w1)
          else phase2 E books (noData, updated, w1)
      | (Inr [], w1) \<Rightarrow>
          (case markNoData E noData (b_id book) w1 of
             (noData1, w2) \<Rightarrow> phase2 E books (noData1, updated, w2))
      | (Inr (r # _), w1) \<Rightarrow>
          (case applyResult E book r (noData, updated, w1) of
             (Some err, st) \<Rightarrow> if err = RateLimitError then st else phase2 E books st
           | (None, st) \<Rightarrow> phase2 E books st))"

text \<open>
  The stages of a run after the cooldown check: loading and purging; Phase 1 on its
  candidates; Phase 2 on its candidates, read from the store again when Phase 1 updated
  a record; and the final writes. The calls of \<open>getBooks\<close> in these stages stand outside
  the \<open>try\<close> blocks: an error they raise ends the run there (the promise is rejected),
  and the stage gives the error and the state reached.
  \<^verbatim>\<open>
      const current = getBooks();
      const noData = getNoDataSet();
      let updated = false;
      ...
      const afterPhase1 = updated ? getBooks() : current;
      ...
      localStorage.setItem(NODATA_KEY, JSON.stringify(noData));
      localStorage.setItem(BACKFILL_KEY, String(Date.now()));
      if (updated) { setBooks(getBooks()); }
  \<close>
\<close>

definition loadState :: "env \<Rightarrow> world \<Rightarrow> (error + Book list \<times> noData) \<times> world" where
  "loadState E w =
     (case getBooks E w of
        (Inl err, w1) \<Rightarrow> (Inl err, w1)
      | (Inr current, w1) \<Rightarrow>
          (case purgeExpired E (map fst (getNoDataSet w1)) (getNoDataSet w1) w1 of
             (noData, w2) \<Rightarrow> (Inr (current, noData), w2)))"

definition phase1Stage :: "env \<Rightarrow> Book list \<Rightarrow> noData \<Rightarrow> world \<Rightarrow> loopState" where
  "phase1Stage E current noData w =
     (case needsIsbnLookup E noData current w of
        (candidates, w1) \<Rightarrow> phase1 E candidates (noData, False, w1))"

definition phase2Stage :: "env \<Rightarrow> Book list \<Rightarrow> loopState \<Rightarrow> error option \<times> loopState" where
  "phase2Stage E current st =
     (case st of
        (noData, updated, w) \<Rightarrow>
          (case (if updated then getBooks E w else (Inr current, w)) of
             (Inl err, w1) \<Rightarrow> (Some err, (noData, updated, w1))
           | (Inr afterPhase1, w1) \<Rightarrow>
               (case needsGoogle E noData afterPhase1 w1 of
                  (candidates, w2) \<Rightarrow> (None, phase2 E candidates (noData, updated, w2)))))"

definition persist :: "env \<Rightarrow> loopState \<Rightarrow> error option \<times> world" where
  "persist E st =
     (case st of
        (noData, updated, w) \<Rightarrow>
          (case dateNow E (w\<lparr>nodata_slot := Some (CacheJson noData)\<rparr>) of
             (now, w1) \<Rightarrow>
               (let w2 = w1\<lparr>backfill_ts := Some (numberToString (Num now))\<rparr>
                in if updated
                   then (case getBooks E w2 of
                           (Inl err, w3) \<Rightarrow> (Some err, w3)
                         | (Inr books, w3) \<Rightarrow> (None, w3))
                   else (None, w2))))"

definition runBackfill :: "env \<Rightarrow> world \<Rightarrow> error option \<times> world" where
  "runBackfill E w =
     (case loadState E w of
        (Inl err, w1) \<Rightarrow> (Some err, w1)
      | (Inr (current, noData), w1) \<Rightarrow>
          (case phase2Stage E current (phase1Stage E current noData w1) of
             (Some err, st) \<Rightarrow> (Some err, snd (snd st))
           | (None, st) \<Rightarrow> persist E st))"

text \<open>
  The cooldown check and the run.
  \<^verbatim>\<open>
      const lastRun = localStorage.getItem(BACKFILL_KEY);
      if (lastRun && Date.now() - Number(lastRun) < ONE_DAY) return;
  \<close>
\<close>

definition cooldownActive :: "env \<Rightarrow> world \<Rightarrow> bool \<times> world" where
  "cooldownActive E w =
     (case backfill_ts w of
        None \<Rightarrow> (False, w)
      | Some lastRun \<Rightarrow>
          if lastRun = [] then (False, w)
          else (case dateNow E w of
                  (now, w1) \<Rightarrow>
                    (jsLess (jsSub (Num now) (toNumber E lastRun)) (Num ONE_DAY), w1)))"

definition backfillBookData :: "env \<Rightarrow> world \<Rightarrow> error option \<times> world" where
  "backfillBookData E w =
     (case cooldownActive E w of
        (cooling, w1) \<Rightarrow> if cooling then (None, w1) else runBackfill E w1)"

section \<open>Observations on a run\<close>

text \<open>
  The requests of an ISBN lookup (both providers), as opposed to the title searches of
  Phase 2; and the fields of a stored record that the scheduler is not meant to touch
  (all but page count, published date, thumbnail, description, genre and \<open>updatedAt\<close>).
\<close>

type_synonym frame =
  "jsstring \<times> jsstring \<times> jsstring \<times> statusField \<times> int \<times> jsstring \<times> jsstring field \<times> jsstring option \<times> jsstring"

definition frameOf :: "StoredBook \<Rightarrow> frame" where
  "frameOf s =
     (sb_id s, sb_title s, sb_author s, sb_status s, sb_rating s, sb_memo s, sb_purchaseUrl s,
      sb_finishedDate s, sb_createdAt s)"

definition storeFrame :: "world \<Rightarrow> frame list option" where
  "storeFrame w = map_option (map frameOf) (books_slot w)"

text \<open>
  What the repairs of \<open>getBooks\<close> make of these fields: a status \<open>unread\<close> becomes
  \<open>tsundoku\<close>, and an absent purchase URL becomes the empty text.
\<close>

definition repairedFrame :: "frame \<Rightarrow> frame" where
  "repairedFrame f =
     (case f of
        (bookId, title, author, status, rating, memo, purchaseUrl, finishedDate, createdAt) \<Rightarrow>
          (bookId, title, author, (if status = LegacyUnread then Status tsundoku else status),
           rating, memo, (if purchaseUrl = Absent then Present [] else purchaseUrl),
           finishedDate, createdAt))"

definition repairedStore :: "world \<Rightarrow> frame list option" where
  "repairedStore w = map_option (map repairedFrame) (storeFrame w)"

definition isIsbnRequest :: "request \<Rightarrow> bool" where
  "isIsbnRequest r = (case r of GoogleSearchRequest q \<Rightarrow> False | _ \<Rightarrow> True)"

text \<open>
  Stores and replies without the one value that makes \<open>getBooks\<close> raise: a store with no
  genre that is an empty object, and a result or a reply of the search provider with no
  category \<open>__proto__\<close>.
\<close>

definition plainResult :: "GoogleBookResult \<Rightarrow> bool" where
  "plainResult r \<longleftrightarrow> js ''__proto__'' \<notin> set (r_categories r)"

definition plainGoogle :: "google_fetched \<Rightarrow> bool" where
  "plainGoogle reply =
     (case reply of
        NetworkError \<Rightarrow> True
      | Response status body \<Rightarrow>
          (case body of
             NotJson \<Rightarrow> True
           | JsonNull \<Rightarrow> True
           | JsonValue data \<Rightarrow>
               (case items data of
                  None \<Rightarrow> True
                | Some its \<Rightarrow>
                    list_all (\<lambda>item. js ''__proto__'' \<notin> set (orElse (v_categories (volumeInfo item)) [])) its)))"

definition plainStore :: "world \<Rightarrow> bool" where
  "plainStore w =
     (case books_slot w of
        None \<Rightarrow> True
      | Some stored \<Rightarrow> list_all (\<lambda>s. sb_genre s \<noteq> GenreObject) stored)"

section \<open>Example inputs\<close>

text \<open>Concrete responses of the two providers, used to evaluate the functions.\<close>

definition exampleSummary :: OpenBDSummary where
  "exampleSummary =
     \<lparr> s_isbn = Some (js ''9784774142043''), s_title = Some (js ''Kokoro''),
       s_author = Some (js ''Natsume''), s_publisher = None, s_pubdate = Some (js ''2015''),
       s_cover = Some [], s_volume = None, s_series = None \<rparr>"

definition exampleOpenBDReply :: openbd_fetched where
  "exampleOpenBDReply = Response 200 (JsonValue [Some \<lparr> summary = Some exampleSummary, onix = None \<rparr>])"

definition exampleVolume :: VolumeItem where
  "exampleVolume =
     \<lparr> v_id = js ''g1'',
       volumeInfo = \<lparr> v_title = Some (js ''Kokoro''), v_authors = None, v_categories = Some [js ''Fiction''],
                      v_publishedDate = Some (js ''2015-04-01''), v_pageCount = Some 250,
                      v_description = Some (js ''A novel''),
                      v_imageLinks = Some \<lparr> smallThumbnail = Some (js ''s.png''), thumbnail = None \<rparr> \<rparr> \<rparr>"

definition exampleGoogleReply :: google_fetched where
  "exampleGoogleReply = Response 200 (JsonValue \<lparr> items = Some [exampleVolume] \<rparr>)"

text \<open>
  An environment for examples: \<open>Number\<close> on texts of decimal digits (any other text
  is read as \<open>NaN\<close>), a clock that stands at 5, a registry that answers 404 and a search
  provider that answers 429. One record with an ISBN link and no metadata, and worlds
  that hold it: with no scheduler state, with a fresh and with an expired cache entry, and
  with corrupt scheduler state.
\<close>

definition decimalNumber :: "jsstring \<Rightarrow> jsnum" where
  "decimalNumber s =
     (if s \<noteq> [] \<and> list_all isDigit s then Num (int (foldl (\<lambda>a c. a * 10 + (c - 48)) 0 s))
      else NaN)"

definition exampleEnv :: env where
  "exampleEnv =
     \<lparr> toLowerCase = asciiLower, toNumber = decimalNumber,
       toISOString = (\<lambda>t. numberToString (Num t)), clock = (\<lambda>n. 5),
       openbdNet = (\<lambda>n. Response 404 JsonNull), googleNet = (\<lambda>n. Response 429 JsonNull) \<rparr>"

definition exampleBook :: Book where
  "exampleBook =
     \<lparr> b_id = js ''b1'', b_title = js ''Kokoro'', b_author = js ''Natsume'', b_genre = GenreText [],
       b_publishedDate = [], b_status = tsundoku, b_pageCount = 0, b_rating = 0, b_memo = [],
       b_description = [], b_thumbnail = None, b_purchaseUrl = js ''/dp/4774142042'',
       b_finishedDate = None, b_createdAt = js ''c'', b_updatedAt = js ''u'',
       b_publishedYear = Absent \<rparr>"

definition exampleWorld :: world where
  "exampleWorld =
     \<lparr> books_slot = Some [toStored exampleBook], backfill_ts = None, nodata_slot = None, ticks = 0,
       requests = [] \<rparr>"






text \<open>
  A second record with the same link, a world that holds both records, and an environment
  whose registry knows the book while the search provider answers 429.
\<close>

definition exampleBook2 :: Book where
  "exampleBook2 = exampleBook\<lparr>b_id := js ''b2''\<rparr>"

definition registryEnv :: env where
  "registryEnv = exampleEnv\<lparr>openbdNet := (\<lambda>n. exampleOpenBDReply)\<rparr>"

definition twoBooksWorld :: world where
  "twoBooksWorld = exampleWorld\<lparr>books_slot := Some [toStored exampleBook, toStored exampleBook2]\<rparr>"







section \<open>Properties of the ISBN conversion\<close>

lemma droppedBits_small: "n < 2 ^ 53 \<Longrightarrow> droppedBits n = 0"
  by (simp add: droppedBits.simps)

lemma nearestDouble_small: "\<bar>i\<bar> < 2 ^ 53 \<Longrightarrow> nearestDouble i = i"
proof -
  assume a: "\<bar>i\<bar> < 2 ^ 53"
  then have "droppedBits \<bar>i\<bar> = 0" by (rule droppedBits_small)
  then show ?thesis by (simp add: nearestDouble_def Let_def mult_sgn_abs)
qed

lemma parseInt_digit:
  assumes "isDigit c"
  shows "parseInt [c] = Num (digitOf c)"
proof -
  from assms have c: "48 \<le> c" "c \<le> 57" by (simp_all add: isDigit_def)
  then have ws: "\<not> isWhiteSpace c" by (auto simp: isWhiteSpace_def)
  from c have sg: "c \<noteq> 43" "c \<noteq> 45" by simp_all
  have rd: "radixDigit 10 c = Some (c - 48)" using assms by (simp add: radixDigit_def)
  have small: "nearestDouble (int (c - 48)) = int (c - 48)"
    by (rule nearestDouble_small) (use c in simp)
  show ?thesis
    using ws sg rd c small by (simp add: parseInt_def digitOf_def)
qed

lemma isbn_fold_digits:
  assumes "n \<le> length base" and "\<forall>i<n. isDigit (base ! i)"
  shows "fold (isbnStep base) [0..<n] (Num a)
         = Num (a + (\<Sum>i<n. digitOf (base ! i) * (if i mod 2 = 0 then 1 else 3)))"
  using assms
proof (induction n)
  case 0
  then show ?case by simp
next
  case (Suc n)
  then have ih: "fold (isbnStep base) [0..<n] (Num a)
                 = Num (a + (\<Sum>i<n. digitOf (base ! i) * (if i mod 2 = 0 then 1 else 3)))"
    by simp
  from Suc.prems have "n < length base" "isDigit (base ! n)" by simp_all
  then have "isbnStep base n (Num x) = Num (x + digitOf (base ! n) * (if n mod 2 = 0 then 1 else 3))" for x
    by (simp add: isbnStep_def charAt_def parseInt_digit)
  with ih show ?case by simp
qed

lemma natToString_digit: "n < 10 \<Longrightarrow> natToString n = [48 + n]"
  by (simp add: natToString.simps)

lemma jsRem_nonneg:
  assumes "0 \<le> a" and "0 < b"
  shows "jsRem (Num a) (Num b) = Num (a mod b)"
proof (cases "a = 0")
  case True
  then show ?thesis using assms by simp
next
  case False
  with assms have "sgn a = 1" "\<bar>a\<bar> = a" "\<bar>b\<bar> = b" by simp_all
  then show ?thesis using assms by simp
qed

lemma isbn_check_digit:
  assumes "0 \<le> S"
  shows "jsRem (jsSub (Num 10) (jsRem (Num S) (Num 10))) (Num 10) = Num ((10 - S mod 10) mod 10)"
proof -
  have r1: "jsRem (Num S) (Num 10) = Num (S mod 10)"
    using assms by (rule jsRem_nonneg) simp
  have pos: "0 \<le> 10 - S mod 10" by presburger
  have "jsRem (Num (10 - S mod 10)) (Num 10) = Num ((10 - S mod 10) mod 10)"
    using pos by (rule jsRem_nonneg) simp
  then show ?thesis by (simp only: r1 jsSub.simps)
qed

lemma weighted_sum_12:
  "(\<Sum>i<12. f i * (if i mod 2 = 0 then 1 else 3))
   = (\<Sum>i\<in>{0, 2, 4, 6, 8, 10}. f i) + 3 * (\<Sum>i\<in>{1, 3, 5, 7, 9, 11}. f i)"
  for f :: "nat \<Rightarrow> int"
proof -
  have "{..<12::nat} = {0, 1, 2, 3, 4, 5, 6, 7, 8, 9, 10, 11}"
    by (auto simp: less_Suc_eq eval_nat_numeral)
  then show ?thesis by simp
qed

text \<open>
  C6. For a 10-character ISBN-10 (nine digits and a check character), \<open>isbn10to13\<close>
  returns \<open>978\<close>, the first nine characters and the check digit
  \<open>c = (10 - S mod 10) mod 10\<close>, where \<open>S\<close> is the sum of the digits at the even positions
  0, 2, ..., 10 of the twelve plus three times the sum of the digits at the odd
  positions 1, 3, ..., 11. The result has 13 characters and satisfies the ISBN-13
  checksum identity: the sum of its digits at the even positions 0, 2, ..., 12 plus three
  times the sum of its digits at the odd positions is divisible by 10.
\<close>

theorem isbn10to13_check_digit:
  assumes "length isbn10 = 10" and "list_all isDigit (take 9 isbn10)"
  shows "let base = js ''978'' @ take 9 isbn10;
             S = (\<Sum>i\<in>{0, 2, 4, 6, 8, 10}. digitOf (base ! i))
                 + 3 * (\<Sum>i\<in>{1, 3, 5, 7, 9, 11}. digitOf (base ! i));
             c = (10 - S mod 10) mod 10;
             isbn13 = isbn10to13 isbn10
         in isbn13 = base @ [nat (48 + c)]
            \<and> length isbn13 = 13
            \<and> 0 \<le> c \<and> c \<le> 9
            \<and> ((\<Sum>i\<in>{0, 2, 4, 6, 8, 10, 12}. digitOf (isbn13 ! i))
                + 3 * (\<Sum>i\<in>{1, 3, 5, 7, 9, 11}. digitOf (isbn13 ! i))) mod 10 = 0"
proof -
  define base where "base = js ''978'' @ take 9 isbn10"
  define S where "S = (\<Sum>i\<in>{0, 2, 4, 6, 8, 10}. digitOf (base ! i))
                 + 3 * (\<Sum>i\<in>{1, 3, 5, 7, 9, 11}. digitOf (base ! i))"
  define c where "c = (10 - S mod 10) mod 10"
  have len: "length base = 12" using assms(1) by (simp add: base_def)
  have dig: "isDigit (base ! i)" if "i < 12" for i
  proof (cases "i < 3")
    case True
    then have "i = 0 \<or> i = 1 \<or> i = 2" by arith
    then show ?thesis by (auto simp: base_def isDigit_def)
  next
    case False
    with that assms(1) have "base ! i = take 9 isbn10 ! (i - 3)" "i - 3 < length (take 9 isbn10)"
      by (simp_all add: base_def nth_append numeral_3_eq_3)
    then show ?thesis using assms(2) by (simp add: list_all_length)
  qed
  have dnn: "0 \<le> digitOf (base ! i)" if "i < 12" for i
    using dig [OF that] by (simp add: digitOf_def isDigit_def)
  have Snn: "0 \<le> S"
    unfolding S_def by (intro add_nonneg_nonneg mult_nonneg_nonneg sum_nonneg) (auto intro: dnn)
  have fold: "fold (isbnStep base) [0..<12] (Num 0) = Num S"
    using isbn_fold_digits [of 12 base 0] len dig by (simp add: S_def weighted_sum_12)
  have crange: "0 \<le> c" "c \<le> 9" unfolding c_def by presburger+
  then have cstr: "numberToString (Num c) = [nat (48 + c)]"
    by (simp add: natToString_digit nat_add_distrib)
  have out: "isbn10to13 isbn10 = base @ [nat (48 + c)]"
    unfolding isbn10to13_def Let_def base_def [symmetric] fold
    by (simp only: isbn_check_digit [OF Snn] c_def [symmetric] cstr)
  have nth: "(base @ [nat (48 + c)]) ! i = base ! i" if "i < 12" for i
    using that len by (simp add: nth_append)
  have last: "digitOf ((base @ [nat (48 + c)]) ! 12) = c"
    using len crange by (simp add: nth_append digitOf_def)
  have "(\<Sum>i\<in>{0, 2, 4, 6, 8, 10, 12}. digitOf ((base @ [nat (48 + c)]) ! i))
        + 3 * (\<Sum>i\<in>{1, 3, 5, 7, 9, 11}. digitOf ((base @ [nat (48 + c)]) ! i)) = S + c"
    by (simp add: nth last S_def)
  then have "((\<Sum>i\<in>{0, 2, 4, 6, 8, 10, 12}. digitOf ((base @ [nat (48 + c)]) ! i))
        + 3 * (\<Sum>i\<in>{1, 3, 5, 7, 9, 11}. digitOf ((base @ [nat (48 + c)]) ! i))) mod 10 = 0"
    unfolding c_def by presburger
  with out len crange show ?thesis
    unfolding Let_def base_def [symmetric] S_def [symmetric] c_def [symmetric] by simp
qed

theorem isbn10to13_check_digit_witness:
  "length (js ''0201633612'') = 10
   \<and> list_all isDigit (take 9 (js ''0201633612''))
   \<and> (\<Sum>i\<in>{0, 2, 4, 6, 8, 10}. digitOf ((js ''978'' @ take 9 (js ''0201633612'')) ! i)) = 29
   \<and> (\<Sum>i\<in>{1, 3, 5, 7, 9, 11}. digitOf ((js ''978'' @ take 9 (js ''0201633612'')) ! i)) = 17
   \<and> isbn10to13 (js ''0201633612'') = js ''9780201633610''"
proof -
  have l: "length (js ''0201633612'') = 10" by simp
  have d: "list_all isDigit (take 9 (js ''0201633612''))" by (simp add: isDigit_def)
  have e: "(\<Sum>i\<in>{0, 2, 4, 6, 8, 10}. digitOf ((js ''978'' @ take 9 (js ''0201633612'')) ! i)) = 29"
    by (simp add: digitOf_def)
  have o: "(\<Sum>i\<in>{1, 3, 5, 7, 9, 11}. digitOf ((js ''978'' @ take 9 (js ''0201633612'')) ! i)) = 17"
    by (simp add: digitOf_def)
  from isbn10to13_check_digit [OF l d] have "isbn10to13 (js ''0201633612'') = js ''9780201633610''"
    unfolding Let_def e o by simp
  with l d e o show ?thesis by blast
qed

section \<open>Properties of the genre classification\<close>

lemma CATEGORY_MAP_values_nonempty: "(k, v) \<in> set CATEGORY_MAP \<Longrightarrow> v \<noteq> []"
  by (auto simp: CATEGORY_MAP_def)

lemma partialMatch_find:
  "partialMatch lower cat entries =
     map_option snd (find (\<lambda>(key, v). sublist (lower key) (lower cat)) entries)"
  by (induction entries) (auto simp: includes_js_def)

text \<open>
  The value one category gives: its own table entry, else the inherited member it names,
  else the value of the first table key it contains.
\<close>

lemma getProperty_own:
  "map_of CATEGORY_MAP cat = Some v \<Longrightarrow> getProperty CATEGORY_MAP cat = Some (Str v)"
  by (simp add: getProperty_def)

lemma getProperty_plain:
  "cat \<notin> set objectMembers \<Longrightarrow> getProperty entries cat = map_option Str (map_of entries cat)"
  by (simp add: getProperty_def split: option.splits)

lemma objectMembers_long: "key \<in> set objectMembers \<Longrightarrow> length key > 2"
  by (auto simp: objectMembers_def)

lemma getProperty_two_units:
  "length key = 2 \<Longrightarrow> getProperty CCODE_GENRE_MAP key = map_option Str (map_of CCODE_GENRE_MAP key)"
  using objectMembers_long [of key] by (intro getProperty_plain) auto

lemma getProperty_inherited:
  "map_of entries cat = None \<Longrightarrow> cat \<in> set objectMembers \<Longrightarrow>
     getProperty entries cat = Some (Member cat)"
  by (simp add: getProperty_def)

lemma categoryLoop_values:
  "categoryLoop lower cats =
     (case List.map_filter
             (\<lambda>cat. case exactLabel cat of
                      Some v \<Rightarrow> Some (Str v)
                    | None \<Rightarrow> if cat \<in> set objectMembers then Some (Member cat)
                              else map_option Str (substringLabel lower cat)) cats of
        [] \<Rightarrow> None
      | v # rest \<Rightarrow> Some v)"
proof (induction cats)
  case Nil
  then show ?case by (simp add: map_filter_simps)
next
  case (Cons cat cats)
  show ?case
  proof (cases "map_of CATEGORY_MAP cat")
    case None
    show ?thesis
    proof (cases "cat \<in> set objectMembers")
      case True
      then show ?thesis
        using None by (simp add: map_filter_simps exactLabel_def getProperty_def)
    next
      case False
      then show ?thesis
        using None Cons.IH
        by (simp add: map_filter_simps exactLabel_def substringLabel_def getProperty_def
            partialMatch_find split: option.splits)
    qed
  next
    case (Some v)
    then have "v \<noteq> []" by (auto dest: map_of_SomeD CATEGORY_MAP_values_nonempty)
    with Some show ?thesis
      by (simp add: map_filter_simps exactLabel_def getProperty_def)
  qed
qed

lemma categoryLoop_labels:
  assumes "list_all (\<lambda>cat. cat \<notin> set objectMembers) cats"
  shows "categoryLoop lower cats =
     (case List.map_filter (categoryLabel lower) cats of [] \<Rightarrow> None | v # rest \<Rightarrow> Some (Str v))"
  using assms
proof (induction cats)
  case Nil
  then show ?case by (simp add: map_filter_simps)
next
  case (Cons cat cats)
  then have plain: "cat \<notin> set objectMembers" and IH: "categoryLoop lower cats =
     (case List.map_filter (categoryLabel lower) cats of [] \<Rightarrow> None | v # rest \<Rightarrow> Some (Str v))"
    by simp_all
  show ?case
  proof (cases "map_of CATEGORY_MAP cat")
    case None
    have g: "getProperty CATEGORY_MAP cat = None"
      using None plain by (simp add: getProperty_def)
    have cl: "categoryLabel lower cat = substringLabel lower cat"
      using None by (simp add: categoryLabel_def exactLabel_def)
    have pm: "partialMatch lower cat CATEGORY_MAP = substringLabel lower cat"
      by (simp add: partialMatch_find substringLabel_def)
    show ?thesis
      by (cases "substringLabel lower cat") (simp_all add: g pm cl IH map_filter_simps)
  next
    case (Some v)
    then have "v \<noteq> []" by (auto dest: map_of_SomeD CATEGORY_MAP_values_nonempty)
    with Some show ?thesis
      by (simp add: map_filter_simps categoryLabel_def exactLabel_def getProperty_def)
  qed
qed

text \<open>
  On categories none of which names an inherited member, \<open>mapCategoryToGenre\<close> is the
  classification as the specification words it: a category is labelled by its exact,
  case-sensitive table entry, else by the first table key in declaration order that it
  contains case-insensitively (\<open>categoryLabel\<close>); the first labelled category decides.
  With no labelled category the result is the first input category unchanged, or the
  empty string for an empty list. This holds for every lower-casing function.
\<close>

lemma mapCategoryToGenre_plain:
  assumes "list_all (\<lambda>cat. cat \<notin> set objectMembers) cats"
  shows "mapCategoryToGenre lower cats =
     Str (case List.map_filter (categoryLabel lower) cats of
            v # rest \<Rightarrow> v
          | [] \<Rightarrow> (case cats of [] \<Rightarrow> [] | c # rest \<Rightarrow> c))"
  by (simp add: mapCategoryToGenre_def categoryLoop_labels [OF assms] split: list.splits)

lemma label_exact: "categoryLabel asciiLower (js ''Computers'') = Some computers_it"
  by (simp add: categoryLabel_def exactLabel_def CATEGORY_MAP_def)

lemma label_substring: "categoryLabel asciiLower (js ''Asian history'') = Some history_geography"
  by (simp add: categoryLabel_def exactLabel_def substringLabel_def CATEGORY_MAP_def asciiLower_def
      sublist_code prefix_code)

lemma label_unknown: "categoryLabel asciiLower (js ''Manga'') = None"
  by (simp add: categoryLabel_def exactLabel_def substringLabel_def CATEGORY_MAP_def asciiLower_def
      sublist_code prefix_code)

lemma mapCategoryToGenre_examples:
  "mapCategoryToGenre asciiLower [js ''Computers''] = Str computers_it"
  "mapCategoryToGenre asciiLower [js ''Manga'', js ''Asian history'', js ''Computers'']
       = Str history_geography"
  "mapCategoryToGenre asciiLower [js ''Manga''] = Str (js ''Manga'')"
  "mapCategoryToGenre asciiLower [] = Str []"
proof -
  have p: "list_all (\<lambda>cat. cat \<notin> set objectMembers)
             [js ''Manga'', js ''Asian history'', js ''Computers'']"
    by (simp add: objectMembers_def)
  then have p1: "list_all (\<lambda>cat. cat \<notin> set objectMembers) [js ''Computers'']"
    and p2: "list_all (\<lambda>cat. cat \<notin> set objectMembers) [js ''Manga'']"
    by simp_all
  show "mapCategoryToGenre asciiLower [js ''Computers''] = Str computers_it"
    unfolding mapCategoryToGenre_plain [OF p1] map_filter_simps label_exact by simp
  show "mapCategoryToGenre asciiLower [js ''Manga'', js ''Asian history'', js ''Computers'']
       = Str history_geography"
    unfolding mapCategoryToGenre_plain [OF p] map_filter_simps label_exact label_substring
      label_unknown by simp
  show "mapCategoryToGenre asciiLower [js ''Manga''] = Str (js ''Manga'')"
    unfolding mapCategoryToGenre_plain [OF p2] map_filter_simps label_unknown by simp
  show "mapCategoryToGenre asciiLower [] = Str []"
    by (simp add: mapCategoryToGenre_def)
qed

lemma label_constructor: "categoryLabel asciiLower (js ''constructor'') = None"
  by (simp add: categoryLabel_def exactLabel_def substringLabel_def CATEGORY_MAP_def asciiLower_def
      sublist_code prefix_code)

lemma exact_constructor: "map_of CATEGORY_MAP (js ''constructor'') = None"
  by (simp add: CATEGORY_MAP_def)

text \<open>
  C7. The category \<open>constructor\<close> has no exact entry in the table and contains none of
  its keys, so the classification the claim describes returns it unchanged (and returns
  the label of \<open>Computers\<close> when that category follows it). The property read
  \<open>CATEGORY_MAP["constructor"]\<close> finds the inherited member, which is truthy, and the
  function returns that member: a value that is not a text.
\<close>

theorem mapCategoryToGenre_inherited_member:
  "categoryLabel asciiLower (js ''constructor'') = None
   \<and> categoryLabel asciiLower (js ''Computers'') = Some computers_it
   \<and> mapCategoryToGenre asciiLower [js ''constructor''] = Member (js ''constructor'')
   \<and> mapCategoryToGenre asciiLower [js ''constructor'', js ''Computers'']
       = Member (js ''constructor'')"
proof -
  have m: "js ''constructor'' \<in> set objectMembers" by (simp add: objectMembers_def)
  have g: "getProperty CATEGORY_MAP (js ''constructor'') = Some (Member (js ''constructor''))"
    by (rule getProperty_inherited [OF exact_constructor m])
  have l: "categoryLoop asciiLower (js ''constructor'' # cats) = Some (Member (js ''constructor''))"
    for cats
    unfolding categoryLoop.simps g by simp
  have a: "mapCategoryToGenre asciiLower [js ''constructor''] = Member (js ''constructor'')"
    unfolding mapCategoryToGenre_def l by simp
  have b: "mapCategoryToGenre asciiLower [js ''constructor'', js ''Computers'']
       = Member (js ''constructor'')"
    unfolding mapCategoryToGenre_def l by simp
  show ?thesis by (intro conjI) (rule label_constructor label_exact a b)+
qed

section \<open>Properties of the ISBN merge engine and the registry adapter\<close>

lemma mergeGoogle_fields:
  "mergeGoogle ob g =
     \<lparr> r_id = r_id ob, r_title = r_title ob, r_authors = r_authors ob,
       r_categories = (if r_categories ob = [] then r_categories g else r_categories ob),
       r_publishedDate =
         (if length (r_publishedDate ob) \<le> 4 \<and> r_publishedDate g \<noteq> [] then r_publishedDate g
          else r_publishedDate ob),
       r_pageCount = (if r_pageCount ob = 0 then r_pageCount g else r_pageCount ob),
       r_thumbnail =
         (if \<not> truthy (r_thumbnail ob) \<and> truthy (r_thumbnail g) then r_thumbnail g
          else r_thumbnail ob),
       r_description =
         (if \<not> truthy (r_description ob) \<and> truthy (r_description g) then r_description g
          else r_description ob) \<rparr>"
proof -
  define r1 where "r1 = (if \<not> truthy (r_thumbnail ob) \<and> truthy (r_thumbnail g)
                then ob\<lparr>r_thumbnail := r_thumbnail g\<rparr> else ob)"
  define r2 where "r2 = (if \<not> truthy (r_description r1) \<and> truthy (r_description g)
                then r1\<lparr>r_description := r_description g\<rparr> else r1)"
  define r3 where "r3 = (if r_pageCount r2 = 0 \<and> r_pageCount g \<noteq> 0
                then r2\<lparr>r_pageCount := r_pageCount g\<rparr> else r2)"
  define r4 where "r4 = (if (r_publishedDate r3 = [] \<or> length (r_publishedDate r3) \<le> 4)
                   \<and> r_publishedDate g \<noteq> []
                then r3\<lparr>r_publishedDate := r_publishedDate g\<rparr> else r3)"
  define r5 where "r5 = (if length (r_categories r4) = 0 \<and> length (r_categories g) > 0
                then r4\<lparr>r_categories := r_categories g\<rparr> else r4)"
  have m: "mergeGoogle ob g = r5"
    unfolding mergeGoogle_def Let_def r5_def r4_def r3_def r2_def r1_def by (rule refl)
  have f1: "r_id r1 = r_id ob" "r_title r1 = r_title ob" "r_authors r1 = r_authors ob"
    "r_categories r1 = r_categories ob" "r_publishedDate r1 = r_publishedDate ob"
    "r_pageCount r1 = r_pageCount ob" "r_description r1 = r_description ob"
    "r_thumbnail r1 = (if \<not> truthy (r_thumbnail ob) \<and> truthy (r_thumbnail g) then r_thumbnail g
          else r_thumbnail ob)"
    by (simp_all add: r1_def)
  have f2: "r_id r2 = r_id r1" "r_title r2 = r_title r1" "r_authors r2 = r_authors r1"
    "r_categories r2 = r_categories r1" "r_publishedDate r2 = r_publishedDate r1"
    "r_pageCount r2 = r_pageCount r1" "r_thumbnail r2 = r_thumbnail r1"
    "r_description r2 = (if \<not> truthy (r_description r1) \<and> truthy (r_description g)
          then r_description g else r_description r1)"
    by (simp_all add: r2_def)
  have f3: "r_id r3 = r_id r2" "r_title r3 = r_title r2" "r_authors r3 = r_authors r2"
    "r_categories r3 = r_categories r2" "r_publishedDate r3 = r_publishedDate r2"
    "r_thumbnail r3 = r_thumbnail r2" "r_description r3 = r_description r2"
    "r_pageCount r3 = (if r_pageCount r2 = 0 then r_pageCount g else r_pageCount r2)"
    by (simp_all add: r3_def)
  have f4: "r_id r4 = r_id r3" "r_title r4 = r_title r3" "r_authors r4 = r_authors r3"
    "r_categories r4 = r_categories r3" "r_pageCount r4 = r_pageCount r3"
    "r_thumbnail r4 = r_thumbnail r3" "r_description r4 = r_description r3"
    "r_publishedDate r4 = (if length (r_publishedDate r3) \<le> 4 \<and> r_publishedDate g \<noteq> []
          then r_publishedDate g else r_publishedDate r3)"
    by (auto simp: r4_def)
  have f5: "r_id r5 = r_id r4" "r_title r5 = r_title r4" "r_authors r5 = r_authors r4"
    "r_publishedDate r5 = r_publishedDate r4" "r_pageCount r5 = r_pageCount r4"
    "r_thumbnail r5 = r_thumbnail r4" "r_description r5 = r_description r4"
    "r_categories r5 = (if r_categories r4 = [] then r_categories g else r_categories r4)"
    by (auto simp: r5_def)
  show ?thesis
    unfolding m by (rule GoogleBookResult.equality) (simp_all add: f5 f4 f3 f2 f1)
qed

text \<open>
  C1. When the registry side and the search side of \<open>searchByIsbn\<close> both give a
  result, the merged result is the registry result with thumbnail, description, page
  count and categories taken from the search result only where the registry field is
  empty, zero or null (and the search field is not), and with the published date taken
  from the search result when the registry date has at most 4 characters and the search
  date is not empty. A non-empty registry description is never changed.
\<close>

theorem searchByIsbn_merge:
  assumes "openBDPromise isbn openbdReply = Some ob"
    and "googlePromise googleReply = Raw (Some g)"
  shows "searchByIsbn isbn openbdReply googleReply =
           Inr (Some \<lparr> r_id = r_id ob, r_title = r_title ob, r_authors = r_authors ob,
             r_categories = (if r_categories ob = [] then r_categories g else r_categories ob),
             r_publishedDate =
               (if length (r_publishedDate ob) \<le> 4 \<and> r_publishedDate g \<noteq> [] then r_publishedDate g
                else r_publishedDate ob),
             r_pageCount = (if r_pageCount ob = 0 then r_pageCount g else r_pageCount ob),
             r_thumbnail =
               (if \<not> truthy (r_thumbnail ob) \<and> truthy (r_thumbnail g) then r_thumbnail g
                else r_thumbnail ob),
             r_description =
               (if \<not> truthy (r_description ob) \<and> truthy (r_description g) then r_description g
                else r_description ob) \<rparr>)
         \<and> (truthy (r_description ob) \<longrightarrow>
              (\<exists>m. searchByIsbn isbn openbdReply googleReply = Inr (Some m)
                   \<and> r_description m = r_description ob))"
  using assms by (simp add: searchByIsbn_def mergeResults_def mergeGoogle_fields)

lemmas example_defs = exampleSummary_def exampleOpenBDReply_def exampleVolume_def exampleGoogleReply_def

lemma example_openBD:
  "openBDPromise (js ''9784774142043'') exampleOpenBDReply =
     Some \<lparr> r_id = js ''openbd-9784774142043'', r_title = js ''Kokoro'', r_authors = [js ''Natsume''],
            r_categories = [], r_publishedDate = js ''2015'', r_pageCount = 0,
            r_thumbnail = None, r_description = None \<rparr>"
  by (simp add: openBDPromise_def searchByIsbnOpenBD_def example_defs httpOk_def openBDResult_def
      normalizeIsbn_def isWhiteSpace_def formatPubdate_def)

lemma example_google:
  "googlePromise exampleGoogleReply =
     Raw (Some \<lparr> r_id = js ''g1'', r_title = js ''Kokoro'', r_authors = [],
            r_categories = [js ''Fiction''], r_publishedDate = js ''2015-04-01'', r_pageCount = 250,
            r_thumbnail = Some (js ''s.png''), r_description = Some (js ''A novel'') \<rparr>)"
  by (simp add: googlePromise_def googleIsbnThen_def example_defs httpOk_def mapVolumeToResult_def)

theorem searchByIsbn_merge_witness:
  "openBDPromise (js ''9784774142043'') exampleOpenBDReply =
     Some \<lparr> r_id = js ''openbd-9784774142043'', r_title = js ''Kokoro'', r_authors = [js ''Natsume''],
            r_categories = [], r_publishedDate = js ''2015'', r_pageCount = 0,
            r_thumbnail = None, r_description = None \<rparr>
   \<and> googlePromise exampleGoogleReply =
     Raw (Some \<lparr> r_id = js ''g1'', r_title = js ''Kokoro'', r_authors = [],
            r_categories = [js ''Fiction''], r_publishedDate = js ''2015-04-01'', r_pageCount = 250,
            r_thumbnail = Some (js ''s.png''), r_description = Some (js ''A novel'') \<rparr>)
   \<and> searchByIsbn (js ''9784774142043'') exampleOpenBDReply exampleGoogleReply =
     Inr (Some \<lparr> r_id = js ''openbd-9784774142043'', r_title = js ''Kokoro'', r_authors = [js ''Natsume''],
            r_categories = [js ''Fiction''], r_publishedDate = js ''2015-04-01'', r_pageCount = 250,
            r_thumbnail = Some (js ''s.png''), r_description = Some (js ''A novel'') \<rparr>)"
  using searchByIsbn_merge [OF example_openBD example_google] example_openBD example_google
  by simp

lemma googlePromise_cases:
  "googlePromise reply =
     (case reply of
        NetworkError \<Rightarrow> Raw None
      | Response status body \<Rightarrow>
          if status = 429 then RATE_LIMITED
          else if \<not> httpOk status then Raw None
          else (case body of
                  JsonValue data \<Rightarrow>
                    (case items data of
                       Some (item # rest) \<Rightarrow> Raw (Some (mapVolumeToResult item))
                     | _ \<Rightarrow> Raw None)
                | _ \<Rightarrow> Raw None))"
  by (simp add: googlePromise_def googleIsbnThen_def
      split: fetched.splits jsonBody.splits option.splits list.splits)

text \<open>
  C4. When the registry side gives no result, \<open>searchByIsbn\<close> returns the search
  result if there is one, raises \<open>RateLimitError\<close> exactly when the search response
  has status 429, and returns \<open>null\<close> for every other failure of the search side
  (another status outside 200-299, no items, a body that cannot be read, a network error).
\<close>

theorem searchByIsbn_registry_absent:
  assumes "openBDPromise isbn openbdReply = None"
  shows "searchByIsbn isbn openbdReply googleReply =
           (case googleReply of
              NetworkError \<Rightarrow> Inr None
            | Response status body \<Rightarrow>
                if status = 429 then Inl RateLimitError
                else if \<not> httpOk status then Inr None
                else (case body of
                        JsonValue data \<Rightarrow>
                          (case items data of
                             Some (item # rest) \<Rightarrow> Inr (Some (mapVolumeToResult item))
                           | _ \<Rightarrow> Inr None)
                      | _ \<Rightarrow> Inr None))
         \<and> ((\<exists>e. searchByIsbn isbn openbdReply googleReply = Inl e)
              \<longleftrightarrow> (\<exists>body. googleReply = Response 429 body))"
  using assms
  by (auto simp: searchByIsbn_def mergeResults_def googlePromise_cases
      split: fetched.splits jsonBody.splits option.splits list.splits)

theorem searchByIsbn_registry_absent_witness:
  "openBDPromise (js ''9784774142043'') (Response 404 JsonNull) = None
   \<and> searchByIsbn (js ''9784774142043'') (Response 404 JsonNull) (Response 429 JsonNull)
       = Inl RateLimitError
   \<and> searchByIsbn (js ''9784774142043'') (Response 404 JsonNull) (Response 500 JsonNull) = Inr None
   \<and> searchByIsbn (js ''9784774142043'') (Response 404 JsonNull) NetworkError = Inr None
   \<and> searchByIsbn (js ''9784774142043'') (Response 404 JsonNull)
       (Response 200 (JsonValue \<lparr> items = Some [] \<rparr>)) = Inr None
   \<and> searchByIsbn (js ''9784774142043'') (Response 404 JsonNull) exampleGoogleReply
       = Inr (Some (mapVolumeToResult exampleVolume))"
proof -
  have h: "openBDPromise (js ''9784774142043'') (Response 404 JsonNull) = None"
    by (simp add: openBDPromise_def searchByIsbnOpenBD_def httpOk_def)
  show ?thesis
    using h searchByIsbn_registry_absent [OF h, of "Response 429 JsonNull"]
      searchByIsbn_registry_absent [OF h, of "Response 500 JsonNull"]
      searchByIsbn_registry_absent [OF h, of NetworkError]
      searchByIsbn_registry_absent [OF h, of "Response 200 (JsonValue \<lparr> items = Some [] \<rparr>)"]
      searchByIsbn_registry_absent [OF h, of exampleGoogleReply]
    by (simp add: httpOk_def exampleGoogleReply_def)
qed

text \<open>
  C8, as amended. \<open>searchByIsbnOpenBD\<close> returns \<open>null\<close> without raising for a
  status outside 200-299, a \<open>null\<close> body, an empty array, a \<open>null\<close> first element,
  and a first element whose summary has no title or an empty one. Where the adapter
  itself raises (a first element without a summary, a body that is not JSON, a rejected
  fetch), \<open>searchByIsbn\<close> catches the error and continues as with a \<open>null\<close> registry
  result, so the merge is not aborted.
\<close>

theorem searchByIsbnOpenBD_null_cases:
  "(\<not> httpOk status \<longrightarrow> searchByIsbnOpenBD isbn (Response status body) = Inr None)
   \<and> searchByIsbnOpenBD isbn (Response status JsonNull) = Inr None
   \<and> searchByIsbnOpenBD isbn (Response status (JsonValue [])) = Inr None
   \<and> searchByIsbnOpenBD isbn (Response status (JsonValue (None # rest))) = Inr None
   \<and> (\<not> truthy (s_title sm) \<longrightarrow>
        searchByIsbnOpenBD isbn
          (Response status (JsonValue (Some \<lparr> summary = Some sm, onix = ox \<rparr> # rest))) = Inr None)
   \<and> (searchByIsbnOpenBD isbn reply = Inl e \<longrightarrow>
        searchByIsbn isbn reply googleReply =
          (case googlePromise googleReply of
             RATE_LIMITED \<Rightarrow> Inl RateLimitError
           | Raw g \<Rightarrow> Inr g))"
proof -
  have title: "\<not> truthy (s_title sm) \<Longrightarrow>
      searchByIsbnOpenBD isbn
        (Response status (JsonValue (Some \<lparr> summary = Some sm, onix = ox \<rparr> # rest))) = Inr None"
    by (cases "s_title sm") (simp_all add: searchByIsbnOpenBD_def)
  have caught: "searchByIsbnOpenBD isbn reply = Inl e \<Longrightarrow>
      searchByIsbn isbn reply googleReply =
        (case googlePromise googleReply of
           RATE_LIMITED \<Rightarrow> Inl RateLimitError
         | Raw g \<Rightarrow> Inr g)"
    by (simp add: searchByIsbn_def mergeResults_def openBDPromise_def split: googleRaw.splits)
  show ?thesis
    using title caught by (simp add: searchByIsbnOpenBD_def)
qed

theorem searchByIsbnOpenBD_null_cases_witness:
  "\<not> httpOk 404
   \<and> searchByIsbnOpenBD (js ''9784774142043'') (Response 404 NotJson) = Inr None
   \<and> \<not> truthy (s_title (exampleSummary\<lparr>s_title := Some []\<rparr>))
   \<and> searchByIsbnOpenBD (js ''9784774142043'')
        (Response 200 (JsonValue
           [Some \<lparr> summary = Some (exampleSummary\<lparr>s_title := Some []\<rparr>), onix = None \<rparr>])) = Inr None
   \<and> searchByIsbnOpenBD (js ''9784774142043'')
        (Response 200 (JsonValue [Some \<lparr> summary = None, onix = None \<rparr>])) = Inl TypeError
   \<and> searchByIsbn (js ''9784774142043'')
        (Response 200 (JsonValue [Some \<lparr> summary = None, onix = None \<rparr>])) exampleGoogleReply
       = Inr (Some (mapVolumeToResult exampleVolume))"
proof -
  have a: "\<not> httpOk 404" by (simp add: httpOk_def)
  have b: "\<not> truthy (s_title (exampleSummary\<lparr>s_title := Some []\<rparr>))" by simp
  have c: "searchByIsbnOpenBD (js ''9784774142043'')
        (Response 200 (JsonValue [Some \<lparr> summary = None, onix = None \<rparr>])) = Inl TypeError"
    by (simp add: searchByIsbnOpenBD_def httpOk_def)
  have g: "googlePromise exampleGoogleReply = Raw (Some (mapVolumeToResult exampleVolume))"
    by (simp add: googlePromise_def googleIsbnThen_def exampleGoogleReply_def httpOk_def)
  show ?thesis
    using a b c g
      searchByIsbnOpenBD_null_cases [where status = 404 and isbn = "js ''9784774142043''"
        and body = NotJson and sm = "exampleSummary\<lparr>s_title := Some []\<rparr>" and ox = None
        and rest = "[]" and e = TypeError and googleReply = exampleGoogleReply
        and reply = "Response 200 (JsonValue [Some \<lparr> summary = None, onix = None \<rparr>])"]
      searchByIsbnOpenBD_null_cases [where status = 200 and isbn = "js ''9784774142043''"
        and body = NotJson and sm = "exampleSummary\<lparr>s_title := Some []\<rparr>" and ox = None
        and rest = "[]" and e = TypeError and googleReply = exampleGoogleReply
        and reply = "Response 200 (JsonValue [Some \<lparr> summary = None, onix = None \<rparr>])"]
    by simp
qed

text \<open>
  The adapter does raise on a malformed response: a first element that is an object
  without \<open>summary\<close> makes \<open>summary.title\<close> a read on \<open>undefined\<close>.
\<close>

theorem searchByIsbnOpenBD_raises_on_missing_summary:
  "searchByIsbnOpenBD (js ''9784774142043'')
      (Response 200 (JsonValue [Some \<lparr> summary = None, onix = None \<rparr>])) = Inl TypeError
   \<and> searchByIsbnOpenBD (js ''9784774142043'')
      (Response 200 (JsonValue [Some \<lparr> summary = None, onix = None \<rparr>])) \<noteq> Inr None"
  by (simp add: searchByIsbnOpenBD_def httpOk_def)

section \<open>Properties of the scheduler: what each step leaves unchanged\<close>

lemma dateNow_fields [simp]:
  "fst (dateNow E w) = clock E (ticks w)"
  "books_slot (snd (dateNow E w)) = books_slot w"
  "backfill_ts (snd (dateNow E w)) = backfill_ts w"
  "nodata_slot (snd (dateNow E w)) = nodata_slot w"
  "requests (snd (dateNow E w)) = requests w"
  "ticks (snd (dateNow E w)) = Suc (ticks w)"
  by (simp_all add: dateNow_def)

lemma getBooks_fields [simp]:
  "backfill_ts (snd (getBooks E w)) = backfill_ts w"
  "nodata_slot (snd (getBooks E w)) = nodata_slot w"
  "requests (snd (getBooks E w)) = requests w"
  "ticks (snd (getBooks E w)) = ticks w"
  by (simp_all add: getBooks_def Let_def split: option.splits)

lemma getBooks_raises:
  "fst (getBooks E w) = Inl err \<Longrightarrow> err = TypeError \<and> snd (getBooks E w) = w"
  by (auto simp: getBooks_def Let_def split: option.splits if_splits)

lemma markNoData_fields [simp]:
  "books_slot (snd (markNoData E nd bid w)) = books_slot w"
  "backfill_ts (snd (markNoData E nd bid w)) = backfill_ts w"
  "nodata_slot (snd (markNoData E nd bid w)) = nodata_slot w"
  "requests (snd (markNoData E nd bid w)) = requests w"
  by (simp_all add: markNoData_def dateNow_def)


lemma shouldSkip_fields [simp]:
  "books_slot (snd (shouldSkip E nd bid w)) = books_slot w"
  "backfill_ts (snd (shouldSkip E nd bid w)) = backfill_ts w"
  "nodata_slot (snd (shouldSkip E nd bid w)) = nodata_slot w"
  "requests (snd (shouldSkip E nd bid w)) = requests w"
  by (simp_all add: shouldSkip_def dateNow_def split: option.splits)

lemma updateBook_fields [simp]:
  "backfill_ts (snd (updateBook E bid u w)) = backfill_ts w"
  "nodata_slot (snd (updateBook E bid u w)) = nodata_slot w"
  "requests (snd (updateBook E bid u w)) = requests w"
proof -
  obtain r w1 where g: "getBooks E w = (r, w1)" by (cases "getBooks E w")
  have w1: "backfill_ts w1 = backfill_ts w" "nodata_slot w1 = nodata_slot w" "requests w1 = requests w"
    using getBooks_fields [of E w] by (simp_all add: g)
  show "backfill_ts (snd (updateBook E bid u w)) = backfill_ts w"
    "nodata_slot (snd (updateBook E bid u w)) = nodata_slot w"
    "requests (snd (updateBook E bid u w)) = requests w"
    by (simp_all add: updateBook_def g dateNow_def w1 split: option.splits sum.splits)
qed

lemma updateBook_raises:
  "fst (updateBook E bid u w) = Some err \<Longrightarrow> err = TypeError"
proof -
  assume a: "fst (updateBook E bid u w) = Some err"
  obtain r w1 where g: "getBooks E w = (r, w1)" by (cases "getBooks E w")
  show "err = TypeError"
  proof (cases r)
    case (Inl e)
    then have "e = TypeError" using getBooks_raises [of E w e] by (simp add: g)
    then show ?thesis using a Inl by (simp add: updateBook_def g)
  next
    case (Inr books)
    then show ?thesis
      using a by (simp add: updateBook_def g dateNow_def split: option.splits)
  qed
qed

lemma purgeExpired_fields [simp]:
  "books_slot (snd (purgeExpired E ids nd w)) = books_slot w"
  "backfill_ts (snd (purgeExpired E ids nd w)) = backfill_ts w"
  "nodata_slot (snd (purgeExpired E ids nd w)) = nodata_slot w"
  "requests (snd (purgeExpired E ids nd w)) = requests w"
  by (induction ids arbitrary: nd w; simp add: dateNow_def split: option.splits)+

lemma needsIsbnLookup_fields [simp]:
  "books_slot (snd (needsIsbnLookup E nd bs w)) = books_slot w"
  "backfill_ts (snd (needsIsbnLookup E nd bs w)) = backfill_ts w"
  "nodata_slot (snd (needsIsbnLookup E nd bs w)) = nodata_slot w"
  "requests (snd (needsIsbnLookup E nd bs w)) = requests w"
  by (induction bs arbitrary: w; simp split: prod.splits;
      metis shouldSkip_fields snd_conv)+

lemma needsGoogleFilter_fields [simp]:
  "books_slot (snd (needsGoogleFilter E nd bs w)) = books_slot w"
  "backfill_ts (snd (needsGoogleFilter E nd bs w)) = backfill_ts w"
  "nodata_slot (snd (needsGoogleFilter E nd bs w)) = nodata_slot w"
  "requests (snd (needsGoogleFilter E nd bs w)) = requests w"
  by (induction bs arbitrary: w; simp split: prod.splits;
      metis shouldSkip_fields snd_conv)+

lemma needsGoogle_fields [simp]:
  "books_slot (snd (needsGoogle E nd bs w)) = books_slot w"
  "backfill_ts (snd (needsGoogle E nd bs w)) = backfill_ts w"
  "nodata_slot (snd (needsGoogle E nd bs w)) = nodata_slot w"
  "requests (snd (needsGoogle E nd bs w)) = requests w"
  by (simp_all add: needsGoogle_def split: prod.splits)
     (metis needsGoogleFilter_fields snd_conv)+

lemma isbnLookup_fields [simp]:
  "books_slot (snd (isbnLookup E b w)) = books_slot w"
  "backfill_ts (snd (isbnLookup E b w)) = backfill_ts w"
  "nodata_slot (snd (isbnLookup E b w)) = nodata_slot w"
  "ticks (snd (isbnLookup E b w)) = ticks w"
  by (simp_all add: isbnLookup_def Let_def split: option.splits)

lemma searchBooks_fields [simp]:
  "books_slot (snd (searchBooks E q w)) = books_slot w"
  "backfill_ts (snd (searchBooks E q w)) = backfill_ts w"
  "nodata_slot (snd (searchBooks E q w)) = nodata_slot w"
  "ticks (snd (searchBooks E q w)) = ticks w"
  by (simp_all add: searchBooks_def)

lemma applyResult_fields [simp]:
  "backfill_ts (snd (snd (snd (applyResult E b r st)))) = backfill_ts (snd (snd st))"
  "nodata_slot (snd (snd (snd (applyResult E b r st)))) = nodata_slot (snd (snd st))"
  "requests (snd (snd (snd (applyResult E b r st)))) = requests (snd (snd st))"
proof -
  obtain nd u w where st: "st = (nd, u, w)" by (cases st)
  obtain e w1 where ub: "updateBook E (b_id b) (fieldUpdates E b r) w = (e, w1)"
    by (cases "updateBook E (b_id b) (fieldUpdates E b r) w")
  have w1: "backfill_ts w1 = backfill_ts w" "nodata_slot w1 = nodata_slot w" "requests w1 = requests w"
    using updateBook_fields [of E "b_id b" "fieldUpdates E b r" w] by (simp_all add: ub)
  obtain nd2 w2 where m: "markNoData E nd (b_id b) w = (nd2, w2)"
    by (cases "markNoData E nd (b_id b) w")
  have w2: "backfill_ts w2 = backfill_ts w" "nodata_slot w2 = nodata_slot w" "requests w2 = requests w"
    using markNoData_fields [of E nd "b_id b" w] by (simp_all add: m)
  show "backfill_ts (snd (snd (snd (applyResult E b r st)))) = backfill_ts (snd (snd st))"
    "nodata_slot (snd (snd (snd (applyResult E b r st)))) = nodata_slot (snd (snd st))"
    "requests (snd (snd (snd (applyResult E b r st)))) = requests (snd (snd st))"
    by (simp_all add: st applyResult_def Let_def ub m w1 w2 split: option.splits)
qed

lemma applyResult_raises:
  "fst (applyResult E b r st) = Some err \<Longrightarrow> err = TypeError"
proof -
  assume a: "fst (applyResult E b r st) = Some err"
  obtain nd u w where st: "st = (nd, u, w)" by (cases st)
  obtain e w1 where ub: "updateBook E (b_id b) (fieldUpdates E b r) w = (e, w1)"
    by (cases "updateBook E (b_id b) (fieldUpdates E b r) w")
  have "e = Some err' \<Longrightarrow> err' = TypeError" for err'
    using updateBook_raises [of E "b_id b" "fieldUpdates E b r" w err'] by (simp add: ub)
  then show "err = TypeError"
    using a by (auto simp: st applyResult_def Let_def ub split: option.splits if_splits prod.splits)
qed

text \<open>One step of each loop, by the outcome of its request.\<close>

lemma phase1_step:
  "phase1 E (book # books) (nd, u, w) =
     (case isbnLookup E book w of
        (Inl err, w1) \<Rightarrow>
          if err = RateLimitError then (nd, u, w1) else phase1 E books (nd, u, w1)
      | (Inr None, w1) \<Rightarrow> phase1 E books (fst (markNoData E nd (b_id book) w1), u,
                             snd (markNoData E nd (b_id book) w1))
      | (Inr (Some result), w1) \<Rightarrow> phase1 E books (snd (applyResult E book result (nd, u, w1))))"
proof -
  have "(case applyResult E book result (nd, u, w1) of
           (Some err, st) \<Rightarrow> if err = RateLimitError then st else phase1 E books st
         | (None, st) \<Rightarrow> phase1 E books st)
        = phase1 E books (snd (applyResult E book result (nd, u, w1)))" for result w1
  proof -
    obtain e st where p: "applyResult E book result (nd, u, w1) = (e, st)"
      by (cases "applyResult E book result (nd, u, w1)") auto
    show ?thesis
    proof (cases e)
      case None
      then show ?thesis by (simp add: p)
    next
      case (Some err)
      then have "err = TypeError"
        using applyResult_raises [of E book result "(nd, u, w1)" err] by (simp add: p)
      then show ?thesis using Some by (simp add: p)
    qed
  qed
  then show ?thesis
    by (simp split: prod.splits sum.splits option.splits)
qed

lemma phase2_step:
  "phase2 E (book # books) (nd, u, w) =
     (case searchBooks E (searchQuery book) w of
        (Inl err, w1) \<Rightarrow>
          if err = RateLimitError then (nd, u, w1) else phase2 E books (nd, u, w1)
      | (Inr [], w1) \<Rightarrow> phase2 E books (fst (markNoData E nd (b_id book) w1), u,
                           snd (markNoData E nd (b_id book) w1))
      | (Inr (r # rest), w1) \<Rightarrow> phase2 E books (snd (applyResult E book r (nd, u, w1))))"
proof -
  have "(case applyResult E book result (nd, u, w1) of
           (Some err, st) \<Rightarrow> if err = RateLimitError then st else phase2 E books st
         | (None, st) \<Rightarrow> phase2 E books st)
        = phase2 E books (snd (applyResult E book result (nd, u, w1)))" for result w1
  proof -
    obtain e st where p: "applyResult E book result (nd, u, w1) = (e, st)"
      by (cases "applyResult E book result (nd, u, w1)") auto
    show ?thesis
    proof (cases e)
      case None
      then show ?thesis by (simp add: p)
    next
      case (Some err)
      then have "err = TypeError"
        using applyResult_raises [of E book result "(nd, u, w1)" err] by (simp add: p)
      then show ?thesis using Some by (simp add: p)
    qed
  qed
  then show ?thesis
    by (simp split: prod.splits sum.splits option.splits list.splits)
qed

declare phase1.simps(2) [simp del]
declare phase2.simps(2) [simp del]

text \<open>
  An observation of the world that no step of a loop changes is the same after the loop.
\<close>

lemma phase1_preserves:
  assumes "\<And>b w. f (snd (isbnLookup E b w)) = f w"
    and "\<And>nd b w. f (snd (markNoData E nd b w)) = f w"
    and "\<And>b r st. f (snd (snd (snd (applyResult E b r st)))) = f (snd (snd st))"
  shows "f (snd (snd (phase1 E bs st))) = f (snd (snd st))"
proof (induction bs arbitrary: st)
  case Nil
  show ?case by simp
next
  case (Cons book books)
  obtain nd u w where st: "st = (nd, u, w)" by (cases st)
  obtain r w1 where l: "isbnLookup E book w = (r, w1)" by (cases "isbnLookup E book w")
  have w1: "f w1 = f w" using assms(1) [of book w] by (simp add: l)
  show ?case
  proof (cases r)
    case (Inl err)
    then show ?thesis by (simp add: st phase1_step l w1 Cons.IH)
  next
    case (Inr res)
    show ?thesis
    proof (cases res)
      case None
      then show ?thesis
        using Inr by (simp add: st phase1_step l Cons.IH assms(2) w1)
    next
      case (Some result)
      then show ?thesis
        using Inr assms(3) [of book result "(nd, u, w1)"]
        by (simp add: st phase1_step l Cons.IH w1)
    qed
  qed
qed

lemma phase2_preserves:
  assumes "\<And>q w. f (snd (searchBooks E q w)) = f w"
    and "\<And>nd b w. f (snd (markNoData E nd b w)) = f w"
    and "\<And>b r st. f (snd (snd (snd (applyResult E b r st)))) = f (snd (snd st))"
  shows "f (snd (snd (phase2 E bs st))) = f (snd (snd st))"
proof (induction bs arbitrary: st)
  case Nil
  show ?case by simp
next
  case (Cons book books)
  obtain nd u w where st: "st = (nd, u, w)" by (cases st)
  obtain r w1 where l: "searchBooks E (searchQuery book) w = (r, w1)"
    by (cases "searchBooks E (searchQuery book) w")
  have w1: "f w1 = f w" using assms(1) [of "searchQuery book" w] by (simp add: l)
  show ?case
  proof (cases r)
    case (Inl err)
    then show ?thesis by (simp add: st phase2_step l w1 Cons.IH)
  next
    case (Inr res)
    show ?thesis
    proof (cases res)
      case Nil
      then show ?thesis
        using Inr by (simp add: st phase2_step l Cons.IH assms(2) w1)
    next
      case (Cons result rest)
      then show ?thesis
        using Inr assms(3) [of book result "(nd, u, w1)"]
        by (simp add: st phase2_step l Cons.IH w1)
    qed
  qed
qed



lemma phase1_fields [simp]:
  "backfill_ts (snd (snd (phase1 E bs st))) = backfill_ts (snd (snd st))"
  "nodata_slot (snd (snd (phase1 E bs st))) = nodata_slot (snd (snd st))"
  by (rule phase1_preserves; simp)+

lemma phase2_fields [simp]:
  "backfill_ts (snd (snd (phase2 E bs st))) = backfill_ts (snd (snd st))"
  "nodata_slot (snd (snd (phase2 E bs st))) = nodata_slot (snd (snd st))"
  by (rule phase2_preserves; simp)+


lemma persist_slots:
  "nodata_slot (snd (persist E (nd, u, w))) = Some (CacheJson nd)"
  "backfill_ts (snd (persist E (nd, u, w))) = Some (numberToString (Num (clock E (ticks w))))"
  "requests (snd (persist E (nd, u, w))) = requests w"
proof -
  define w2 where "w2 = (w\<lparr>nodata_slot := Some (CacheJson nd), ticks := Suc (ticks w),
      backfill_ts := Some (numberToString (Num (clock E (ticks w))))\<rparr>)"
  obtain r w3 where g: "getBooks E w2 = (r, w3)" by (cases "getBooks E w2")
  have w3: "nodata_slot w3 = nodata_slot w2" "backfill_ts w3 = backfill_ts w2"
    "requests w3 = requests w2"
    using getBooks_fields [of E w2] by (simp_all add: g)
  have p: "snd (persist E (nd, u, w)) = (if u then w3 else w2)"
    using g by (simp add: persist_def dateNow_def Let_def w2_def split: sum.splits)
  show "nodata_slot (snd (persist E (nd, u, w))) = Some (CacheJson nd)"
    "backfill_ts (snd (persist E (nd, u, w))) = Some (numberToString (Num (clock E (ticks w))))"
    "requests (snd (persist E (nd, u, w))) = requests w"
    by (simp_all add: p w3) (simp_all add: w2_def)
qed

lemma persist_persists:
  "\<exists>nd t. nodata_slot (snd (persist E st)) = Some (CacheJson nd)
         \<and> backfill_ts (snd (persist E st)) = Some (numberToString (Num t))"
  by (cases st) (auto simp: persist_slots)

lemma persist_requests: "requests (snd (persist E st)) = requests (snd (snd st))"
  by (cases st) (simp add: persist_slots)



lemma natToString_nonempty: "natToString n \<noteq> []"
  by (subst natToString.simps) simp

lemma numberToString_Num_nonempty: "numberToString (Num i) \<noteq> []"
  by (simp add: natToString_nonempty)

lemma cooldown_return:
  assumes "backfill_ts w = Some lastRun" and "lastRun \<noteq> []"
    and "toNumber E lastRun = Num t" and "clock E (ticks w) - t < ONE_DAY"
  shows "backfillBookData E w = (None, w\<lparr>ticks := Suc (ticks w)\<rparr>)"
  using assms by (simp add: backfillBookData_def cooldownActive_def dateNow_def)

lemma shouldSkip_empty_cache: "fst (shouldSkip E [] bid w) = False"
  by (simp add: shouldSkip_def dateNow_def)


lemma needsGoogleFilter_empty_cache:
  "fst (needsGoogleFilter E [] bs w) = filter (\<lambda>b. b_title b \<noteq> [] \<and> isMissingData b) bs"
proof (induction bs arbitrary: w)
  case Nil
  show ?case by simp
next
  case (Cons b bs)
  obtain skip w1 where s: "shouldSkip E [] (b_id b) w = (skip, w1)"
    by (cases "shouldSkip E [] (b_id b) w")
  have "\<not> skip" using shouldSkip_empty_cache [of E "b_id b" w] by (simp add: s)
  obtain rest w2 where r: "needsGoogleFilter E [] bs w1 = (rest, w2)"
    by (cases "needsGoogleFilter E [] bs w1")
  have "rest = filter (\<lambda>b. b_title b \<noteq> [] \<and> isMissingData b) bs"
    using Cons [of w1] by (simp add: r)
  then show ?case using \<open>\<not> skip\<close> Cons [of w] by (simp add: s r)
qed

text \<open>With ids that name no inherited member, an empty cache also leaves the clock alone.\<close>

lemma needsIsbnLookup_empty_cache_plain:
  "list_all (\<lambda>b. b_id b \<notin> set objectMembers) bs \<Longrightarrow>
     needsIsbnLookup E [] bs w = (filter (\<lambda>b. hasIsbnLink b \<and> isMissingData b) bs, w)"
  by (induction bs) (simp_all add: shouldSkip_def)

lemma needsGoogleFilter_empty_cache_plain:
  "list_all (\<lambda>b. b_id b \<notin> set objectMembers) bs \<Longrightarrow>
     needsGoogleFilter E [] bs w = (filter (\<lambda>b. b_title b \<noteq> [] \<and> isMissingData b) bs, w)"
  by (induction bs) (simp_all add: shouldSkip_def)






text \<open>Stored records and records in memory.\<close>

lemma repairLegacy_toStored [simp]: "repairLegacy (toStored b) = b"
  by (simp add: repairLegacy_def toStored_def)

lemma toStored_not_legacy [simp]: "\<not> isLegacy (toStored b)"
  by (simp add: isLegacy_def toStored_def)


lemma migrateGenre_fields [simp]:
  "b_id (migrateGenre E b) = b_id b"
  "b_title (migrateGenre E b) = b_title b"
  "b_author (migrateGenre E b) = b_author b"
  "b_status (migrateGenre E b) = b_status b"
  "b_rating (migrateGenre E b) = b_rating b"
  "b_memo (migrateGenre E b) = b_memo b"
  "b_purchaseUrl (migrateGenre E b) = b_purchaseUrl b"
  "b_finishedDate (migrateGenre E b) = b_finishedDate b"
  "b_createdAt (migrateGenre E b) = b_createdAt b"
  by (simp_all add: migrateGenre_def split: genreField.splits)

lemma migrateGenre_unchanged: "\<not> needsGenreMigration E b \<Longrightarrow> migrateGenre E b = b"
  by (simp add: migrateGenre_def split: genreField.splits)


lemma repairedFrame_idem [simp]: "repairedFrame (repairedFrame f) = repairedFrame f"
  by (simp add: repairedFrame_def split: prod.splits)

lemma repairedFrame_current:
  "\<not> isLegacy s \<Longrightarrow> repairedFrame (frameOf s) = frameOf s"
  by (simp add: repairedFrame_def frameOf_def isLegacy_def)









lemma storeFrame_ticks [simp]: "storeFrame (w\<lparr>ticks := k\<rparr>) = storeFrame w"
  by (simp add: storeFrame_def)

lemma storeFrame_requests [simp]: "storeFrame (w\<lparr>requests := r\<rparr>) = storeFrame w"
  by (simp add: storeFrame_def)

lemma storeFrame_other_slots [simp]:
  "storeFrame (w\<lparr>nodata_slot := c\<rparr>) = storeFrame w"
  "storeFrame (w\<lparr>backfill_ts := t\<rparr>) = storeFrame w"
  by (simp_all add: storeFrame_def)














lemma plainStore_ticks [simp]: "plainStore (w\<lparr>ticks := k\<rparr>) = plainStore w"
  by (simp add: plainStore_def)

lemma repairedStore_ticks [simp]: "repairedStore (w\<lparr>ticks := k\<rparr>) = repairedStore w"
  by (simp add: repairedStore_def)













lemma shouldSkip_absent: "map_of nd bid = None \<Longrightarrow> fst (shouldSkip E nd bid w) = False"
  by (simp add: shouldSkip_def dateNow_def)





lemma needsGoogleFilter_selects:
  assumes "map_of nd (b_id b) = None" and "b \<in> set bs" and "b_title b \<noteq> []" and "isMissingData b"
  shows "b \<in> set (fst (needsGoogleFilter E nd bs w))"
  using assms(2)
proof (induction bs arbitrary: w)
  case Nil
  then show ?case by simp
next
  case (Cons c bs)
  obtain skip w1 where s: "shouldSkip E nd (b_id c) w = (skip, w1)"
    by (cases "shouldSkip E nd (b_id c) w")
  obtain rest w2 where r: "needsGoogleFilter E nd bs w1 = (rest, w2)"
    by (cases "needsGoogleFilter E nd bs w1")
  show ?case
  proof (cases "c = b")
    case True
    have s': "shouldSkip E nd (b_id b) w = (skip, w1)" using s True by simp
    then have "\<not> skip" using shouldSkip_absent [OF assms(1), of E w] by simp
    with True assms(3,4) show ?thesis by (simp add: s' r)
  next
    case False
    then have "b \<in> set rest" using Cons.IH [of w1] Cons.prems by (simp add: r)
    moreover have "b \<in> set (fst (needsGoogleFilter E nd bs w))"
      using Cons.IH [of w] Cons.prems False by simp
    ultimately show ?thesis by (simp add: s r)
  qed
qed




lemma needsIsbnLookup_subset:
  "set (fst (needsIsbnLookup E nd bs w)) \<subseteq> {b \<in> set bs. hasIsbnLink b \<and> isMissingData b}"
proof (induction bs arbitrary: w)
  case Nil
  show ?case by simp
next
  case (Cons c bs)
  obtain skip w1 where s: "shouldSkip E nd (b_id c) w = (skip, w1)"
    by (cases "shouldSkip E nd (b_id c) w")
  obtain rest w2 where r: "needsIsbnLookup E nd bs w1 = (rest, w2)"
    by (cases "needsIsbnLookup E nd bs w1")
  have "set rest \<subseteq> {b \<in> set bs. hasIsbnLink b \<and> isMissingData b}"
    using Cons [of w1] by (simp add: r)
  then show ?case by (auto simp: s r)
qed





lemma loadState_books:
  assumes "loadState E w = (Inr (current, noData), w1)"
  shows "fst (getBooks E w) = Inr current"
  using assms by (auto simp: loadState_def split: sum.splits prod.splits)

lemma searchBooks_isbn_requests:
  "filter isIsbnRequest (requests (snd (searchBooks E q w))) = filter isIsbnRequest (requests w)"
  by (simp add: searchBooks_def isIsbnRequest_def)

lemma phase2_isbn_requests:
  "filter isIsbnRequest (requests (snd (snd (phase2 E bs st))))
     = filter isIsbnRequest (requests (snd (snd st)))"
  by (rule phase2_preserves) (simp_all add: searchBooks_isbn_requests)

lemma phase2Stage_isbn_requests:
  "filter isIsbnRequest (requests (snd (snd (snd (phase2Stage E current st)))))
     = filter isIsbnRequest (requests (snd (snd st)))"
proof -
  obtain nd u w where st: "st = (nd, u, w)" by (cases st)
  obtain r w1 where a: "(if u then getBooks E w else (Inr current, w)) = (r, w1)"
    by (cases "if u then getBooks E w else (Inr current, w)")
  have f1: "requests w1 = requests w"
    using a getBooks_fields(3) [of E w] by (cases u) auto
  show ?thesis
  proof (cases r)
    case (Inl err)
    then show ?thesis by (simp add: phase2Stage_def st a f1)
  next
    case (Inr after)
    obtain c w2 where n: "needsGoogle E nd after w1 = (c, w2)"
      by (cases "needsGoogle E nd after w1")
    have "requests w2 = requests w1"
      using needsGoogle_fields(4) [of E nd after w1] by (simp add: n)
    then show ?thesis by (simp add: phase2Stage_def st a Inr n phase2_isbn_requests f1)
  qed
qed

lemma cooldownActive_requests: "requests (snd (cooldownActive E w)) = requests w"
  by (simp add: cooldownActive_def dateNow_def split: option.splits)

lemma loadState_requests: "requests (snd (loadState E w)) = requests w"
proof -
  obtain r w1 where g: "getBooks E w = (r, w1)" by (cases "getBooks E w")
  have f1: "requests w1 = requests w" using getBooks_fields(3) [of E w] by (simp add: g)
  obtain nd w2 where p: "purgeExpired E (map fst (getNoDataSet w1)) (getNoDataSet w1) w1 = (nd, w2)"
    by (cases "purgeExpired E (map fst (getNoDataSet w1)) (getNoDataSet w1) w1")
  have "requests w2 = requests w1"
    using purgeExpired_fields(4) [of E "map fst (getNoDataSet w1)" "getNoDataSet w1" w1]
    by (simp add: p)
  then show ?thesis by (cases r) (simp_all add: loadState_def g p f1)
qed

lemma isbnLookup_requests:
  assumes "extractAsin (b_purchaseUrl book) = Some asin"
  shows "requests (snd (isbnLookup E book w))
           = requests w @ [GoogleIsbnRequest asin, OpenBDRequest (normalizeIsbn asin)]"
  using assms by (simp add: isbnLookup_def Let_def)

section \<open>Properties of the scheduler: runs that complete\<close>

text \<open>
  A value written as genre is the inherited member \<open>__proto__\<close> only if that text is among
  the categories of the result. The registry adapter takes its categories from the
  C-code table, so only the search provider can supply it. Without it the store stays
  free of empty-object genres, \<open>getBooks\<close> never raises, and the run reaches its end.
\<close>

lemma categoryLoop_member:
  "categoryLoop lower cats = Some (Member k) \<Longrightarrow> k \<in> set cats"
  by (induction cats) (auto simp: getProperty_def split: option.splits if_splits)

lemma mapCategoryToGenre_member:
  "mapCategoryToGenre lower cats = Member k \<Longrightarrow> k \<in> set cats"
  using categoryLoop_member [of lower cats k]
  by (auto simp: mapCategoryToGenre_def split: option.splits list.splits)

lemma CCODE_values: "(k, v) \<in> set CCODE_GENRE_MAP \<Longrightarrow> v \<noteq> js ''__proto__''"
  by (auto simp: CCODE_GENRE_MAP_def)

lemma genreFromCCode_plain: "genreFromCCode subjects \<noteq> js ''__proto__''"
proof (induction subjects)
  case Nil
  show ?case by simp
next
  case (Cons sub subjects)
  show ?case
    using Cons CCODE_values
    by (auto simp: Let_def split: option.splits if_splits dest!: map_of_SomeD)
qed

lemma openBDResult_plain: "plainResult (openBDResult isbn13 title sm ox)"
  using genreFromCCode_plain genreFromCCode_plain [THEN not_sym]
  by (simp add: plainResult_def openBDResult_def Let_def)

lemma mapVolumeToResult_plain:
  "js ''__proto__'' \<notin> set (orElse (v_categories (volumeInfo item)) []) \<Longrightarrow>
     plainResult (mapVolumeToResult item)"
  by (simp add: plainResult_def mapVolumeToResult_def Let_def)

lemma openBDPromise_plain: "openBDPromise isbn reply = Some r \<Longrightarrow> plainResult r"
  by (auto simp: openBDPromise_def searchByIsbnOpenBD_def openBDResult_plain
      split: fetched.splits jsonBody.splits list.splits option.splits if_splits sum.splits)

lemma googlePromise_plain:
  "plainGoogle reply \<Longrightarrow> googlePromise reply = Raw (Some r) \<Longrightarrow> plainResult r"
  by (auto simp: plainGoogle_def googlePromise_def googleIsbnThen_def mapVolumeToResult_plain
      split: fetched.splits jsonBody.splits list.splits option.splits if_splits sum.splits)

lemma mergeGoogle_plain: "plainResult ob \<Longrightarrow> plainResult g \<Longrightarrow> plainResult (mergeGoogle ob g)"
  by (simp add: plainResult_def mergeGoogle_def Let_def)

lemma searchByIsbn_plain:
  assumes "plainGoogle greply" and "searchByIsbn isbn oreply greply = Inr (Some r)"
  shows "plainResult r"
proof -
  show ?thesis
  proof (cases "openBDPromise isbn oreply")
    case None
    then show ?thesis
      using assms googlePromise_plain [OF assms(1), of r]
      by (auto simp: searchByIsbn_def mergeResults_def Let_def split: googleRaw.splits if_splits)
  next
    case (Some ob)
    then have ob: "plainResult ob" by (rule openBDPromise_plain)
    show ?thesis
    proof (cases "googlePromise greply")
      case RATE_LIMITED
      then show ?thesis using assms Some ob by (simp add: searchByIsbn_def mergeResults_def)
    next
      case (Raw g)
      show ?thesis
      proof (cases g)
        case None
        then show ?thesis using assms Some ob Raw by (simp add: searchByIsbn_def mergeResults_def)
      next
        case (Some gr)
        then have "plainResult gr" using googlePromise_plain [OF assms(1), of gr] Raw by simp
        then show ?thesis
          using assms \<open>openBDPromise isbn oreply = Some ob\<close> ob Raw Some mergeGoogle_plain [of ob gr]
          by (auto simp: searchByIsbn_def mergeResults_def)
      qed
    qed
  qed
qed


lemma isbnLookup_plain:
  assumes "\<And>n. plainGoogle (googleNet E n)" and "fst (isbnLookup E book w) = Inr (Some r)"
  shows "plainResult r"
proof (cases "extractAsin (b_purchaseUrl book)")
  case None
  then have "mergeResults None (googlePromise (googleNet E (length (requests w)))) = Inr (Some r)"
    using assms(2) by (simp add: isbnLookup_def Let_def)
  then show ?thesis
    using googlePromise_plain [OF assms(1), of "length (requests w)" r]
    by (auto simp: mergeResults_def Let_def split: googleRaw.splits if_splits)
next
  case (Some asin)
  then have "searchByIsbn asin (openbdNet E (length (requests w))) (googleNet E (length (requests w)))
      = Inr (Some r)"
    using assms(2) by (simp add: isbnLookup_def Let_def)
  then show ?thesis using searchByIsbn_plain [OF assms(1)] by blast
qed

lemma searchBooks_plain:
  assumes "\<And>n. plainGoogle (googleNet E n)" and "fst (searchBooks E q w) = Inr rs"
  shows "list_all plainResult rs"
proof (cases "list_all isWhiteSpace q")
  case True
  then show ?thesis using assms(2) by (auto simp: searchBooks_def)
next
  case False
  then have "searchBooksFetched (googleNet E (length (requests w))) = Inr rs"
    using assms(2) by (simp add: searchBooks_def split: if_splits)
  then show ?thesis
    using assms(1) [of "length (requests w)"]
    by (auto simp: searchBooksFetched_def plainGoogle_def list_all_iff mapVolumeToResult_plain
        split: fetched.splits jsonBody.splits option.splits if_splits)
qed

lemma fieldUpdates_plain:
  "plainResult r \<Longrightarrow> p_genre (fieldUpdates E b r) \<noteq> Some (Member (js ''__proto__''))"
  using mapCategoryToGenre_member [of "toLowerCase E" "r_categories r" "js ''__proto__''"]
  by (auto simp: fieldUpdates_def emptyPatch_def plainResult_def)

lemma storedGenre_object: "storedGenre v = GenreObject \<longleftrightarrow> v = Member (js ''__proto__'')"
  by (cases v) simp_all

lemma applyPatch_plain:
  "b_genre b \<noteq> GenreObject \<Longrightarrow> p_genre u \<noteq> Some (Member (js ''__proto__'')) \<Longrightarrow>
     b_genre (applyPatch b u now) \<noteq> GenreObject"
  by (cases "p_genre u") (simp_all add: applyPatch_def storedGenre_object)

lemma toStored_genre [simp]: "sb_genre (toStored b) = b_genre b"
  by (simp add: toStored_def)

lemma migrateBook_plain: "sb_genre s \<noteq> GenreObject \<Longrightarrow> b_genre (migrateBook E s) \<noteq> GenreObject"
  by (auto simp: migrateBook_def migrateGenre_def needsGenreMigration_def repairLegacy_def
      split: genreField.splits jsvalue.splits)

lemma getBooks_plain:
  assumes "plainStore w"
  shows "\<exists>books. fst (getBooks E w) = Inr books \<and> list_all (\<lambda>b. b_genre b \<noteq> GenreObject) books"
    and "plainStore (snd (getBooks E w))"
  using assms
  by (auto simp: plainStore_def getBooks_def Let_def list_all_iff list_ex_iff migrateBook_plain
      split: option.splits)


lemma plainStore_slot: "books_slot w' = books_slot w \<Longrightarrow> plainStore w' = plainStore w"
  by (simp add: plainStore_def)

lemma updateBook_plain:
  assumes "plainStore w" and "p_genre u \<noteq> Some (Member (js ''__proto__''))"
  shows "fst (updateBook E bid u w) = None" and "plainStore (snd (updateBook E bid u w))"
proof -
  obtain r w1 where g: "getBooks E w = (r, w1)" by (cases "getBooks E w")
  obtain books where r: "r = Inr books" and books: "list_all (\<lambda>b. b_genre b \<noteq> GenreObject) books"
    using getBooks_plain(1) [OF assms(1), of E] by (auto simp: g)
  have w1: "plainStore w1" using getBooks_plain(2) [OF assms(1), of E] by (simp add: g)
  have upd: "list_all (\<lambda>b. b_genre b \<noteq> GenreObject) (books[i := applyPatch (books ! i) u now])"
    for i now
  proof (cases "i < length books")
    case True
    then have "b_genre (books ! i) \<noteq> GenreObject" using books by (simp add: list_all_length)
    then have "b_genre (applyPatch (books ! i) u now) \<noteq> GenreObject"
      using assms(2) by (rule applyPatch_plain)
    then show ?thesis
      using books set_update_subset_insert [of books i "applyPatch (books ! i) u now"]
      by (auto simp: list_all_iff)
  next
    case False
    then show ?thesis using books by (simp add: list_update_beyond)
  qed
  show "fst (updateBook E bid u w) = None"
    by (simp add: updateBook_def g r dateNow_def split: option.splits)
  show "plainStore (snd (updateBook E bid u w))"
    using w1 upd
    by (simp add: updateBook_def g r dateNow_def plainStore_def list_all_iff split: option.splits)
qed

lemma applyResult_plain:
  assumes "plainStore w" and "plainResult r"
  shows "fst (applyResult E b r (nd, u, w)) = None"
    and "plainStore (snd (snd (snd (applyResult E b r (nd, u, w)))))"
proof -
  obtain e w1 where ub: "updateBook E (b_id b) (fieldUpdates E b r) w = (e, w1)"
    by (cases "updateBook E (b_id b) (fieldUpdates E b r) w")
  have e: "e = None" and w1: "plainStore w1"
    using updateBook_plain [OF assms(1) fieldUpdates_plain [OF assms(2), of E b], of E "b_id b"]
    by (simp_all add: ub)
  obtain nd2 w2 where m: "markNoData E nd (b_id b) w = (nd2, w2)"
    by (cases "markNoData E nd (b_id b) w")
  have w2: "plainStore w2"
    using plainStore_slot [of w2 w] markNoData_fields(1) [of E nd "b_id b" w] assms(1)
    by (simp add: m)
  show "fst (applyResult E b r (nd, u, w)) = None"
    by (simp add: applyResult_def Let_def ub e m)
  show "plainStore (snd (snd (snd (applyResult E b r (nd, u, w)))))"
    by (simp add: applyResult_def Let_def ub e m w1 w2)
qed

lemma phase1_plain:
  assumes "\<And>n. plainGoogle (googleNet E n)"
  shows "plainStore w \<Longrightarrow> plainStore (snd (snd (phase1 E bs (nd, u, w))))"
proof (induction bs arbitrary: nd u w)
  case Nil
  then show ?case by simp
next
  case (Cons book books)
  obtain r w1 where l: "isbnLookup E book w = (r, w1)" by (cases "isbnLookup E book w")
  have w1: "plainStore w1"
    using plainStore_slot [of w1 w] isbnLookup_fields(1) [of E book w] Cons.prems by (simp add: l)
  show ?case
  proof (cases r)
    case (Inl err)
    then show ?thesis using Cons.IH [OF w1] w1 by (simp add: phase1_step l)
  next
    case (Inr res)
    show ?thesis
    proof (cases res)
      case None
      obtain nd1 w2 where m: "markNoData E nd (b_id book) w1 = (nd1, w2)"
        by (cases "markNoData E nd (b_id book) w1")
      have "plainStore w2"
        using plainStore_slot [of w2 w1] markNoData_fields(1) [of E nd "b_id book" w1] w1
        by (simp add: m)
      then show ?thesis using Cons.IH [of w2 nd1 u] Inr None by (simp add: phase1_step l m)
    next
      case (Some result)
      have pr: "plainResult result"
        using isbnLookup_plain [OF assms, of book w result] Inr Some by (simp add: l)
      obtain e nd1 u1 w2 where a: "applyResult E book result (nd, u, w1) = (e, nd1, u1, w2)"
        by (cases "applyResult E book result (nd, u, w1)") auto
      have "plainStore w2"
        using applyResult_plain(2) [OF w1 pr, of E book nd u] by (simp add: a)
      then show ?thesis using Cons.IH [of w2 nd1 u1] Inr Some by (simp add: phase1_step l a)
    qed
  qed
qed

lemma phase2_plain:
  assumes "\<And>n. plainGoogle (googleNet E n)"
  shows "plainStore w \<Longrightarrow> plainStore (snd (snd (phase2 E bs (nd, u, w))))"
proof (induction bs arbitrary: nd u w)
  case Nil
  then show ?case by simp
next
  case (Cons book books)
  obtain r w1 where l: "searchBooks E (searchQuery book) w = (r, w1)"
    by (cases "searchBooks E (searchQuery book) w")
  have w1: "plainStore w1"
    using plainStore_slot [of w1 w] searchBooks_fields(1) [of E "searchQuery book" w] Cons.prems
    by (simp add: l)
  show ?case
  proof (cases r)
    case (Inl err)
    then show ?thesis using Cons.IH [OF w1] w1 by (simp add: phase2_step l)
  next
    case (Inr res)
    show ?thesis
    proof (cases res)
      case Nil
      obtain nd1 w2 where m: "markNoData E nd (b_id book) w1 = (nd1, w2)"
        by (cases "markNoData E nd (b_id book) w1")
      have "plainStore w2"
        using plainStore_slot [of w2 w1] markNoData_fields(1) [of E nd "b_id book" w1] w1
        by (simp add: m)
      then show ?thesis using Cons.IH [of w2 nd1 u] Inr Nil by (simp add: phase2_step l m)
    next
      case (Cons result rest)
      have pr: "plainResult result"
        using searchBooks_plain [OF assms, of "searchQuery book" w res] Inr Cons by (simp add: l)
      obtain e nd1 u1 w2 where a: "applyResult E book result (nd, u, w1) = (e, nd1, u1, w2)"
        by (cases "applyResult E book result (nd, u, w1)") auto
      have "plainStore w2"
        using applyResult_plain(2) [OF w1 pr, of E book nd u] by (simp add: a)
      then show ?thesis
        using Cons.IH [of w2 nd1 u1] Inr Cons by (simp add: phase2_step l a)
    qed
  qed
qed

lemma persist_plain:
  assumes "plainStore w"
  shows "fst (persist E (nd, u, w)) = None"
proof -
  define w2 where "w2 = (w\<lparr>nodata_slot := Some (CacheJson nd), ticks := Suc (ticks w),
      backfill_ts := Some (numberToString (Num (clock E (ticks w))))\<rparr>)"
  have "plainStore w2" using assms by (simp add: plainStore_def w2_def)
  then obtain books where "fst (getBooks E w2) = Inr books"
    using getBooks_plain(1) [of w2 E] by auto
  then show ?thesis
    by (cases "getBooks E w2") (simp add: persist_def dateNow_def Let_def w2_def)
qed

lemma runBackfill_plain:
  assumes "\<And>n. plainGoogle (googleNet E n)" and "plainStore w"
  shows "fst (runBackfill E w) = None"
proof -
  obtain r w0 where g: "getBooks E w = (r, w0)" by (cases "getBooks E w")
  obtain current where r: "r = Inr current"
    using getBooks_plain(1) [OF assms(2), of E] by (auto simp: g)
  have w0: "plainStore w0" using getBooks_plain(2) [OF assms(2), of E] by (simp add: g)
  obtain nd w1 where p: "purgeExpired E (map fst (getNoDataSet w0)) (getNoDataSet w0) w0 = (nd, w1)"
    by (cases "purgeExpired E (map fst (getNoDataSet w0)) (getNoDataSet w0) w0")
  have w1: "plainStore w1"
    using plainStore_slot [of w1 w0] w0
      purgeExpired_fields(1) [of E "map fst (getNoDataSet w0)" "getNoDataSet w0" w0]
    by (simp add: p)
  have l: "loadState E w = (Inr (current, nd), w1)" by (simp add: loadState_def g r p)
  obtain c w2 where n: "needsIsbnLookup E nd current w1 = (c, w2)"
    by (cases "needsIsbnLookup E nd current w1")
  have w2: "plainStore w2"
    using plainStore_slot [of w2 w1] w1 needsIsbnLookup_fields(1) [of E nd current w1]
    by (simp add: n)
  obtain nd1 u1 w3 where p1: "phase1 E c (nd, False, w2) = (nd1, u1, w3)"
    by (cases "phase1 E c (nd, False, w2)")
  have w3: "plainStore w3" using phase1_plain [OF assms(1) w2, of c nd False] by (simp add: p1)
  have s1: "phase1Stage E current nd w1 = (nd1, u1, w3)" by (simp add: phase1Stage_def n p1)
  obtain r2 w4 where a: "(if u1 then getBooks E w3 else (Inr current, w3)) = (r2, w4)"
    by (cases "if u1 then getBooks E w3 else (Inr current, w3)")
  obtain after where r2: "r2 = Inr after"
    using a getBooks_plain(1) [OF w3, of E] by (cases u1) auto
  have w4: "plainStore w4" using a getBooks_plain(2) [OF w3, of E] w3 by (cases u1) auto
  obtain c2 w5 where n2: "needsGoogle E nd1 after w4 = (c2, w5)"
    by (cases "needsGoogle E nd1 after w4")
  have w5: "plainStore w5"
    using plainStore_slot [of w5 w4] w4 needsGoogle_fields(1) [of E nd1 after w4] by (simp add: n2)
  obtain nd2 u2 w6 where p2: "phase2 E c2 (nd1, u1, w5) = (nd2, u2, w6)"
    by (cases "phase2 E c2 (nd1, u1, w5)")
  have w6: "plainStore w6" using phase2_plain [OF assms(1) w5, of c2 nd1 u1] by (simp add: p2)
  have s2: "phase2Stage E current (nd1, u1, w3) = (None, nd2, u2, w6)"
    by (simp add: phase2Stage_def a r2 n2 p2)
  show ?thesis
    by (simp add: runBackfill_def l s1 s2 persist_plain [OF w6])
qed

lemma backfillBookData_plain:
  assumes "\<And>n. plainGoogle (googleNet E n)" and "plainStore w"
  shows "fst (backfillBookData E w) = None"
proof -
  obtain c w1 where cd: "cooldownActive E w = (c, w1)" by (cases "cooldownActive E w")
  have "books_slot w1 = books_slot w"
    using cd by (auto simp: cooldownActive_def dateNow_def split: option.splits if_splits)
  then have "plainStore w1" using assms(2) plainStore_slot [of w1 w] by simp
  then show ?thesis
    using runBackfill_plain [OF assms(1), of w1] by (simp add: backfillBookData_def cd)
qed

section \<open>The example inputs, evaluated\<close>

lemma example_asin: "extractAsin (js ''/dp/4774142042'') = Some (js ''4774142042'')"
  by (simp add: asinAt_def asinAfter_def asciiUpper_def isAlnum_def isDigit_def isAsciiLetter_def)

lemma example_url: "extractAsin (b_purchaseUrl exampleBook) = Some (js ''4774142042'')"
  using example_asin by (simp add: exampleBook_def)

lemma example_link: "hasIsbnLink exampleBook"
proof -
  have "b_purchaseUrl exampleBook \<noteq> []" by (simp add: exampleBook_def)
  then show ?thesis by (simp add: hasIsbnLink_def example_url isLikelyIsbn_def isDigit_def)
qed

lemma example_missing: "isMissingData exampleBook"
  by (simp add: isMissingData_def exampleBook_def)

lemma example_genre: "b_genre exampleBook = GenreText []"
  by (simp add: exampleBook_def)

lemma example_plain_id: "b_id exampleBook \<notin> set objectMembers"
  by (simp add: exampleBook_def objectMembers_def)

text \<open>A store of records of the current shape whose genres need no migration is read as it is.\<close>

lemma migrateBook_current:
  "\<not> needsGenreMigration E b \<Longrightarrow> migrateBook E (toStored b) = b"
  "\<not> needsGenreMigration E b \<Longrightarrow> \<not> needsMigration E (toStored b)"
  by (simp_all add: migrateBook_def needsMigration_def migrateGenre_unchanged)

lemma getBooks_current:
  assumes "books_slot w = Some (map toStored bs)"
    and "list_all (\<lambda>b. b_genre b \<noteq> GenreObject \<and> \<not> needsGenreMigration E b) bs"
  shows "getBooks E w = (Inr bs, w)"
proof -
  have m: "map (migrateBook E) (map toStored bs) = bs"
    using assms(2) by (induction bs) (simp_all add: migrateBook_current)
  have n: "\<not> list_ex (needsMigration E) (map toStored bs)"
    using assms(2) by (induction bs) (simp_all add: migrateBook_current)
  have o: "\<not> list_ex (\<lambda>s. sb_genre s = GenreObject) (map toStored bs)"
    using assms(2) by (induction bs) simp_all
  show ?thesis
    using m n o by (simp add: getBooks_def Let_def assms(1))
qed

lemma example_no_migration: "\<not> needsGenreMigration E exampleBook"
  by (simp add: needsGenreMigration_def example_genre)

lemma example_getBooks:
  "books_slot w = Some [toStored exampleBook] \<Longrightarrow> getBooks E w = (Inr [exampleBook], w)"
  using getBooks_current [of w "[exampleBook]" E]
  by (simp add: example_no_migration example_genre)

lemma example_cooldown: "cooldownActive exampleEnv exampleWorld = (False, exampleWorld)"
  by (simp add: cooldownActive_def exampleWorld_def)

lemma example_load: "loadState exampleEnv exampleWorld = (Inr ([exampleBook], []), exampleWorld)"
  by (simp add: loadState_def example_getBooks getNoDataSet_def exampleWorld_def)

lemma example_candidates_any:
  "needsIsbnLookup E [] [exampleBook] w = ([exampleBook], w)"
  by (subst needsIsbnLookup_empty_cache_plain)
     (simp_all add: example_link example_missing example_plain_id)

lemma example_candidates:
  "needsIsbnLookup exampleEnv [] [exampleBook] exampleWorld = ([exampleBook], exampleWorld)"
  by (rule example_candidates_any)

lemma example_lookup_any:
  "isbnLookup exampleEnv exampleBook w =
     (Inl RateLimitError,
      w\<lparr>requests := requests w @ [GoogleIsbnRequest (js ''4774142042''),
                                     OpenBDRequest (normalizeIsbn (js ''4774142042''))]\<rparr>)"
proof -
  note a = example_url
  have s: "searchByIsbn isbn (Response 404 JsonNull) (Response 429 JsonNull) = Inl RateLimitError" for isbn
    by (simp add: searchByIsbn_def mergeResults_def openBDPromise_def searchByIsbnOpenBD_def
        httpOk_def googlePromise_def googleIsbnThen_def)
  show ?thesis
    by (simp add: isbnLookup_def Let_def a s exampleEnv_def)
qed

lemma example_lookup:
  "isbnLookup exampleEnv exampleBook exampleWorld =
     (Inl RateLimitError,
      exampleWorld\<lparr>requests := [GoogleIsbnRequest (js ''4774142042''),
                                 OpenBDRequest (normalizeIsbn (js ''4774142042''))]\<rparr>)"
  unfolding example_lookup_any by (simp add: exampleWorld_def)

lemma example_query: "searchQuery exampleBook = js ''Kokoro Natsume''"
  by (simp add: searchQuery_def exampleBook_def)

lemma example_title: "b_title exampleBook \<noteq> []"
  by (simp add: exampleBook_def)

lemma example_candidates2_any:
  "needsGoogle E [] [exampleBook] w = ([exampleBook], w)"
  unfolding needsGoogle_def
  by (subst needsGoogleFilter_empty_cache_plain)
     (simp_all add: example_title example_missing example_plain_id MAX_GOOGLE_PER_SESSION_def)

lemma example_phase2:
  "phase2Stage exampleEnv [exampleBook] ([], False, w) =
     (None, [], False, w\<lparr>requests := requests w @ [GoogleSearchRequest (js ''Kokoro Natsume'')]\<rparr>)"
proof -
  have q: "\<not> list_all isWhiteSpace (searchQuery exampleBook)"
    unfolding example_query by (simp add: isWhiteSpace_def)
  have f: "wellFormed (searchQuery exampleBook)"
    unfolding example_query by (simp add: isHighSurrogate_def isLowSurrogate_def)
  have s: "searchBooksFetched (googleNet exampleEnv n) = Inl RateLimitError" for n
    by (simp add: searchBooksFetched_def exampleEnv_def)
  have "searchBooks exampleEnv (searchQuery exampleBook) w =
      (Inl RateLimitError, w\<lparr>requests := requests w @ [GoogleSearchRequest (searchQuery exampleBook)]\<rparr>)"
    by (simp add: searchBooks_def q f s)
  then have "phase2 exampleEnv [exampleBook] ([], False, w) =
      ([], False, w\<lparr>requests := requests w @ [GoogleSearchRequest (searchQuery exampleBook)]\<rparr>)"
    by (simp add: phase2_step)
  then show ?thesis
    unfolding phase2Stage_def example_query by (simp add: example_candidates2_any)
qed

lemma example_phase1_any:
  "phase1 exampleEnv [exampleBook] (nd, u, w) =
     (nd, u, w\<lparr>requests := requests w @ [GoogleIsbnRequest (js ''4774142042''),
                                     OpenBDRequest (normalizeIsbn (js ''4774142042''))]\<rparr>)"
  by (simp add: phase1_step example_lookup_any)

lemma example_phase1:
  "phase1Stage exampleEnv [exampleBook] [] exampleWorld =
      ([], False, exampleWorld\<lparr>requests := [GoogleIsbnRequest (js ''4774142042''),
                                 OpenBDRequest (normalizeIsbn (js ''4774142042''))]\<rparr>)"
proof -
  have "phase1Stage exampleEnv [exampleBook] [] exampleWorld
      = phase1 exampleEnv [exampleBook] ([], False, exampleWorld)"
    unfolding phase1Stage_def example_candidates by simp
  then show ?thesis
    unfolding example_phase1_any by (simp add: exampleWorld_def)
qed

lemma example_run:
  "backfillBookData exampleEnv exampleWorld =
     (None,
      \<lparr> books_slot = Some [toStored exampleBook], backfill_ts = Some (js ''5''),
        nodata_slot = Some (CacheJson []), ticks = 1,
        requests = [GoogleIsbnRequest (js ''4774142042''),
                    OpenBDRequest (normalizeIsbn (js ''4774142042'')),
                    GoogleSearchRequest (js ''Kokoro Natsume'')] \<rparr>)"
proof -
  have five: "natToString 5 = js ''5''" by (simp add: natToString.simps)
  have c: "clock exampleEnv n = 5" for n by (simp add: exampleEnv_def)
  have "backfillBookData exampleEnv exampleWorld = runBackfill exampleEnv exampleWorld"
    by (simp add: backfillBookData_def example_cooldown)
  also have "\<dots> = persist exampleEnv ([], False,
      exampleWorld\<lparr>requests := [GoogleIsbnRequest (js ''4774142042''),
                   OpenBDRequest (normalizeIsbn (js ''4774142042'')),
                   GoogleSearchRequest (js ''Kokoro Natsume'')]\<rparr>)"
    by (simp add: runBackfill_def example_load example_phase1 example_phase2)
  finally have "backfillBookData exampleEnv exampleWorld = persist exampleEnv ([], False,
      exampleWorld\<lparr>requests := [GoogleIsbnRequest (js ''4774142042''),
                   OpenBDRequest (normalizeIsbn (js ''4774142042'')),
                   GoogleSearchRequest (js ''Kokoro Natsume'')]\<rparr>)" .
  then show ?thesis
    by (simp add: persist_def dateNow_def c five exampleWorld_def)
qed

lemma example_clock: "clock exampleEnv n = 5"
  by (simp add: exampleEnv_def)

lemma example_second_run_facts:
  "backfill_ts (snd (backfillBookData exampleEnv exampleWorld)) = Some (js ''5'')"
  "toNumber exampleEnv (js ''5'') = Num 5"
  "clock exampleEnv (ticks (snd (backfillBookData exampleEnv exampleWorld))) - 5 < ONE_DAY"
proof -
  show "backfill_ts (snd (backfillBookData exampleEnv exampleWorld)) = Some (js ''5'')"
    unfolding example_run by simp
  show "toNumber exampleEnv (js ''5'') = Num 5"
    by (simp add: exampleEnv_def decimalNumber_def isDigit_def)
  show "clock exampleEnv (ticks (snd (backfillBookData exampleEnv exampleWorld))) - 5 < ONE_DAY"
    unfolding example_clock by (simp add: ONE_DAY_def)
qed


lemma example_id: "b_id exampleBook = js ''b1''"
  by (simp add: exampleBook_def)










lemma quota_lookup:
  assumes "extractAsin (b_purchaseUrl book) = Some asin"
    and "googleNet E (length (requests w)) = Response 429 body"
    and "openBDPromise asin (openbdNet E (length (requests w))) = None"
  shows "isbnLookup E book w =
           (Inl RateLimitError,
            w\<lparr>requests := requests w @ [GoogleIsbnRequest asin, OpenBDRequest (normalizeIsbn asin)]\<rparr>)"
proof -
  have "googlePromise (Response 429 body) = RATE_LIMITED"
    by (simp add: googlePromise_def googleIsbnThen_def)
  then show ?thesis
    using assms by (simp add: isbnLookup_def Let_def searchByIsbn_def mergeResults_def)
qed

lemma phase1_found:
  "isbnLookup E book w = (Inr (Some result), w1) \<Longrightarrow>
     phase1 E (book # books) (nd, u, w)
       = phase1 E books (snd (applyResult E book result (nd, u, w1)))"
  by (simp add: phase1_step)

lemma phase1_requests:
  "requests (snd (snd (phase1 E [] st))) = requests (snd (snd st))"
  by simp

lemma phase1_last_requests:
  assumes "extractAsin (b_purchaseUrl book) = Some asin"
  shows "requests (snd (snd (phase1 E [book] (nd, u, w))))
           = requests w @ [GoogleIsbnRequest asin, OpenBDRequest (normalizeIsbn asin)]"
proof -
  obtain r w1 where l: "isbnLookup E book w = (r, w1)" by (cases "isbnLookup E book w")
  have w1: "requests w1 = requests w @ [GoogleIsbnRequest asin, OpenBDRequest (normalizeIsbn asin)]"
    using isbnLookup_requests [OF assms, of E w] by (simp add: l)
  show ?thesis
  proof (cases r)
    case (Inl err)
    then show ?thesis by (simp add: phase1_step l w1)
  next
    case (Inr res)
    show ?thesis
    proof (cases res)
      case None
      then show ?thesis using Inr by (simp add: phase1_step l w1)
    next
      case (Some result)
      then show ?thesis
        using Inr applyResult_fields(3) [of E book result "(nd, u, w1)"]
        by (simp add: phase1_step l w1)
    qed
  qed
qed

lemma registry_lookup:
  "fst (isbnLookup registryEnv exampleBook w) =
     Inr (Some (openBDResult (normalizeIsbn (js ''4774142042'')) (js ''Kokoro'') exampleSummary None))"
proof -
  have o: "openBDPromise asin exampleOpenBDReply
      = Some (openBDResult (normalizeIsbn asin) (js ''Kokoro'') exampleSummary None)" for asin
    by (simp add: openBDPromise_def searchByIsbnOpenBD_def exampleOpenBDReply_def httpOk_def
        exampleSummary_def)
  have g: "googlePromise (Response 429 JsonNull) = RATE_LIMITED"
    by (simp add: googlePromise_def googleIsbnThen_def)
  have e: "openbdNet registryEnv n = exampleOpenBDReply" "googleNet registryEnv n = Response 429 JsonNull" for n
    by (simp_all add: registryEnv_def exampleEnv_def)
  show ?thesis
    unfolding isbnLookup_def Let_def example_url
    by (simp add: searchByIsbn_def mergeResults_def e o g)
qed

lemma example_two_candidates:
  "needsIsbnLookup registryEnv [] [exampleBook, exampleBook2] twoBooksWorld
      = ([exampleBook, exampleBook2], twoBooksWorld)"
  "extractAsin (b_purchaseUrl exampleBook2) = Some (js ''4774142042'')"
proof -
  show u: "extractAsin (b_purchaseUrl exampleBook2) = Some (js ''4774142042'')"
    using example_url by (simp add: exampleBook2_def)
  have "hasIsbnLink exampleBook2" "isMissingData exampleBook2"
    using example_link example_missing
    by (simp_all add: exampleBook2_def hasIsbnLink_def isMissingData_def)
  moreover have "b_id exampleBook2 \<notin> set objectMembers"
    by (simp add: exampleBook2_def objectMembers_def)
  ultimately show "needsIsbnLookup registryEnv [] [exampleBook, exampleBook2] twoBooksWorld
      = ([exampleBook, exampleBook2], twoBooksWorld)"
    by (subst needsIsbnLookup_empty_cache_plain)
       (simp_all add: example_link example_missing example_plain_id)
qed

lemma example_registry_phase1:
  "requests (snd (snd (phase1Stage registryEnv [exampleBook, exampleBook2] [] twoBooksWorld))) =
       [GoogleIsbnRequest (js ''4774142042''), OpenBDRequest (normalizeIsbn (js ''4774142042'')),
        GoogleIsbnRequest (js ''4774142042''), OpenBDRequest (normalizeIsbn (js ''4774142042''))]"
proof -
  define R where
    "R = openBDResult (normalizeIsbn (js ''4774142042'')) (js ''Kokoro'') exampleSummary None"
  obtain r w1 where l: "isbnLookup registryEnv exampleBook twoBooksWorld = (r, w1)"
    by (cases "isbnLookup registryEnv exampleBook twoBooksWorld")
  have r: "r = Inr (Some R)"
    using registry_lookup [of twoBooksWorld] unfolding R_def l by simp
  have l': "isbnLookup registryEnv exampleBook twoBooksWorld = (Inr (Some R), w1)"
    using l r by simp
  have w1: "requests w1 = [GoogleIsbnRequest (js ''4774142042''),
        OpenBDRequest (normalizeIsbn (js ''4774142042''))]"
  proof -
    have "requests twoBooksWorld = []" by (simp add: twoBooksWorld_def exampleWorld_def)
    then show ?thesis
      using isbnLookup_requests [OF example_url, of registryEnv twoBooksWorld]
      by (simp add: l)
  qed
  obtain e nd u w2 where ar:
    "applyResult registryEnv exampleBook R ([], False, w1) = (e, nd, u, w2)"
    by (cases "applyResult registryEnv exampleBook R ([], False, w1)") auto
  have w2: "requests w2 = requests w1"
  proof -
    have "requests (snd (snd (snd (e, nd, u, w2)))) = requests (snd (snd ([]::noData, False, w1)))"
      unfolding ar [symmetric] by (rule applyResult_fields(3))
    then show ?thesis by simp
  qed
  have "phase1 registryEnv [exampleBook, exampleBook2] ([], False, twoBooksWorld)
      = phase1 registryEnv [exampleBook2] (nd, u, w2)"
    unfolding phase1_found [OF l'] ar by simp
  then have "requests (snd (snd (phase1Stage registryEnv [exampleBook, exampleBook2] [] twoBooksWorld)))
      = requests w2 @ [GoogleIsbnRequest (js ''4774142042''),
           OpenBDRequest (normalizeIsbn (js ''4774142042''))]"
    unfolding phase1Stage_def example_two_candidates(1)
    using phase1_last_requests [OF example_two_candidates(2), of registryEnv nd u w2]
    by simp
  then show ?thesis
    unfolding w2 w1 by simp
qed

text \<open>
  What becomes of a genre that is no text: the member \<open>constructor\<close> is a function, and
  the stored record has no genre; the member \<open>__proto__\<close> is stored as an empty object,
  and from then on \<open>getBooks\<close> raises.
\<close>

lemma inherited_genre_stored:
  "storedGenre (mapCategoryToGenre asciiLower [js ''constructor'']) = GenreMissing"
  "storedGenre (mapCategoryToGenre asciiLower [js ''__proto__'']) = GenreObject"
proof -
  have a: "getProperty CATEGORY_MAP (js ''constructor'') = Some (Member (js ''constructor''))"
    "getProperty CATEGORY_MAP (js ''__proto__'') = Some (Member (js ''__proto__''))"
    by (rule getProperty_inherited; simp add: CATEGORY_MAP_def objectMembers_def)+
  have "mapCategoryToGenre asciiLower [js ''constructor''] = Member (js ''constructor'')"
    unfolding mapCategoryToGenre_def categoryLoop.simps a by simp
  then show "storedGenre (mapCategoryToGenre asciiLower [js ''constructor'']) = GenreMissing"
    by simp
  have "mapCategoryToGenre asciiLower [js ''__proto__''] = Member (js ''__proto__'')"
    unfolding mapCategoryToGenre_def categoryLoop.simps a by simp
  then show "storedGenre (mapCategoryToGenre asciiLower [js ''__proto__'']) = GenreObject"
    by simp
qed

lemma object_genre_raises:
  "books_slot w = Some stored \<Longrightarrow> s \<in> set stored \<Longrightarrow> sb_genre s = GenreObject \<Longrightarrow>
     getBooks E w = (Inl TypeError, w)"
  by (auto simp: getBooks_def list_ex_iff)

lemma example_load_empty:
  assumes "books_slot w = Some [toStored exampleBook]" and "getNoDataSet w = []"
  shows "loadState exampleEnv w = (Inr ([exampleBook], []), w)"
  by (simp add: loadState_def example_getBooks [OF assms(1)] assms(2))

lemma example_phase1_stage_any:
  "phase1Stage exampleEnv [exampleBook] [] w =
     ([], False, w\<lparr>requests := requests w @ [GoogleIsbnRequest (js ''4774142042''),
                                     OpenBDRequest (normalizeIsbn (js ''4774142042''))]\<rparr>)"
proof -
  have "phase1Stage exampleEnv [exampleBook] [] w = phase1 exampleEnv [exampleBook] ([], False, w)"
    unfolding phase1Stage_def example_candidates_any by simp
  then show ?thesis
    unfolding example_phase1_any by simp
qed

lemma persist_no_update: "fst (persist E (nd, False, w)) = None"
  by (simp add: persist_def dateNow_def Let_def)

lemma example_run_completes:
  assumes "books_slot w = Some [toStored exampleBook]" and "getNoDataSet w = []"
  shows "fst (runBackfill exampleEnv w) = None"
  by (simp add: runBackfill_def example_load_empty [OF assms] example_phase1_stage_any
      example_phase2 persist_no_update)

lemma phase2Stage_no_update: "fst (phase2Stage E current (nd, False, w)) = None"
  by (simp add: phase2Stage_def split: prod.splits)

section \<open>Properties of the scheduler: the claims\<close>

text \<open>
  C3. If the stored last-run timestamp exists, denotes a number and is less than 24 hours
  before the clock reading of the cooldown check, the run returns right after the check:
  the record store, the negative-result cache, the last-run timestamp and the request
  log are as before. A second run within 24 hours of a completed run is such a run.
\<close>

theorem cooldown_noop:
  assumes "backfill_ts w = Some lastRun" and "lastRun \<noteq> []"
    and "toNumber E lastRun = Num t" and "clock E (ticks w) - t < ONE_DAY"
  shows "fst (backfillBookData E w) = None
       \<and> books_slot (snd (backfillBookData E w)) = books_slot w
       \<and> nodata_slot (snd (backfillBookData E w)) = nodata_slot w
       \<and> backfill_ts (snd (backfillBookData E w)) = backfill_ts w
       \<and> requests (snd (backfillBookData E w)) = requests w"
  using cooldown_return [OF assms] by simp

theorem cooldown_noop_witness:
  "backfill_ts (snd (backfillBookData exampleEnv exampleWorld)) = Some (js ''5'')
   \<and> js ''5'' \<noteq> []
   \<and> toNumber exampleEnv (js ''5'') = Num 5
   \<and> clock exampleEnv (ticks (snd (backfillBookData exampleEnv exampleWorld))) - 5 < ONE_DAY
   \<and> fst (backfillBookData exampleEnv (snd (backfillBookData exampleEnv exampleWorld))) = None
   \<and> books_slot (snd (backfillBookData exampleEnv (snd (backfillBookData exampleEnv exampleWorld))))
       = books_slot (snd (backfillBookData exampleEnv exampleWorld))
   \<and> nodata_slot (snd (backfillBookData exampleEnv (snd (backfillBookData exampleEnv exampleWorld))))
       = nodata_slot (snd (backfillBookData exampleEnv exampleWorld))
   \<and> backfill_ts (snd (backfillBookData exampleEnv (snd (backfillBookData exampleEnv exampleWorld))))
       = backfill_ts (snd (backfillBookData exampleEnv exampleWorld))
   \<and> requests (snd (backfillBookData exampleEnv (snd (backfillBookData exampleEnv exampleWorld))))
       = requests (snd (backfillBookData exampleEnv exampleWorld))"
proof -
  have ne: "js ''5'' \<noteq> []" by simp
  show ?thesis
    using cooldown_noop [OF example_second_run_facts(1) ne example_second_run_facts(2,3)]
      example_second_run_facts ne
    by simp
qed








text \<open>
  C2, as amended. If the search provider answers the lookup of the first Phase-1 candidate
  with the quota status and the registry has no result for it, the lookup raises the rate
  limit and Phase 1 ends there: no cache entry, no update, and the two requests of that
  lookup are the only ISBN-lookup requests of the run. Phase 2 then runs as usual on the
  unchanged record set, and the run ends by persisting the cache and the last-run
  timestamp.
\<close>

theorem quota_on_first_candidate:
  assumes "cooldownActive E w = (False, w0)"
    and "loadState E w0 = (Inr (current, noData), w1)"
    and "needsIsbnLookup E noData current w1 = (book # rest, w2)"
    and "extractAsin (b_purchaseUrl book) = Some asin"
    and "googleNet E (length (requests w2)) = Response 429 body"
    and "openBDPromise asin (openbdNet E (length (requests w2))) = None"
  shows "isbnLookup E book w2 =
           (Inl RateLimitError,
            w2\<lparr>requests := requests w2 @ [GoogleIsbnRequest asin, OpenBDRequest (normalizeIsbn asin)]\<rparr>)
       \<and> phase1Stage E current noData w1 =
           (noData, False,
            w2\<lparr>requests := requests w2 @ [GoogleIsbnRequest asin, OpenBDRequest (normalizeIsbn asin)]\<rparr>)
       \<and> backfillBookData E w =
           persist E (snd (phase2Stage E current (noData, False,
             w2\<lparr>requests := requests w2 @ [GoogleIsbnRequest asin, OpenBDRequest (normalizeIsbn asin)]\<rparr>)))
       \<and> filter isIsbnRequest (requests (snd (backfillBookData E w)))
           = filter isIsbnRequest (requests w)
             @ [GoogleIsbnRequest asin, OpenBDRequest (normalizeIsbn asin)]
       \<and> (\<exists>nd t. nodata_slot (snd (backfillBookData E w)) = Some (CacheJson nd)
              \<and> backfill_ts (snd (backfillBookData E w)) = Some (numberToString (Num t)))"
proof -
  define w3 where
    "w3 = w2\<lparr>requests := requests w2 @ [GoogleIsbnRequest asin, OpenBDRequest (normalizeIsbn asin)]\<rparr>"
  have l: "isbnLookup E book w2 = (Inl RateLimitError, w3)"
    unfolding w3_def by (rule quota_lookup [OF assms(4,5,6)])
  have p1: "phase1Stage E current noData w1 = (noData, False, w3)"
    by (simp add: phase1Stage_def assms(3) phase1_step l)
  obtain e st where p2: "phase2Stage E current (noData, False, w3) = (e, st)"
    by (cases "phase2Stage E current (noData, False, w3)") auto
  have e: "e = None" using phase2Stage_no_update [of E current noData w3] by (simp add: p2)
  have run: "backfillBookData E w = persist E (snd (phase2Stage E current (noData, False, w3)))"
    by (simp add: backfillBookData_def assms(1,2) runBackfill_def p1 p2 e)
  have r0: "requests w0 = requests w" using cooldownActive_requests [of E w] by (simp add: assms(1))
  have r1: "requests w1 = requests w0" using loadState_requests [of E w0] by (simp add: assms(2))
  have r2: "requests w2 = requests w1"
    using needsIsbnLookup_fields(4) [of E noData current w1] by (simp add: assms(3))
  have r3: "requests w3 = requests w @ [GoogleIsbnRequest asin, OpenBDRequest (normalizeIsbn asin)]"
    by (simp add: w3_def r2 r1 r0)
  have "filter isIsbnRequest (requests (snd (backfillBookData E w))) = filter isIsbnRequest (requests w3)"
    using phase2Stage_isbn_requests [of E current "(noData, False, w3)"]
    by (simp add: run persist_requests)
  then have req: "filter isIsbnRequest (requests (snd (backfillBookData E w)))
      = filter isIsbnRequest (requests w) @ [GoogleIsbnRequest asin, OpenBDRequest (normalizeIsbn asin)]"
    by (simp add: r3 isIsbnRequest_def)
  have per: "\<exists>nd t. nodata_slot (snd (backfillBookData E w)) = Some (CacheJson nd)
              \<and> backfill_ts (snd (backfillBookData E w)) = Some (numberToString (Num t))"
    unfolding run by (rule persist_persists)
  show ?thesis
    using l p1 run req per unfolding w3_def by blast
qed

theorem quota_on_first_candidate_witness:
  "cooldownActive exampleEnv exampleWorld = (False, exampleWorld)
   \<and> loadState exampleEnv exampleWorld = (Inr ([exampleBook], []), exampleWorld)
   \<and> needsIsbnLookup exampleEnv [] [exampleBook] exampleWorld = ([exampleBook], exampleWorld)
   \<and> extractAsin (b_purchaseUrl exampleBook) = Some (js ''4774142042'')
   \<and> googleNet exampleEnv (length (requests exampleWorld)) = Response 429 JsonNull
   \<and> openBDPromise (js ''4774142042'') (openbdNet exampleEnv (length (requests exampleWorld))) = None
   \<and> fst (isbnLookup exampleEnv exampleBook exampleWorld) = Inl RateLimitError
   \<and> fst (phase1Stage exampleEnv [exampleBook] [] exampleWorld) = []
   \<and> fst (snd (phase1Stage exampleEnv [exampleBook] [] exampleWorld)) = False
   \<and> filter isIsbnRequest (requests (snd (backfillBookData exampleEnv exampleWorld))) =
       [GoogleIsbnRequest (js ''4774142042''), OpenBDRequest (normalizeIsbn (js ''4774142042''))]
   \<and> nodata_slot (snd (backfillBookData exampleEnv exampleWorld)) = Some (CacheJson [])
   \<and> backfill_ts (snd (backfillBookData exampleEnv exampleWorld)) = Some (js ''5'')"
proof -
  have g: "googleNet exampleEnv (length (requests exampleWorld)) = Response 429 JsonNull"
    by (simp add: exampleEnv_def)
  have o: "openBDPromise (js ''4774142042'') (openbdNet exampleEnv (length (requests exampleWorld))) = None"
    by (simp add: exampleEnv_def openBDPromise_def searchByIsbnOpenBD_def httpOk_def)
  note t = quota_on_first_candidate [OF example_cooldown example_load example_candidates
      example_url g o]
  have l: "fst (isbnLookup exampleEnv exampleBook exampleWorld) = Inl RateLimitError"
    using t by simp
  have p1: "fst (phase1Stage exampleEnv [exampleBook] [] exampleWorld) = []"
    using t by simp
  have p2: "fst (snd (phase1Stage exampleEnv [exampleBook] [] exampleWorld)) = False"
    using t by simp
  have e: "requests exampleWorld = []" by (simp add: exampleWorld_def)
  have r: "filter isIsbnRequest (requests (snd (backfillBookData exampleEnv exampleWorld))) =
       [GoogleIsbnRequest (js ''4774142042''), OpenBDRequest (normalizeIsbn (js ''4774142042''))]"
    using t [THEN conjunct2, THEN conjunct2, THEN conjunct2, THEN conjunct1]
    unfolding e by simp
  have n: "nodata_slot (snd (backfillBookData exampleEnv exampleWorld)) = Some (CacheJson [])"
    unfolding example_run by simp
  have b: "backfill_ts (snd (backfillBookData exampleEnv exampleWorld)) = Some (js ''5'')"
    unfolding example_run by simp
  show ?thesis
    by (intro conjI) (rule example_cooldown example_load example_candidates example_url g o l p1 p2 r n b)+
qed

text \<open>
  The quota signal does not end the run. In the first example run the lookup of the first
  Phase-1 candidate raises the rate limit, and the run still issues a title search for the
  Phase-2 candidate. In the second, the search provider answers 429 to the first
  candidate while the registry has a result: the merge absorbs the signal and Phase 1
  goes on to look up the second candidate.
\<close>

theorem quota_does_not_stop_the_run:
  "fst (needsIsbnLookup exampleEnv [] [exampleBook] exampleWorld) = [exampleBook]
   \<and> fst (isbnLookup exampleEnv exampleBook exampleWorld) = Inl RateLimitError
   \<and> requests (snd (backfillBookData exampleEnv exampleWorld)) =
       [GoogleIsbnRequest (js ''4774142042''), OpenBDRequest (normalizeIsbn (js ''4774142042'')),
        GoogleSearchRequest (js ''Kokoro Natsume'')]
   \<and> fst (needsIsbnLookup registryEnv [] [exampleBook, exampleBook2] twoBooksWorld)
       = [exampleBook, exampleBook2]
   \<and> googleNet registryEnv 0 = Response 429 JsonNull
   \<and> requests (snd (snd (phase1Stage registryEnv [exampleBook, exampleBook2] [] twoBooksWorld))) =
       [GoogleIsbnRequest (js ''4774142042''), OpenBDRequest (normalizeIsbn (js ''4774142042'')),
        GoogleIsbnRequest (js ''4774142042''), OpenBDRequest (normalizeIsbn (js ''4774142042''))]"
proof -
  have a: "fst (needsIsbnLookup exampleEnv [] [exampleBook] exampleWorld) = [exampleBook]"
    unfolding example_candidates by simp
  have b: "fst (isbnLookup exampleEnv exampleBook exampleWorld) = Inl RateLimitError"
    unfolding example_lookup by simp
  have c: "requests (snd (backfillBookData exampleEnv exampleWorld)) =
       [GoogleIsbnRequest (js ''4774142042''), OpenBDRequest (normalizeIsbn (js ''4774142042'')),
        GoogleSearchRequest (js ''Kokoro Natsume'')]"
    unfolding example_run by simp
  have d: "fst (needsIsbnLookup registryEnv [] [exampleBook, exampleBook2] twoBooksWorld)
       = [exampleBook, exampleBook2]"
    unfolding example_two_candidates(1) by simp
  have e: "googleNet registryEnv 0 = Response 429 JsonNull"
    by (simp add: registryEnv_def exampleEnv_def)
  show ?thesis by (intro conjI) (rule a b c d e example_registry_phase1)+
qed




















end
